theory Spec2Isabelle
  imports Complex_Main
begin

section \<open>Dense arrays\<close>

text \<open>
  The drivers compute with numpy arrays of floats. A one-dimensional array is a list of
  reals, a two-dimensional array is the list of its rows. Floating-point numbers are
  idealised as reals. Every operation is given by its shape and its entries.
\<close>

type_synonym vec = "real list"
type_synonym mat = "real list list"

definition mk_vec :: "nat \<Rightarrow> (nat \<Rightarrow> real) \<Rightarrow> vec" where
  "mk_vec n f = map f [0..<n]"

definition mk_mat :: "nat \<Rightarrow> nat \<Rightarrow> (nat \<Rightarrow> nat \<Rightarrow> real) \<Rightarrow> mat" where
  "mk_mat r c f = map (\<lambda>i. map (f i) [0..<c]) [0..<r]"

definition ncols :: "mat \<Rightarrow> nat" where
  "ncols A = (case A of [] \<Rightarrow> 0 | row # _ \<Rightarrow> length row)"

definition is_mat :: "nat \<Rightarrow> nat \<Rightarrow> mat \<Rightarrow> bool" where
  "is_mat r c A \<longleftrightarrow> length A = r \<and> list_all (\<lambda>row. length row = c) A"

text \<open>\<^verbatim>\<open>np.zeros(n)\<close>, \<^verbatim>\<open>np.zeros([r, c])\<close> and \<^verbatim>\<open>np.eye(n)\<close>.\<close>

definition zeros_vec :: "nat \<Rightarrow> vec" where
  "zeros_vec n = mk_vec n (\<lambda>_. 0)"

definition zeros :: "nat \<Rightarrow> nat \<Rightarrow> mat" where
  "zeros r c = mk_mat r c (\<lambda>_ _. 0)"

definition eye :: "nat \<Rightarrow> mat" where
  "eye n = mk_mat n n (\<lambda>i j. if i = j then 1 else 0)"

text \<open>\<^verbatim>\<open>np.matmul\<close> of two matrices, and of a matrix and a vector.\<close>

definition matmul :: "mat \<Rightarrow> mat \<Rightarrow> mat" where
  "matmul A B = mk_mat (length A) (ncols B) (\<lambda>i j. \<Sum>k<length B. A ! i ! k * B ! k ! j)"

definition matvec :: "mat \<Rightarrow> vec \<Rightarrow> vec" where
  "matvec A v = mk_vec (length A) (\<lambda>i. \<Sum>k<length v. A ! i ! k * v ! k)"

text \<open>Entrywise sum and difference, and the product with a scalar.\<close>

definition madd :: "mat \<Rightarrow> mat \<Rightarrow> mat" where
  "madd A B = mk_mat (length A) (ncols A) (\<lambda>i j. A ! i ! j + B ! i ! j)"

definition msub :: "mat \<Rightarrow> mat \<Rightarrow> mat" where
  "msub A B = mk_mat (length A) (ncols A) (\<lambda>i j. A ! i ! j - B ! i ! j)"

definition smult :: "real \<Rightarrow> mat \<Rightarrow> mat" where
  "smult a A = mk_mat (length A) (ncols A) (\<lambda>i j. a * A ! i ! j)"

definition vadd :: "vec \<Rightarrow> vec \<Rightarrow> vec" where
  "vadd u v = mk_vec (length u) (\<lambda>i. u ! i + v ! i)"

definition vsub :: "vec \<Rightarrow> vec \<Rightarrow> vec" where
  "vsub u v = mk_vec (length u) (\<lambda>i. u ! i - v ! i)"

definition svmult :: "real \<Rightarrow> vec \<Rightarrow> vec" where
  "svmult a v = mk_vec (length v) (\<lambda>i. a * v ! i)"

text \<open>\<^verbatim>\<open>np.transpose\<close>.\<close>

definition np_transpose :: "mat \<Rightarrow> mat" where
  "np_transpose A = mk_mat (ncols A) (length A) (\<lambda>i j. A ! j ! i)"

text \<open>
  Slices. \<^verbatim>\<open>v[a:b]\<close> and \<^verbatim>\<open>A[r0:r1, c0:c1]\<close> read a block (clipped to the array, as
  Python slices are); \<^verbatim>\<open>v[a:b] = w\<close> and \<^verbatim>\<open>A[r0:r1, c0:c1] = B\<close> overwrite a block and
  leave every other entry as it was.
\<close>

definition slice_vec :: "vec \<Rightarrow> nat \<Rightarrow> nat \<Rightarrow> vec" where
  "slice_vec v a b = take (b - a) (drop a v)"

definition slice_mat :: "mat \<Rightarrow> nat \<Rightarrow> nat \<Rightarrow> nat \<Rightarrow> nat \<Rightarrow> mat" where
  "slice_mat A r0 r1 c0 c1 = map (\<lambda>row. take (c1 - c0) (drop c0 row)) (take (r1 - r0) (drop r0 A))"

definition assign_slice :: "vec \<Rightarrow> nat \<Rightarrow> nat \<Rightarrow> vec \<Rightarrow> vec" where
  "assign_slice v a b w = mk_vec (length v) (\<lambda>i. if a \<le> i \<and> i < b then w ! (i - a) else v ! i)"

definition assign_block :: "mat \<Rightarrow> nat \<Rightarrow> nat \<Rightarrow> nat \<Rightarrow> nat \<Rightarrow> mat \<Rightarrow> mat" where
  "assign_block A r0 r1 c0 c1 B =
     mk_mat (length A) (ncols A)
       (\<lambda>i j. if r0 \<le> i \<and> i < r1 \<and> c0 \<le> j \<and> j < c1 then B ! (i - r0) ! (j - c0) else A ! i ! j)"

section \<open>Errors\<close>

text \<open>
  \<^verbatim>\<open>np.linalg.inv\<close> raises \<^verbatim>\<open>LinAlgError\<close> when it finds its argument singular. Neither
  driver catches it, so it ends the run.
\<close>

datatype error = LinAlgError

text \<open>\<^verbatim>\<open>np.diag\<close> of a vector.\<close>

definition np_diag :: "vec \<Rightarrow> mat" where
  "np_diag v = mk_mat (length v) (length v) (\<lambda>i j. if i = j then v ! i else 0)"

section \<open>The evolution model and its collaborators\<close>

text \<open>
  Both drivers build a \<^verbatim>\<open>GDE_evolution_model\<close> and its \<^verbatim>\<open>GDE_Jacobian\<close> and then only call
  them. The classes live in \<^verbatim>\<open>evolution_models.tools\<close>; the drivers see them as the
  functions \<^verbatim>\<open>eval\<close>, \<^verbatim>\<open>eval_d_alpha\<close> and \<^verbatim>\<open>eval_d_eta\<close>, which are parameters here, as is
  \<^verbatim>\<open>np.linalg.inv\<close> (\<open>None\<close> when it raises).
\<close>

record gde =
  N :: nat
  NT :: nat
  dt :: real
  F_eval :: "vec \<Rightarrow> real \<Rightarrow> vec"
  eval_d_alpha :: "vec \<Rightarrow> real \<Rightarrow> mat"
  linalg_inv :: "mat \<Rightarrow> mat option"

record time_state =
  t :: "real list"

section \<open>Time evolution (\<^verbatim>\<open>evol_06.py\<close>)\<close>

record evol06 = gde +
  alpha_0 :: vec

record evol06_state = time_state +
  alpha :: "vec list"

text \<open>\<^verbatim>\<open>compute_evolution_operator(alpha_star, t_star)\<close>, lines 112 to 118.\<close>

definition evol06_compute_evolution_operator :: "evol06 \<Rightarrow> vec \<Rightarrow> real \<Rightarrow> error + mat \<times> vec" where
  "evol06_compute_evolution_operator c alpha_star t_star =
     (let J_star = eval_d_alpha c alpha_star t_star;
          F_star = vsub (F_eval c alpha_star t_star) (matvec J_star alpha_star)
      in case linalg_inv c (msub (eye (N c)) (smult (dt c / 2) J_star)) of
           None \<Rightarrow> Inl LinAlgError
         | Some matrix_multiplier \<Rightarrow>
             (let F_evolution = matmul matrix_multiplier (madd (eye (N c)) (smult (dt c / 2) J_star));
                  b_evolution = matvec matrix_multiplier (svmult (dt c) F_star)
              in Inr (F_evolution, b_evolution)))"

text \<open>
  The state before the loop: \<^verbatim>\<open>alpha = np.zeros([N, NT])\<close> with its first column set, and
  \<^verbatim>\<open>t = np.zeros(NT)\<close>. The matrix \<^verbatim>\<open>alpha\<close> is kept as the list of its columns.
\<close>

definition evol06_init :: "evol06 \<Rightarrow> evol06_state" where
  "evol06_init c =
     \<lparr>t = zeros_vec (NT c), alpha = (replicate (NT c) (zeros_vec (N c)))[0 := alpha_0 c]\<rparr>"

text \<open>One pass through the body of the loop of lines 126 to 129.\<close>

definition evol06_step :: "evol06 \<Rightarrow> nat \<Rightarrow> evol06_state \<Rightarrow> error + evol06_state" where
  "evol06_step c k s =
     (case evol06_compute_evolution_operator c (alpha s ! k) (t s ! k) of
        Inl e \<Rightarrow> Inl e
      | Inr (F_evolution, b_evolution) \<Rightarrow>
          Inr (s\<lparr>alpha := (alpha s)[k + 1 := vadd (matvec F_evolution (alpha s ! k)) b_evolution],
                 t := (t s)[k + 1 := real (k + 1) * dt c]\<rparr>))"

text \<open>\<^verbatim>\<open>for k in range(n)\<close>: the passes \<open>0, \<dots>, n - 1\<close> in order; an error ends the run.\<close>

fun evol06_loop :: "evol06 \<Rightarrow> nat \<Rightarrow> evol06_state \<Rightarrow> error + evol06_state" where
  "evol06_loop c 0 s = Inr s"
| "evol06_loop c (Suc n) s =
     (case evol06_loop c n s of Inl e \<Rightarrow> Inl e | Inr s' \<Rightarrow> evol06_step c n s')"

text \<open>
  Lines 124 to 129. The operator is computed once from the initial condition before the
  loop (line 125) and again in its first pass.
\<close>

definition evol06_main :: "evol06 \<Rightarrow> error + evol06_state" where
  "evol06_main c =
     (case evol06_compute_evolution_operator c (alpha (evol06_init c) ! 0) (t (evol06_init c) ! 0) of
        Inl e \<Rightarrow> Inl e
      | Inr _ \<Rightarrow> evol06_loop c (NT c - 1) (evol06_init c))"

section \<open>State identification (\<^verbatim>\<open>state_iden_12_main.py\<close>)\<close>

text \<open>
  The fields of the filter object that the driver passes to the constructor of
  \<^verbatim>\<open>Kalman_filter\<close> or assigns in the loop.
\<close>

record Kalman_filter =
  model_F :: mat
  model_H :: mat
  model_Gamma_w :: mat
  model_Gamma_v :: "mat list"
  model_NT :: nat
  additive_evolution_vector :: vec
  mean_epsilon :: "vec option"
  Gamma_epsilon :: "mat option"

text \<open>
  The names the driver imports from its parameter file and the values it gets from
  collaborators: \<open>U_eta\<close> and \<open>UT_eta\<close> are the two results of \<^verbatim>\<open>compute_U\<close>, the covariances
  come from \<^verbatim>\<open>compute_correlated_covariance_matrix\<close>, the priors from
  \<^verbatim>\<open>compute_coefficients\<close>, \<open>H_alpha\<close> from the observation model, \<open>Y\<close> (the list of its
  columns) from the data file. The update of the filter and the smoother are parameters;
  the update may fail.
\<close>

record iden12 = gde +
  N_eta :: nat
  Ne_eta :: nat
  eta_p :: nat
  U_eta :: mat
  UT_eta :: mat
  eta_A :: "mat list"
  eval_d_eta :: "vec \<Rightarrow> real \<Rightarrow> mat"
  M_obs :: nat
  H_alpha :: mat
  Y :: "vec list"
  sigma_Y_multiplier :: real
  sigma_v :: real
  Gamma_alpha_w :: mat
  Gamma_eta_w :: mat
  alpha_prior :: vec
  Gamma_alpha_prior :: mat
  eta_prior :: vec
  Gamma_eta_prior :: mat
  use_BAE :: bool
  BAE_mean :: vec
  BAE_covariance :: mat
  Kalman_update :: "Kalman_filter \<Rightarrow> vec \<Rightarrow> mat \<Rightarrow> vec \<Rightarrow> nat \<Rightarrow> error + vec \<times> mat"
  smoothing :: bool
  compute_fixed_interval_Kalman_smoother ::
    "mat list \<Rightarrow> nat \<Rightarrow> nat \<Rightarrow> vec list \<Rightarrow> mat list \<Rightarrow> vec list \<Rightarrow> mat list \<Rightarrow> vec list \<times> mat list"

subsection \<open>Continuity constraint, lines 58 to 66\<close>

definition num_constraints_eta :: "iden12 \<Rightarrow> nat" where
  "num_constraints_eta c = Ne_eta c - 1"

definition Nc_eta :: "iden12 \<Rightarrow> nat" where
  "Nc_eta c = N_eta c - num_constraints_eta c"

definition U_eta_p :: "iden12 \<Rightarrow> mat" where
  "U_eta_p c =
     foldl (\<lambda>U i. assign_block U (i * N_eta c) ((i + 1) * N_eta c) (i * Nc_eta c) ((i + 1) * Nc_eta c) (U_eta c))
       (zeros (eta_p c * N_eta c) (eta_p c * Nc_eta c)) [0..<eta_p c]"

definition UT_eta_p :: "iden12 \<Rightarrow> mat" where
  "UT_eta_p c =
     foldl (\<lambda>U i. assign_block U (i * Nc_eta c) ((i + 1) * Nc_eta c) (i * N_eta c) ((i + 1) * N_eta c) (UT_eta c))
       (zeros (eta_p c * Nc_eta c) (eta_p c * N_eta c)) [0..<eta_p c]"

subsection \<open>The VAR(p) model of the deposition rate, lines 72 to 87\<close>

definition A_eta_body :: "iden12 \<Rightarrow> mat \<Rightarrow> nat \<Rightarrow> mat" where
  "A_eta_body c A i =
     assign_block
       (assign_block A 0 (N_eta c) (i * N_eta c) ((i + 1) * N_eta c) (eta_A c ! i))
       ((i + 1) * N_eta c) ((i + 2) * N_eta c) (i * N_eta c) ((i + 1) * N_eta c) (eye (N_eta c))"

definition A_eta :: "iden12 \<Rightarrow> mat" where
  "A_eta c =
     assign_block
       (foldl (A_eta_body c) (zeros (eta_p c * N_eta c) (eta_p c * N_eta c)) [0..<eta_p c - 1])
       0 (N_eta c) ((eta_p c - 1) * N_eta c) (eta_p c * N_eta c) (eta_A c ! (eta_p c - 1))"

definition B_eta :: "iden12 \<Rightarrow> mat" where
  "B_eta c =
     (let B = foldl (\<lambda>B i. assign_block B 0 (N_eta c) (i * N_eta c) ((i + 1) * N_eta c) (eta_A c ! i))
                (zeros (N_eta c) (eta_p c * N_eta c)) [0..<eta_p c]
      in assign_block B 0 (N_eta c) 0 (N_eta c)
           (madd (slice_mat B 0 (N_eta c) 0 (N_eta c)) (eye (N_eta c))))"

definition C_eta :: "iden12 \<Rightarrow> mat" where
  "C_eta c =
     assign_block (zeros (Nc_eta c) (eta_p c * Nc_eta c)) 0 (Nc_eta c) 0 (Nc_eta c) (eye (Nc_eta c))"

subsection \<open>The Crank-Nicolson operators, lines 101 to 164\<close>

definition compute_evolution_operator_Jacobians :: "iden12 \<Rightarrow> vec \<Rightarrow> real \<Rightarrow> mat \<times> mat" where
  "compute_evolution_operator_Jacobians c x_tilde_c_star t_star =
     (let x_c_star = zeros_vec (N c + Nc_eta c);
          x_c_star = assign_slice x_c_star 0 (N c) (slice_vec x_tilde_c_star 0 (N c));
          x_c_star = assign_slice x_c_star (N c) (N c + Nc_eta c)
                       (matvec (C_eta c) (slice_vec x_tilde_c_star (N c) (N c + eta_p c * Nc_eta c)));
          x_c_star = assign_slice x_c_star (N c + Nc_eta c) (N c + Nc_eta c)
                       (slice_vec x_tilde_c_star (N c + eta_p c * Nc_eta c) (N c + eta_p c * Nc_eta c));
          x_star = zeros_vec (N c + N_eta c);
          x_star = assign_slice x_star 0 (N c) (slice_vec x_c_star 0 (N c));
          x_star = assign_slice x_star (N c) (N c + N_eta c)
                     (matvec (U_eta c) (slice_vec x_c_star (N c) (N c + Nc_eta c)));
          x_star = assign_slice x_star (N c + N_eta c) (N c + N_eta c)
                     (slice_vec x_c_star (N c + Nc_eta c) (N c + Nc_eta c));
          J_alpha_star = eval_d_alpha c x_star t_star;
          J_eta_star = eval_d_eta c x_star t_star
      in (J_alpha_star, J_eta_star))"

definition iden12_compute_evolution_operator ::
    "iden12 \<Rightarrow> vec \<Rightarrow> real \<Rightarrow> mat \<Rightarrow> mat \<Rightarrow> error + mat \<times> vec" where
  "iden12_compute_evolution_operator c x_tilde_c_star t_star J_alpha_star J_eta_star =
     (let x_c_star = zeros_vec (N c + Nc_eta c);
          x_c_star = assign_slice x_c_star 0 (N c) (slice_vec x_tilde_c_star 0 (N c));
          x_c_star = assign_slice x_c_star (N c) (N c + Nc_eta c)
                       (matvec (C_eta c) (slice_vec x_tilde_c_star (N c) (N c + eta_p c * Nc_eta c)));
          x_star = zeros_vec (N c + N_eta c);
          x_star = assign_slice x_star 0 (N c) (slice_vec x_c_star 0 (N c));
          x_star = assign_slice x_star (N c) (N c + N_eta c)
                     (matvec (U_eta c) (slice_vec x_c_star (N c) (N c + Nc_eta c)));
          alpha_star = slice_vec x_star 0 (N c);
          eta_star = slice_vec x_star (N c) (N c + N_eta c);
          F_star = vsub (vsub (F_eval c x_star t_star) (matvec J_alpha_star alpha_star))
                     (matvec J_eta_star eta_star)
      in case linalg_inv c (msub (eye (N c)) (smult (dt c / 2) J_alpha_star)) of
           None \<Rightarrow> Inl LinAlgError
         | Some matrix_multiplier \<Rightarrow>
             (let F_evol_alpha = matmul matrix_multiplier (madd (eye (N c)) (smult (dt c / 2) J_alpha_star));
                  F_evol_eta = matmul matrix_multiplier (smult (dt c / 2) J_eta_star);
                  F_evol_eta = matmul F_evol_eta (B_eta c);
                  F_evol_eta = matmul F_evol_eta (U_eta_p c);
                  F_evolution = zeros (N c + eta_p c * Nc_eta c) (N c + eta_p c * Nc_eta c);
                  F_evolution = assign_block F_evolution 0 (N c) 0 (N c) F_evol_alpha;
                  F_evolution = assign_block F_evolution 0 (N c) (N c) (N c + eta_p c * Nc_eta c) F_evol_eta;
                  F_evolution = assign_block F_evolution (N c) (N c + eta_p c * Nc_eta c)
                                  (N c) (N c + eta_p c * Nc_eta c)
                                  (matmul (UT_eta_p c) (matmul (A_eta c) (U_eta_p c)));
                  b_evolution = zeros_vec (N c + eta_p c * Nc_eta c);
                  b_evolution = assign_slice b_evolution 0 (N c)
                                  (matvec matrix_multiplier (svmult (dt c) F_star))
              in Inr (F_evolution, b_evolution)))"

definition compute_evolution_operator_alpha_covariance :: "iden12 \<Rightarrow> mat \<Rightarrow> mat \<Rightarrow> mat \<Rightarrow> error + mat" where
  "compute_evolution_operator_alpha_covariance c Gamma_tilde_c_w J_alpha_star J_eta_star =
     (let Gamma_c_w = zeros (N c + Nc_eta c) (N c + Nc_eta c);
          Gamma_c_w = assign_block Gamma_c_w 0 (N c) 0 (N c) (slice_mat Gamma_tilde_c_w 0 (N c) 0 (N c));
          Gamma_c_w = assign_block Gamma_c_w (N c) (N c + Nc_eta c) (N c) (N c + Nc_eta c)
                        (slice_mat Gamma_tilde_c_w (N c) (N c + Nc_eta c) (N c) (N c + Nc_eta c));
          Gamma_alpha_w_star = slice_mat Gamma_c_w 0 (N c) 0 (N c);
          Gamma_eta_w_star =
            matmul (U_eta c)
              (matmul (slice_mat Gamma_c_w (N c) (N c + Nc_eta c) (N c) (N c + Nc_eta c)) (UT_eta c))
      in case linalg_inv c (msub (eye (N c)) (smult (dt c / 2) J_alpha_star)) of
           None \<Rightarrow> Inl LinAlgError
         | Some matrix_multiplier \<Rightarrow>
             (let Gamma_Jac_eta = matmul J_eta_star (matmul Gamma_eta_w_star (np_transpose J_eta_star))
              in Inr (madd Gamma_alpha_w_star
                        (smult ((dt c)\<^sup>2 / 4)
                           (matmul matrix_multiplier (matmul Gamma_Jac_eta (np_transpose matrix_multiplier)))))))"

subsection \<open>Observation model and its noise, lines 169 to 188\<close>

definition H :: "iden12 \<Rightarrow> mat" where
  "H c =
     assign_block (zeros (M_obs c) (N c + eta_p c * Nc_eta c)) 0 (M_obs c) 0 (N c) (H_alpha c)"

definition Gamma_v :: "iden12 \<Rightarrow> mat list" where
  "Gamma_v c =
     map (\<lambda>k. let Gamma_Y_multiplier = smult ((sigma_Y_multiplier c)\<^sup>2) (np_diag (Y c ! k));
                  Gamma_v_additive = smult ((sigma_v c)\<^sup>2) (eye (M_obs c))
              in madd Gamma_Y_multiplier Gamma_v_additive) [0..<NT c]"

subsection \<open>Noise covariances of the evolution model, lines 194 to 208\<close>

definition Gamma_eta_tilde_w :: "iden12 \<Rightarrow> mat" where
  "Gamma_eta_tilde_w c =
     assign_block (zeros (eta_p c * N_eta c) (eta_p c * N_eta c)) 0 (N_eta c) 0 (N_eta c) (Gamma_eta_w c)"

definition Gamma_eta_tilde_c_w :: "iden12 \<Rightarrow> mat" where
  "Gamma_eta_tilde_c_w c = matmul (UT_eta_p c) (matmul (Gamma_eta_tilde_w c) (U_eta_p c))"

definition Gamma_tilde_c_w :: "iden12 \<Rightarrow> mat" where
  "Gamma_tilde_c_w c =
     (let G = zeros (N c + eta_p c * Nc_eta c) (N c + eta_p c * Nc_eta c);
          G = assign_block G 0 (N c) 0 (N c) (Gamma_alpha_w c)
      in assign_block G (N c) (N c + eta_p c * Nc_eta c) (N c) (N c + eta_p c * Nc_eta c)
           (Gamma_eta_tilde_c_w c))"

subsection \<open>Prior and prior covariance, lines 215 to 239\<close>

definition eta_tilde_prior :: "iden12 \<Rightarrow> vec" where
  "eta_tilde_prior c =
     foldl (\<lambda>v i. assign_slice v (i * N_eta c) ((i + 1) * N_eta c) (eta_prior c))
       (zeros_vec (eta_p c * N_eta c)) [0..<eta_p c]"

definition Gamma_eta_tilde_prior :: "iden12 \<Rightarrow> mat" where
  "Gamma_eta_tilde_prior c =
     foldl (\<lambda>G i. assign_block G (i * N_eta c) ((i + 1) * N_eta c) (i * N_eta c) ((i + 1) * N_eta c)
                    (Gamma_eta_prior c))
       (zeros (eta_p c * N_eta c) (eta_p c * N_eta c)) [0..<eta_p c]"

definition eta_tilde_c_prior :: "iden12 \<Rightarrow> vec" where
  "eta_tilde_c_prior c = matvec (UT_eta_p c) (eta_tilde_prior c)"

definition Gamma_eta_tilde_c_prior :: "iden12 \<Rightarrow> mat" where
  "Gamma_eta_tilde_c_prior c = matmul (UT_eta_p c) (matmul (Gamma_eta_tilde_prior c) (U_eta_p c))"

definition x_tilde_c_prior :: "iden12 \<Rightarrow> vec" where
  "x_tilde_c_prior c =
     (let x = zeros_vec (N c + eta_p c * Nc_eta c);
          x = assign_slice x 0 (N c) (alpha_prior c)
      in assign_slice x (N c) (N c + eta_p c * Nc_eta c) (eta_tilde_c_prior c))"

definition Gamma_tilde_c_prior :: "iden12 \<Rightarrow> mat" where
  "Gamma_tilde_c_prior c =
     (let G = zeros (N c + eta_p c * Nc_eta c) (N c + eta_p c * Nc_eta c);
          G = assign_block G 0 (N c) 0 (N c) (Gamma_alpha_prior c)
      in assign_block G (N c) (N c + eta_p c * Nc_eta c) (N c) (N c + eta_p c * Nc_eta c)
           (Gamma_eta_tilde_c_prior c))"

subsection \<open>The filter, lines 244 to 279\<close>

text \<open>
  The arrays the loop fills. An array indexed by time is the list of its columns
  (\<open>x_tilde_c\<close>, \<open>x_tilde_c_predict\<close>, \<open>b\<close>) or of its matrices (\<open>Gamma_tilde_c\<close>,
  \<open>Gamma_tilde_c_predict\<close>, \<open>F\<close>); \<open>model\<close> is the filter object, whose fields the loop
  assigns.
\<close>

record iden12_state = time_state +
  x_tilde_c :: "vec list"
  Gamma_tilde_c :: "mat list"
  x_tilde_c_predict :: "vec list"
  Gamma_tilde_c_predict :: "mat list"
  F_evol :: "mat list"
  b_evol :: "vec list"
  model :: Kalman_filter

definition iden12_init :: "iden12 \<Rightarrow> iden12_state" where
  "iden12_init c =
     (let n = N c + eta_p c * Nc_eta c;
          F = replicate (NT c) (zeros n n);
          b = replicate (NT c) (zeros_vec n)
      in \<lparr>t = zeros_vec (NT c),
          x_tilde_c = (replicate (NT c) (zeros_vec n))[0 := x_tilde_c_prior c],
          Gamma_tilde_c = (replicate (NT c) (zeros n n))[0 := Gamma_tilde_c_prior c],
          x_tilde_c_predict = (replicate (NT c) (zeros_vec n))[0 := x_tilde_c_prior c],
          Gamma_tilde_c_predict = (replicate (NT c) (zeros n n))[0 := Gamma_tilde_c_prior c],
          F_evol = F,
          b_evol = b,
          model = \<lparr>model_F = F ! 0, model_H = H c, model_Gamma_w = Gamma_tilde_c_w c,
                    model_Gamma_v = Gamma_v c, model_NT = NT c,
                    additive_evolution_vector = b ! 0,
                    mean_epsilon = (if use_BAE c then Some (BAE_mean c) else None),
                    Gamma_epsilon = (if use_BAE c then Some (BAE_covariance c) else None)\<rparr>\<rparr>)"

text \<open>
  Modelled from the spec: the method \<^verbatim>\<open>predict\<close> of \<^verbatim>\<open>Kalman_filter\<close> (module
  \<^verbatim>\<open>basic_tools\<close>) is not among the sources. The specification gives it as
  \<open>mean_predict = F\<cdot>mean + b\<close> and \<open>cov_predict = F\<cdot>cov\<cdot>F\<^sup>T + Q\<close>, with an optional fixed
  correction of the mean and of the covariance added to them.
\<close>

definition Kalman_predict :: "Kalman_filter \<Rightarrow> vec \<Rightarrow> mat \<Rightarrow> nat \<Rightarrow> vec \<times> mat" where
  "Kalman_predict m x G k =
     (let x_predict = vadd (matvec (model_F m) x) (additive_evolution_vector m);
          G_predict = madd (matmul (model_F m) (matmul G (np_transpose (model_F m)))) (model_Gamma_w m)
      in (case mean_epsilon m of None \<Rightarrow> x_predict | Some e \<Rightarrow> vadd x_predict e,
          case Gamma_epsilon m of None \<Rightarrow> G_predict | Some E \<Rightarrow> madd G_predict E))"

text \<open>One pass through the body of the loop of lines 272 to 279.\<close>

definition iden12_step :: "iden12 \<Rightarrow> nat \<Rightarrow> iden12_state \<Rightarrow> error + iden12_state" where
  "iden12_step c k s =
     (case compute_evolution_operator_Jacobians c (x_tilde_c s ! k) (t s ! k) of
        (J_alpha_star, J_eta_star) \<Rightarrow>
     (case iden12_compute_evolution_operator c (x_tilde_c s ! k) (t s ! k) J_alpha_star J_eta_star of
        Inl e \<Rightarrow> Inl e
      | Inr (F_k, b_k) \<Rightarrow>
     (case compute_evolution_operator_alpha_covariance c (model_Gamma_w (model s)) J_alpha_star J_eta_star of
        Inl e \<Rightarrow> Inl e
      | Inr Gamma_alpha_w_k \<Rightarrow>
     (let m = (model s)\<lparr>model_F := F_k, additive_evolution_vector := b_k,
                 model_Gamma_w := assign_block (model_Gamma_w (model s)) 0 (N c) 0 (N c) Gamma_alpha_w_k\<rparr>
      in case Kalman_predict m (x_tilde_c s ! k) (Gamma_tilde_c s ! k) k of
        (x_p, Gamma_p) \<Rightarrow>
     (case Kalman_update c m x_p Gamma_p (Y c ! (k + 1)) k of
        Inl e \<Rightarrow> Inl e
      | Inr (x_u, Gamma_u) \<Rightarrow>
          Inr (s\<lparr>F_evol := (F_evol s)[k := F_k],
                 b_evol := (b_evol s)[k := b_k],
                 model := m,
                 x_tilde_c_predict := (x_tilde_c_predict s)[k + 1 := x_p],
                 Gamma_tilde_c_predict := (Gamma_tilde_c_predict s)[k + 1 := Gamma_p],
                 x_tilde_c := (x_tilde_c s)[k + 1 := x_u],
                 Gamma_tilde_c := (Gamma_tilde_c s)[k + 1 := Gamma_u],
                 t := (t s)[k + 1 := real (k + 1) * dt c]\<rparr>))))))"

fun iden12_loop :: "iden12 \<Rightarrow> nat \<Rightarrow> iden12_state \<Rightarrow> error + iden12_state" where
  "iden12_loop c 0 s = Inr s"
| "iden12_loop c (Suc n) s =
     (case iden12_loop c n s of Inl e \<Rightarrow> Inl e | Inr s' \<Rightarrow> iden12_step c n s')"

definition iden12_filter :: "iden12 \<Rightarrow> error + iden12_state" where
  "iden12_filter c = iden12_loop c (NT c - 1) (iden12_init c)"

subsection \<open>Smoothing and the unconstrained state, lines 284 to 308\<close>

definition smoothed :: "iden12 \<Rightarrow> iden12_state \<Rightarrow> vec list \<times> mat list" where
  "smoothed c s =
     (if smoothing c
      then compute_fixed_interval_Kalman_smoother c (F_evol s) (NT c) (N c + eta_p c * Nc_eta c)
             (x_tilde_c s) (Gamma_tilde_c s) (x_tilde_c_predict s) (Gamma_tilde_c_predict s)
      else (x_tilde_c s, Gamma_tilde_c s))"

definition x_c_of :: "iden12 \<Rightarrow> vec list \<Rightarrow> vec list" where
  "x_c_of c xs =
     map (\<lambda>k. let x = zeros_vec (N c + Nc_eta c);
                  x = assign_slice x 0 (N c) (slice_vec (xs ! k) 0 (N c))
              in assign_slice x (N c) (N c + Nc_eta c) (slice_vec (xs ! k) (N c) (N c + Nc_eta c)))
       [0..<NT c]"

definition Gamma_c_of :: "iden12 \<Rightarrow> mat list \<Rightarrow> mat list" where
  "Gamma_c_of c Gs =
     map (\<lambda>k. let G = zeros (N c + Nc_eta c) (N c + Nc_eta c);
                  G = assign_block G 0 (N c) 0 (N c) (slice_mat (Gs ! k) 0 (N c) 0 (N c))
              in assign_block G (N c) (N c + Nc_eta c) (N c) (N c + Nc_eta c)
                   (slice_mat (Gs ! k) (N c) (N c + Nc_eta c) (N c) (N c + Nc_eta c)))
       [0..<NT c]"

definition x_of :: "iden12 \<Rightarrow> vec list \<Rightarrow> vec list" where
  "x_of c x_c =
     map (\<lambda>k. let x = zeros_vec (N c + N_eta c);
                  x = assign_slice x 0 (N c) (slice_vec (x_c ! k) 0 (N c))
              in assign_slice x (N c) (N c + N_eta c)
                   (matvec (U_eta c) (slice_vec (x_c ! k) (N c) (N c + Nc_eta c))))
       [0..<NT c]"

definition Gamma_of :: "iden12 \<Rightarrow> mat list \<Rightarrow> mat list" where
  "Gamma_of c Gamma_c =
     map (\<lambda>k. let G = zeros (N c + N_eta c) (N c + N_eta c);
                  G = assign_block G 0 (N c) 0 (N c) (slice_mat (Gamma_c ! k) 0 (N c) 0 (N c))
              in assign_block G (N c) (N c + N_eta c) (N c) (N c + N_eta c)
                   (matmul (U_eta c)
                      (matmul (slice_mat (Gamma_c ! k) (N c) (N c + Nc_eta c) (N c) (N c + Nc_eta c))
                         (UT_eta c))))
       [0..<NT c]"

text \<open>
  The run up to line 308: the filter, the smoother when it is switched on, and the
  posterior in the constrained and the unconstrained coordinates.
\<close>

record posterior =
  post_x_tilde_c :: "vec list"
  post_Gamma_tilde_c :: "mat list"
  post_x_c :: "vec list"
  post_Gamma_c :: "mat list"
  post_x :: "vec list"
  post_Gamma :: "mat list"

definition iden12_main :: "iden12 \<Rightarrow> error + posterior" where
  "iden12_main c =
     (case iden12_filter c of
        Inl e \<Rightarrow> Inl e
      | Inr s \<Rightarrow>
          (case smoothed c s of
             (xs, Gs) \<Rightarrow>
               Inr \<lparr>post_x_tilde_c = xs, post_Gamma_tilde_c = Gs,
                    post_x_c = x_c_of c xs, post_Gamma_c = Gamma_c_of c Gs,
                    post_x = x_of c (x_c_of c xs), post_Gamma = Gamma_of c (Gamma_c_of c Gs)\<rparr>))"

section \<open>Well-shaped inputs\<close>

text \<open>
  The shapes the driver relies on: those of the results of \<^verbatim>\<open>compute_U\<close>, of the
  coefficient matrices \<open>eta_A\<close> of the parameter file, of the Jacobians at a state of
  \<open>N + N_eta\<close> coefficients, and of the inverse of a square matrix. numpy refuses any
  other shape with an exception.
\<close>

definition iden12_shapes :: "iden12 \<Rightarrow> bool" where
  "iden12_shapes c \<longleftrightarrow>
     0 < N c \<and> 0 < N_eta c \<and> 0 < Nc_eta c \<and> 0 < eta_p c \<and>
     is_mat (N_eta c) (Nc_eta c) (U_eta c) \<and>
     is_mat (Nc_eta c) (N_eta c) (UT_eta c) \<and>
     eta_p c \<le> length (eta_A c) \<and>
     (\<forall>i<eta_p c. is_mat (N_eta c) (N_eta c) (eta_A c ! i)) \<and>
     (\<forall>x t. length x = N c + N_eta c \<longrightarrow> is_mat (N c) (N c) (eval_d_alpha c x t)) \<and>
     (\<forall>x t. length x = N c + N_eta c \<longrightarrow> is_mat (N c) (N_eta c) (eval_d_eta c x t)) \<and>
     (\<forall>A B. linalg_inv c A = Some B \<longrightarrow> is_mat (length A) (length A) B)"

text \<open>
  The state at which the driver evaluates the model and its Jacobians: the coefficients
  \<open>alpha\<close>, followed by the coefficients \<open>eta\<close> of the current lag in the unconstrained
  coordinates.
\<close>

definition alpha_of :: "iden12 \<Rightarrow> vec \<Rightarrow> vec" where
  "alpha_of c x = slice_vec x 0 (N c)"

definition eta_of :: "iden12 \<Rightarrow> vec \<Rightarrow> vec" where
  "eta_of c x = matvec (U_eta c) (slice_vec x (N c) (N c + Nc_eta c))"

definition x_star_of :: "iden12 \<Rightarrow> vec \<Rightarrow> vec" where
  "x_star_of c x = alpha_of c x @ eta_of c x"

text \<open>
  The contribution of the parameter noise to the process noise of \<open>alpha\<close>, as the claims
  name it: \<open>(dt\<^sup>2/4)\<cdot>M\<cdot>(J_eta\<cdot>Gamma_eta\<cdot>J_eta\<^sup>T)\<cdot>M\<^sup>T\<close>.
\<close>

definition eta_induced_term :: "iden12 \<Rightarrow> mat \<Rightarrow> mat \<Rightarrow> mat \<Rightarrow> mat" where
  "eta_induced_term c M J_eta Gamma_eta =
     smult ((dt c)\<^sup>2 / 4)
       (matmul M (matmul (matmul J_eta (matmul Gamma_eta (np_transpose J_eta))) (np_transpose M)))"

section \<open>The continuity null-space matrix\<close>

text \<open>
  Modelled from the spec: \<^verbatim>\<open>compute_U\<close> of \<^verbatim>\<open>evolution_models.tools\<close> is not among the
  sources; the driver only calls it and keeps its two results. The specification says of
  them that \<open>U\<close> is a null-space matrix whose columns span the continuous subspace, of
  dimension \<open>N_eta - (Ne_eta - 1)\<close>, that \<open>U\<^sup>T\<close> is the reduction, and that \<open>U\<^sup>T\<cdot>U = I\<close>. The
  predicate holds of a pair of results that is as the specification says.
\<close>

definition compute_U_spec :: "nat \<Rightarrow> nat \<Rightarrow> mat \<times> mat \<Rightarrow> bool" where
  "compute_U_spec n_eta ne_eta res \<longleftrightarrow>
     (case res of (U, UT) \<Rightarrow>
        is_mat n_eta (n_eta - (ne_eta - 1)) U \<and>
        UT = np_transpose U \<and>
        matmul UT U = eye (n_eta - (ne_eta - 1)))"

section \<open>The inverse in binary64\<close>

text \<open>
  numpy is not part of the repository. \<^verbatim>\<open>np.linalg.inv\<close> solves \<open>A\<cdot>X = I\<close> with the LAPACK
  routine \<^verbatim>\<open>gesv\<close>: an LU factorisation with partial pivoting followed by two triangular
  solves, in binary64. It raises \<^verbatim>\<open>LinAlgError\<close> when a pivot of the factorisation is
  exactly zero, and only then. What follows is that computation for a matrix of two rows
  and two columns, as the reference routines \<^verbatim>\<open>dgetf2\<close> and \<^verbatim>\<open>dgetrs\<close> order it, with every
  operation rounded to binary64.

  \<open>binary64 x\<close> is \<open>x\<close> rounded to the nearest number with a significand of 53 bits, ties to
  the even significand. \<open>ulp x\<close> is the weight of the last bit of that significand; the
  search runs through the exponents of binary64 (overflow and subnormal numbers play no
  role in what follows).
\<close>

fun ulp_search :: "nat \<Rightarrow> real \<Rightarrow> real \<Rightarrow> real" where
  "ulp_search 0 x u = u"
| "ulp_search (Suc n) x u =
     (if 2 ^ 53 * u \<le> \<bar>x\<bar> then ulp_search n x (2 * u)
      else if \<bar>x\<bar> < 2 ^ 52 * u then ulp_search n x (u / 2)
      else u)"

definition ulp :: "real \<Rightarrow> real" where
  "ulp x = ulp_search 1100 x 1"

definition round_half_even :: "real \<Rightarrow> int" where
  "round_half_even y =
     (let f = \<lfloor>y\<rfloor>
      in if y - of_int f < 1 / 2 then f
         else if 1 / 2 < y - of_int f then f + 1
         else if even f then f else f + 1)"

definition binary64 :: "real \<Rightarrow> real" where
  "binary64 x = (if x = 0 then 0 else of_int (round_half_even (x / ulp x)) * ulp x)"

text \<open>
  The factorisation of the matrix with pivot row \<open>(p, q)\<close> and other row \<open>(r, s)\<close>: the
  multiplier is \<open>r\<close> times the rounded reciprocal of the pivot (\<^verbatim>\<open>dgetf2\<close> scales the column by
  \<open>1/p\<close>), and the second pivot is \<open>s\<close> minus the rounded product of the multiplier and \<open>q\<close>.
\<close>

definition lu_multiplier :: "real \<Rightarrow> real \<Rightarrow> real" where
  "lu_multiplier p r = binary64 (r * binary64 (1 / p))"

definition lu_pivot :: "real \<Rightarrow> real \<Rightarrow> real \<Rightarrow> real \<Rightarrow> real" where
  "lu_pivot p q r s = binary64 (s - binary64 (lu_multiplier p r * q))"

text \<open>
  The two triangular solves for the right-hand side \<open>(g, h)\<close>: forward with the unit lower
  factor, then backward with the upper factor \<open>[[p, q], [0, u]]\<close>.
\<close>

definition lu_solve :: "real \<Rightarrow> real \<Rightarrow> real \<Rightarrow> real \<Rightarrow> real \<Rightarrow> real \<Rightarrow> real \<times> real" where
  "lu_solve p q l u g h =
     (let y2 = binary64 (h - binary64 (l * g));
          x2 = binary64 (y2 / u);
          x1 = binary64 (binary64 (g - binary64 (q * x2)) / p)
      in (x1, x2))"

text \<open>
  The inverse: the rows are exchanged when the second entry of the first column is the
  larger one, the right-hand sides are the columns of the identity with its rows exchanged
  likewise, and \<open>None\<close> stands for \<^verbatim>\<open>LinAlgError\<close>. Matrices of another shape do not occur
  where this is used.
\<close>

definition np_linalg_inv_2x2 :: "mat \<Rightarrow> mat option" where
  "np_linalg_inv_2x2 A =
     (case A of
        [[a, b], [c, d]] \<Rightarrow>
          (let swap = \<bar>a\<bar> < \<bar>c\<bar>;
               p = (if swap then c else a); q = (if swap then d else b);
               r = (if swap then a else c); s = (if swap then b else d)
           in if p = 0 then None
              else let l = lu_multiplier p r; u = lu_pivot p q r s
                   in if u = 0 then None
                      else (case (lu_solve p q l u (if swap then 0 else 1) (if swap then 1 else 0),
                                  lu_solve p q l u (if swap then 1 else 0) (if swap then 0 else 1)) of
                              ((x11, x21), (x12, x22)) \<Rightarrow> Some [[x11, x12], [x21, x22]]))
      | _ \<Rightarrow> None)"

section \<open>Concrete configurations\<close>

text \<open>
  The inverse of a matrix with one row and one column, as \<^verbatim>\<open>np.linalg.inv\<close> computes it:
  the reciprocal of the entry, and \<^verbatim>\<open>LinAlgError\<close> when the entry is zero.
\<close>

definition inv_1x1 :: "mat \<Rightarrow> mat option" where
  "inv_1x1 A = (case A of [[a]] \<Rightarrow> if a = 0 then None else Some [[1 / a]] | _ \<Rightarrow> None)"

text \<open>
  One element of degree zero and a deposition of constant rate one: the model is
  \<open>d\<alpha>/dt = - \<alpha>\<close>, three time steps of length one.
\<close>

definition cfg06 :: evol06 where
  "cfg06 = \<lparr>N = 1, NT = 3, dt = 1,
             F_eval = (\<lambda>a _. [- (a ! 0)]),
             eval_d_alpha = (\<lambda>_ _. [[- 1]]),
             linalg_inv = inv_1x1,
             alpha_0 = [1]\<rparr>"

text \<open>
  One coefficient \<open>alpha\<close>; an unknown rate of two elements of degree zero, so that one
  continuity constraint leaves one free coefficient; a VAR(2) model. The model is
  \<open>d\<alpha>/dt = - \<alpha> + \<eta>\<^sub>0\<close>. The update of the filter returns the prediction.
\<close>

definition cfg12 :: iden12 where
  "cfg12 = \<lparr>N = 1, NT = 3, dt = 1,
             F_eval = (\<lambda>x _. [- (x ! 0) + x ! 1]),
             eval_d_alpha = (\<lambda>_ _. [[- 1]]),
             linalg_inv = inv_1x1,
             N_eta = 2, Ne_eta = 2, eta_p = 2,
             U_eta = [[3 / 5], [4 / 5]],
             UT_eta = [[3 / 5, 4 / 5]],
             eta_A = [[[1 / 2, 0], [0, 1 / 2]], [[1 / 4, 0], [0, 1 / 4]]],
             eval_d_eta = (\<lambda>_ _. [[1, 0]]),
             M_obs = 1, H_alpha = [[1]], Y = [[1], [1], [1]],
             sigma_Y_multiplier = 0, sigma_v = 1,
             Gamma_alpha_w = [[1]], Gamma_eta_w = [[1, 0], [0, 1]],
             alpha_prior = [1], Gamma_alpha_prior = [[1]],
             eta_prior = [1, 1], Gamma_eta_prior = [[1, 0], [0, 1]],
             use_BAE = False, BAE_mean = [], BAE_covariance = [],
             Kalman_update = (\<lambda>_ x G _ _. Inr (x, G)),
             smoothing = False,
             compute_fixed_interval_Kalman_smoother = (\<lambda>_ _ _ xs Gs _ _. (xs, Gs))\<rparr>"

text \<open>
  A time evolution whose Jacobian makes \<open>I - (dt/2)\<cdot>J\<close> the zero matrix at time one, and an
  identification in which it is the zero matrix at every time; \<^verbatim>\<open>np.linalg.inv\<close> raises for
  the zero matrix.
\<close>

definition cfg06_singular :: evol06 where
  "cfg06_singular = cfg06\<lparr>eval_d_alpha := (\<lambda>_ tk. if tk = 1 then [[2]] else [[- 1]])\<rparr>"

definition cfg12_singular :: iden12 where
  "cfg12_singular = cfg12\<lparr>eval_d_alpha := (\<lambda>_ _. [[2]])\<rparr>"

text \<open>
  A time evolution of two coefficients, \<open>d\<alpha>/dt = J\<cdot>\<alpha>\<close> with the constant Jacobian
  \<open>J = [[-2, -3], [-5, -4]]\<close>, and one time step of length two, so that \<open>I - (dt/2)\<cdot>J\<close> is
  \<open>[[3, 3], [5, 5]]\<close>; the inverse is the one of binary64.
\<close>

definition cfg06_undetected :: evol06 where
  "cfg06_undetected = \<lparr>N = 2, NT = 2, dt = 2,
             F_eval = (\<lambda>a _. matvec [[- 2, - 3], [- 5, - 4]] a),
             eval_d_alpha = (\<lambda>_ _. [[- 2, - 3], [- 5, - 4]]),
             linalg_inv = np_linalg_inv_2x2,
             alpha_0 = [1, 0]\<rparr>"

section \<open>Shapes and entries\<close>

lemma length_mk_vec [simp]: "length (mk_vec n f) = n"
  by (simp add: mk_vec_def)

lemma nth_mk_vec [simp]: "i < n \<Longrightarrow> mk_vec n f ! i = f i"
  by (simp add: mk_vec_def)

lemma length_mk_mat [simp]: "length (mk_mat r c f) = r"
  by (simp add: mk_mat_def)

lemma length_row_mk_mat [simp]: "i < r \<Longrightarrow> length (mk_mat r c f ! i) = c"
  by (simp add: mk_mat_def)

lemma nth_mk_mat [simp]: "i < r \<Longrightarrow> j < c \<Longrightarrow> mk_mat r c f ! i ! j = f i j"
  by (simp add: mk_mat_def)

lemma is_mat_mk_mat [simp]: "is_mat r c (mk_mat r c f)"
  by (simp add: is_mat_def mk_mat_def list_all_iff)

lemma ncols_mk_mat [simp]: "0 < r \<Longrightarrow> ncols (mk_mat r c f) = c"
  by (cases r) (simp_all add: ncols_def mk_mat_def upt_rec [of 0])

lemma is_mat_length: "is_mat r c A \<Longrightarrow> length A = r"
  by (simp add: is_mat_def)

lemma is_mat_row: "is_mat r c A \<Longrightarrow> i < r \<Longrightarrow> length (A ! i) = c"
  by (simp add: is_mat_def list_all_length)

lemma is_mat_ncols: "is_mat r c A \<Longrightarrow> 0 < r \<Longrightarrow> ncols A = c"
  by (cases A) (auto simp: is_mat_def ncols_def)

lemma vec_eqI:
  assumes "length u = n" "length v = n" "\<And>i. i < n \<Longrightarrow> u ! i = v ! i"
  shows "u = v"
  using assms by (simp add: list_eq_iff_nth_eq)

lemma mat_eqI:
  assumes A: "is_mat r c A" and B: "is_mat r c B"
    and eq: "\<And>i j. i < r \<Longrightarrow> j < c \<Longrightarrow> A ! i ! j = B ! i ! j"
  shows "A = B"
proof (rule nth_equalityI)
  show "length A = length B"
    using A B by (simp add: is_mat_def)
next
  fix i assume "i < length A"
  then have i: "i < r" using A by (simp add: is_mat_def)
  show "A ! i = B ! i"
    by (rule vec_eqI [where n = c]) (use i A B eq in \<open>simp_all add: is_mat_row\<close>)
qed

lemma is_mat_zeros [simp]: "is_mat r c (zeros r c)"
  by (simp add: zeros_def)

lemma is_mat_eye [simp]: "is_mat n n (eye n)"
  by (simp add: eye_def)

lemma nth_eye [simp]: "i < n \<Longrightarrow> j < n \<Longrightarrow> eye n ! i ! j = (if i = j then 1 else 0)"
  by (simp add: eye_def)

lemma nth_zeros [simp]: "i < r \<Longrightarrow> j < c \<Longrightarrow> zeros r c ! i ! j = 0"
  by (simp add: zeros_def)

lemma length_zeros_vec [simp]: "length (zeros_vec n) = n"
  by (simp add: zeros_vec_def)

lemma nth_zeros_vec [simp]: "i < n \<Longrightarrow> zeros_vec n ! i = 0"
  by (simp add: zeros_vec_def)

lemma is_mat_matmul: "is_mat r m A \<Longrightarrow> is_mat m c B \<Longrightarrow> 0 < m \<Longrightarrow> is_mat r c (matmul A B)"
  by (simp add: matmul_def is_mat_length is_mat_ncols)

lemma nth_matmul:
  "is_mat r m A \<Longrightarrow> is_mat m c B \<Longrightarrow> 0 < m \<Longrightarrow> i < r \<Longrightarrow> j < c \<Longrightarrow>
   matmul A B ! i ! j = (\<Sum>k<m. A ! i ! k * B ! k ! j)"
  by (simp add: matmul_def is_mat_length is_mat_ncols)

lemma length_matvec [simp]: "length (matvec A v) = length A"
  by (simp add: matvec_def)

lemma nth_matvec: "i < length A \<Longrightarrow> matvec A v ! i = (\<Sum>k<length v. A ! i ! k * v ! k)"
  by (simp add: matvec_def)

lemma is_mat_madd: "is_mat r c A \<Longrightarrow> 0 < r \<Longrightarrow> is_mat r c (madd A B)"
  by (simp add: madd_def is_mat_length is_mat_ncols)

lemma nth_madd: "is_mat r c A \<Longrightarrow> i < r \<Longrightarrow> j < c \<Longrightarrow> madd A B ! i ! j = A ! i ! j + B ! i ! j"
  by (simp add: madd_def is_mat_length is_mat_ncols)

lemma is_mat_msub: "is_mat r c A \<Longrightarrow> 0 < r \<Longrightarrow> is_mat r c (msub A B)"
  by (simp add: msub_def is_mat_length is_mat_ncols)

lemma nth_msub: "is_mat r c A \<Longrightarrow> i < r \<Longrightarrow> j < c \<Longrightarrow> msub A B ! i ! j = A ! i ! j - B ! i ! j"
  by (simp add: msub_def is_mat_length is_mat_ncols)

lemma is_mat_smult: "is_mat r c A \<Longrightarrow> 0 < r \<Longrightarrow> is_mat r c (smult a A)"
  by (simp add: smult_def is_mat_length is_mat_ncols)

lemma nth_smult: "is_mat r c A \<Longrightarrow> i < r \<Longrightarrow> j < c \<Longrightarrow> smult a A ! i ! j = a * A ! i ! j"
  by (simp add: smult_def is_mat_length is_mat_ncols)

lemma is_mat_np_transpose: "is_mat r c A \<Longrightarrow> 0 < r \<Longrightarrow> is_mat c r (np_transpose A)"
  by (simp add: np_transpose_def is_mat_length is_mat_ncols)

lemma nth_np_transpose: "is_mat r c A \<Longrightarrow> i < c \<Longrightarrow> j < r \<Longrightarrow> np_transpose A ! i ! j = A ! j ! i"
  by (simp add: np_transpose_def is_mat_length is_mat_ncols)

lemma length_vadd [simp]: "length (vadd u v) = length u"
  by (simp add: vadd_def)

lemma length_vsub [simp]: "length (vsub u v) = length u"
  by (simp add: vsub_def)

lemma length_svmult [simp]: "length (svmult a v) = length v"
  by (simp add: svmult_def)

lemma nth_vadd [simp]: "i < length u \<Longrightarrow> vadd u v ! i = u ! i + v ! i"
  by (simp add: vadd_def)

lemma nth_vsub [simp]: "i < length u \<Longrightarrow> vsub u v ! i = u ! i - v ! i"
  by (simp add: vsub_def)

lemma nth_svmult [simp]: "i < length v \<Longrightarrow> svmult a v ! i = a * v ! i"
  by (simp add: svmult_def)

lemma length_slice_vec: "b \<le> length v \<Longrightarrow> length (slice_vec v a b) = b - a"
  by (simp add: slice_vec_def)

lemma nth_slice_vec: "b \<le> length v \<Longrightarrow> i < b - a \<Longrightarrow> slice_vec v a b ! i = v ! (a + i)"
  by (simp add: slice_vec_def)

lemma length_assign_slice [simp]: "length (assign_slice v a b w) = length v"
  by (simp add: assign_slice_def)

lemma nth_assign_slice:
  "i < length v \<Longrightarrow> assign_slice v a b w ! i = (if a \<le> i \<and> i < b then w ! (i - a) else v ! i)"
  by (simp add: assign_slice_def)

lemma assign_slice_empty: "assign_slice v a a w = v"
  by (rule vec_eqI [where n = "length v"]) (simp_all add: nth_assign_slice)

lemma is_mat_assign_block: "is_mat r c A \<Longrightarrow> 0 < r \<Longrightarrow> is_mat r c (assign_block A r0 r1 c0 c1 B)"
  by (simp add: assign_block_def is_mat_length is_mat_ncols)

lemma nth_assign_block:
  "is_mat r c A \<Longrightarrow> i < r \<Longrightarrow> j < c \<Longrightarrow>
   assign_block A r0 r1 c0 c1 B ! i ! j =
     (if r0 \<le> i \<and> i < r1 \<and> c0 \<le> j \<and> j < c1 then B ! (i - r0) ! (j - c0) else A ! i ! j)"
  by (simp add: assign_block_def is_mat_length is_mat_ncols)

lemma is_mat_slice_mat:
  "is_mat r c A \<Longrightarrow> r1 \<le> r \<Longrightarrow> c1 \<le> c \<Longrightarrow> is_mat (r1 - r0) (c1 - c0) (slice_mat A r0 r1 c0 c1)"
  by (auto simp: slice_mat_def is_mat_def list_all_iff dest!: in_set_takeD in_set_dropD)

lemma nth_slice_mat:
  "is_mat r c A \<Longrightarrow> r1 \<le> r \<Longrightarrow> c1 \<le> c \<Longrightarrow> i < r1 - r0 \<Longrightarrow> j < c1 - c0 \<Longrightarrow>
   slice_mat A r0 r1 c0 c1 ! i ! j = A ! (r0 + i) ! (c0 + j)"
  by (simp add: slice_mat_def is_mat_def list_all_length)

lemma slice_mat_assign_block:
  assumes A: "is_mat r c A" and B: "is_mat (r1 - r0) (c1 - c0) B"
    and le: "r1 \<le> r" "c1 \<le> c"
  shows "slice_mat (assign_block A r0 r1 c0 c1 B) r0 r1 c0 c1 = B"
proof (cases "r = 0")
  case True
  with A B le show ?thesis
    by (simp add: is_mat_def slice_mat_def assign_block_def)
next
  case False
  then have A': "is_mat r c (assign_block A r0 r1 c0 c1 B)"
    using A by (simp add: is_mat_assign_block)
  show ?thesis
  proof (rule mat_eqI [OF is_mat_slice_mat [OF A' le] B])
    fix i j assume "i < r1 - r0" "j < c1 - c0"
    then show "slice_mat (assign_block A r0 r1 c0 c1 B) r0 r1 c0 c1 ! i ! j = B ! i ! j"
      using le by (auto simp: nth_slice_mat [OF A' le] nth_assign_block [OF A])
  qed
qed

lemma assign_slice_append:
  assumes "length a = n" "length e = m"
  shows "assign_slice (assign_slice (zeros_vec (n + m)) 0 n a) n (n + m) e = a @ e"
  by (rule vec_eqI [where n = "n + m"]) (use assms in \<open>auto simp: nth_assign_slice nth_append\<close>)

lemma slice_vec_append_left: "length a = n \<Longrightarrow> slice_vec (a @ e) 0 n = a"
  by (simp add: slice_vec_def)

lemma slice_vec_append_right: "length a = n \<Longrightarrow> length e = m \<Longrightarrow> slice_vec (a @ e) n (n + m) = e"
  by (simp add: slice_vec_def)

lemma is_mat_C_eta: "0 < Nc_eta c \<Longrightarrow> is_mat (Nc_eta c) (eta_p c * Nc_eta c) (C_eta c)"
  by (simp add: C_eta_def is_mat_assign_block)

lemma nth_C_eta:
  "i < Nc_eta c \<Longrightarrow> k < eta_p c * Nc_eta c \<Longrightarrow> C_eta c ! i ! k = (if i = k then 1 else 0)"
  by (auto simp: C_eta_def nth_assign_block [OF is_mat_zeros])

lemma matvec_C_eta:
  assumes "length v = eta_p c * Nc_eta c" "0 < eta_p c"
  shows "matvec (C_eta c) v = slice_vec v 0 (Nc_eta c)"
proof (cases "Nc_eta c = 0")
  case True
  then show ?thesis by (simp add: C_eta_def slice_vec_def matvec_def mk_vec_def zeros_def mk_mat_def assign_block_def)
next
  case False
  then have pos: "0 < Nc_eta c" by simp
  have le: "Nc_eta c \<le> length v" using assms by (cases "eta_p c") simp_all
  show ?thesis
  proof (rule vec_eqI [where n = "Nc_eta c"])
    show "length (matvec (C_eta c) v) = Nc_eta c"
      using is_mat_C_eta [OF pos] by (simp add: is_mat_length)
    show "length (slice_vec v 0 (Nc_eta c)) = Nc_eta c"
      using le by (simp add: length_slice_vec)
    fix i assume i: "i < Nc_eta c"
    then have ik: "i < eta_p c * Nc_eta c" using le assms(1) by linarith
    have "matvec (C_eta c) v ! i = (\<Sum>k<eta_p c * Nc_eta c. C_eta c ! i ! k * v ! k)"
      using i is_mat_C_eta [OF pos] assms by (simp add: nth_matvec is_mat_length)
    also have "\<dots> = (\<Sum>k<eta_p c * Nc_eta c. if k = i then v ! k else 0)"
      by (rule sum.cong) (use i in \<open>auto simp: nth_C_eta\<close>)
    also have "\<dots> = v ! i"
      using ik by simp
    finally show "matvec (C_eta c) v ! i = slice_vec v 0 (Nc_eta c) ! i"
      using i le by (simp add: nth_slice_vec)
  qed
qed

lemma slice_vec_slice_vec:
  "b \<le> length v \<Longrightarrow> a + m \<le> b \<Longrightarrow> slice_vec (slice_vec v a b) 0 m = slice_vec v a (a + m)"
  by (simp add: slice_vec_def min_def)

lemma slice_vec_split:
  "a \<le> b \<Longrightarrow> b \<le> length v \<Longrightarrow> slice_vec v 0 a @ slice_vec v a b = slice_vec v 0 b"
  by (simp add: slice_vec_def take_add [symmetric])

lemma x_c_star_eq:
  assumes len: "length x = N c + eta_p c * Nc_eta c" and p: "0 < eta_p c"
  shows "assign_slice (assign_slice (zeros_vec (N c + Nc_eta c)) 0 (N c) (slice_vec x 0 (N c)))
           (N c) (N c + Nc_eta c)
           (matvec (C_eta c) (slice_vec x (N c) (N c + eta_p c * Nc_eta c)))
         = slice_vec x 0 (N c + Nc_eta c)"
proof -
  have le: "Nc_eta c \<le> eta_p c * Nc_eta c" using p by (cases "eta_p c") simp_all
  have "matvec (C_eta c) (slice_vec x (N c) (N c + eta_p c * Nc_eta c))
        = slice_vec (slice_vec x (N c) (N c + eta_p c * Nc_eta c)) 0 (Nc_eta c)"
    using len p by (simp add: matvec_C_eta length_slice_vec)
  also have "\<dots> = slice_vec x (N c) (N c + Nc_eta c)"
    using len le by (simp add: slice_vec_slice_vec)
  finally have C: "matvec (C_eta c) (slice_vec x (N c) (N c + eta_p c * Nc_eta c))
                   = slice_vec x (N c) (N c + Nc_eta c)" .
  have "assign_slice (assign_slice (zeros_vec (N c + Nc_eta c)) 0 (N c) (slice_vec x 0 (N c)))
          (N c) (N c + Nc_eta c) (slice_vec x (N c) (N c + Nc_eta c))
        = slice_vec x 0 (N c) @ slice_vec x (N c) (N c + Nc_eta c)"
    using len le by (intro assign_slice_append) (simp_all add: length_slice_vec)
  also have "\<dots> = slice_vec x 0 (N c + Nc_eta c)"
    using len le by (simp add: slice_vec_split)
  finally show ?thesis by (simp add: C)
qed

lemma x_star_eq:
  assumes len: "length x = N c + eta_p c * Nc_eta c" and p: "0 < eta_p c"
    and U: "length (U_eta c) = N_eta c"
  shows "assign_slice (assign_slice (zeros_vec (N c + N_eta c)) 0 (N c)
             (slice_vec (slice_vec x 0 (N c + Nc_eta c)) 0 (N c)))
           (N c) (N c + N_eta c)
           (matvec (U_eta c) (slice_vec (slice_vec x 0 (N c + Nc_eta c)) (N c) (N c + Nc_eta c)))
         = x_star_of c x"
proof -
  have le: "Nc_eta c \<le> eta_p c * Nc_eta c" using p by (cases "eta_p c") simp_all
  have a: "slice_vec (slice_vec x 0 (N c + Nc_eta c)) 0 (N c) = slice_vec x 0 (N c)"
    using len le by (simp add: slice_vec_def min_def)
  have e: "slice_vec (slice_vec x 0 (N c + Nc_eta c)) (N c) (N c + Nc_eta c)
           = slice_vec x (N c) (N c + Nc_eta c)"
    using len le by (simp add: slice_vec_def min_def drop_take)
  show ?thesis
    unfolding a e x_star_of_def alpha_of_def eta_of_def
    using len U by (intro assign_slice_append) (simp_all add: length_slice_vec)
qed

lemma length_alpha_of: "N c \<le> length x \<Longrightarrow> length (alpha_of c x) = N c"
  by (simp add: alpha_of_def length_slice_vec)

lemma length_eta_of: "length (eta_of c x) = length (U_eta c)"
  by (simp add: eta_of_def)

lemma length_x_star_of:
  "N c \<le> length x \<Longrightarrow> length (U_eta c) = N_eta c \<Longrightarrow> length (x_star_of c x) = N c + N_eta c"
  by (simp add: x_star_of_def length_alpha_of length_eta_of)

lemma slice_x_star_alpha:
  "N c \<le> length x \<Longrightarrow> slice_vec (x_star_of c x) 0 (N c) = alpha_of c x"
  by (simp add: x_star_of_def slice_vec_append_left length_alpha_of)

lemma slice_x_star_eta:
  "N c \<le> length x \<Longrightarrow> length (U_eta c) = N_eta c \<Longrightarrow>
   slice_vec (x_star_of c x) (N c) (N c + N_eta c) = eta_of c x"
  by (simp add: x_star_of_def slice_vec_append_right length_alpha_of length_eta_of)

lemma compute_evolution_operator_Jacobians_eq:
  assumes "length x = N c + eta_p c * Nc_eta c" "0 < eta_p c" "length (U_eta c) = N_eta c"
  shows "compute_evolution_operator_Jacobians c x tk =
           (eval_d_alpha c (x_star_of c x) tk, eval_d_eta c (x_star_of c x) tk)"
  using assms
  by (simp add: compute_evolution_operator_Jacobians_def Let_def assign_slice_empty
      x_c_star_eq x_star_eq)

text \<open>The matrix and the vector that \<^verbatim>\<open>compute_evolution_operator\<close> assembles from the inverse.\<close>

lemma iden12_compute_evolution_operator_eq:
  assumes "length x = N c + eta_p c * Nc_eta c" "0 < eta_p c" "length (U_eta c) = N_eta c"
  shows "iden12_compute_evolution_operator c x tk Ja Je =
     (case linalg_inv c (msub (eye (N c)) (smult (dt c / 2) Ja)) of
        None \<Rightarrow> Inl LinAlgError
      | Some M \<Rightarrow>
          Inr (assign_block
                 (assign_block
                    (assign_block (zeros (N c + eta_p c * Nc_eta c) (N c + eta_p c * Nc_eta c))
                       0 (N c) 0 (N c) (matmul M (madd (eye (N c)) (smult (dt c / 2) Ja))))
                    0 (N c) (N c) (N c + eta_p c * Nc_eta c)
                    (matmul (matmul (matmul M (smult (dt c / 2) Je)) (B_eta c)) (U_eta_p c)))
                 (N c) (N c + eta_p c * Nc_eta c) (N c) (N c + eta_p c * Nc_eta c)
                 (matmul (UT_eta_p c) (matmul (A_eta c) (U_eta_p c))),
               assign_slice (zeros_vec (N c + eta_p c * Nc_eta c)) 0 (N c)
                 (matvec M (svmult (dt c)
                    (vsub (vsub (F_eval c (x_star_of c x) tk) (matvec Ja (alpha_of c x)))
                       (matvec Je (eta_of c x)))))))"
proof -
  have n: "N c \<le> length x" using assms by simp
  show ?thesis
    using assms
    by (simp add: iden12_compute_evolution_operator_def Let_def x_c_star_eq x_star_eq
        slice_x_star_alpha [OF n] slice_x_star_eta [OF n] split: option.split)
qed

lemma slice_mat_assign_block_other:
  assumes A: "is_mat r c A" and le: "a1 \<le> r" "b1 \<le> c"
    and disj: "r1 \<le> a0 \<or> a1 \<le> r0 \<or> c1 \<le> b0 \<or> b1 \<le> c0"
  shows "slice_mat (assign_block A r0 r1 c0 c1 B) a0 a1 b0 b1 = slice_mat A a0 a1 b0 b1"
proof (cases "r = 0")
  case True
  with A le show ?thesis
    by (simp add: is_mat_def slice_mat_def assign_block_def)
next
  case False
  then have A': "is_mat r c (assign_block A r0 r1 c0 c1 B)"
    using A by (simp add: is_mat_assign_block)
  show ?thesis
  proof (rule mat_eqI [OF is_mat_slice_mat [OF A' le] is_mat_slice_mat [OF A le]])
    fix i j assume "i < a1 - a0" "j < b1 - b0"
    then show "slice_mat (assign_block A r0 r1 c0 c1 B) a0 a1 b0 b1 ! i ! j
               = slice_mat A a0 a1 b0 b1 ! i ! j"
      using le disj
      by (auto simp: nth_slice_mat [OF A' le] nth_slice_mat [OF A le] nth_assign_block [OF A])
  qed
qed

lemma slice_vec_assign_slice:
  "length w = b - a \<Longrightarrow> b \<le> length v \<Longrightarrow> slice_vec (assign_slice v a b w) a b = w"
  by (rule vec_eqI [where n = "b - a"])
     (auto simp: length_slice_vec nth_slice_vec nth_assign_slice)

lemma shapes_inverse:
  assumes "iden12_shapes c" "linalg_inv c A = Some M" "length A = n"
  shows "is_mat n n M"
  using assms unfolding iden12_shapes_def by blast

lemma is_mat_I_minus:
  "0 < n \<Longrightarrow> is_mat n n (msub (eye n) (smult a J))"
  by (simp add: is_mat_msub)

lemma is_mat_I_plus:
  "0 < n \<Longrightarrow> is_mat n n (madd (eye n) (smult a J))"
  by (simp add: is_mat_madd)

lemma shapes_multiplier:
  assumes "iden12_shapes c" "linalg_inv c (msub (eye (N c)) (smult a J)) = Some M"
  shows "is_mat (N c) (N c) M"
  using shapes_inverse [OF assms] is_mat_I_minus [of "N c" a J] assms(1)
  by (simp add: is_mat_length iden12_shapes_def)

section \<open>The Crank-Nicolson linearizer\<close>

text \<open>
  Claim C1. For every state and time, the linearizer returns the affine pair
  \<open>F_evolution = M\<cdot>(I + (dt/2)\<cdot>J)\<close> and \<open>b_evolution = M\<cdot>(dt\<cdot>bias)\<close>, where \<open>J\<close> is the
  Jacobian with respect to \<open>alpha\<close> at that state and time, \<open>bias = eval - J\<cdot>alpha\<close> (minus
  \<open>J_eta\<cdot>eta\<close> when there is a parameter block) and \<open>M\<close> is what \<^verbatim>\<open>np.linalg.inv\<close> returns
  for \<open>I - (dt/2)\<cdot>J\<close>, with \<open>J\<close> the Jacobian of the \<open>alpha\<close> block alone. In \<^verbatim>\<open>evol_06.py\<close>
  (configuration \<open>d\<close>) the pair is the whole result. In \<^verbatim>\<open>state_iden_12_main.py\<close>
  (configuration \<open>c\<close>) the Jacobians are taken at the unconstrained state \<open>x_star_of c x\<close>,
  and the pair is the \<open>alpha\<close> block of the joint matrix and of the joint vector.
\<close>

theorem crank_nicolson_affine_pair:
  assumes shapes: "iden12_shapes c" and len: "length x = N c + eta_p c * Nc_eta c"
  shows
    "(let J = eval_d_alpha d a tk;
          bias = vsub (F_eval d a tk) (matvec J a)
      in \<forall>M. linalg_inv d (msub (eye (N d)) (smult (dt d / 2) J)) = Some M \<longrightarrow>
           evol06_compute_evolution_operator d a tk =
             Inr (matmul M (madd (eye (N d)) (smult (dt d / 2) J)),
                  matvec M (svmult (dt d) bias))) \<and>
     (let J = eval_d_alpha c (x_star_of c x) tk;
          J_eta = eval_d_eta c (x_star_of c x) tk;
          bias = vsub (vsub (F_eval c (x_star_of c x) tk) (matvec J (alpha_of c x)))
                   (matvec J_eta (eta_of c x))
      in compute_evolution_operator_Jacobians c x tk = (J, J_eta) \<and>
         (\<forall>M. linalg_inv c (msub (eye (N c)) (smult (dt c / 2) J)) = Some M \<longrightarrow>
            (\<exists>F_evolution b_evolution.
               iden12_compute_evolution_operator c x tk J J_eta = Inr (F_evolution, b_evolution) \<and>
               slice_mat F_evolution 0 (N c) 0 (N c) = matmul M (madd (eye (N c)) (smult (dt c / 2) J)) \<and>
               slice_vec b_evolution 0 (N c) = matvec M (svmult (dt c) bias))))"
proof -
  have p: "0 < eta_p c" and U: "length (U_eta c) = N_eta c" and Npos: "0 < N c"
    using shapes by (simp_all add: iden12_shapes_def is_mat_def)
  let ?n = "N c + eta_p c * Nc_eta c"
  have 1: "evol06_compute_evolution_operator d a tk =
             Inr (matmul M (madd (eye (N d)) (smult (dt d / 2) (eval_d_alpha d a tk))),
                  matvec M (svmult (dt d) (vsub (F_eval d a tk) (matvec (eval_d_alpha d a tk) a))))"
    if "linalg_inv d (msub (eye (N d)) (smult (dt d / 2) (eval_d_alpha d a tk))) = Some M" for M
    using that by (simp add: evol06_compute_evolution_operator_def Let_def)
  have 2: "\<exists>F_evolution b_evolution.
             iden12_compute_evolution_operator c x tk J Je = Inr (F_evolution, b_evolution) \<and>
             slice_mat F_evolution 0 (N c) 0 (N c) = matmul M (madd (eye (N c)) (smult (dt c / 2) J)) \<and>
             slice_vec b_evolution 0 (N c) =
               matvec M (svmult (dt c)
                 (vsub (vsub (F_eval c (x_star_of c x) tk) (matvec J (alpha_of c x))) (matvec Je (eta_of c x))))"
    if inv: "linalg_inv c (msub (eye (N c)) (smult (dt c / 2) J)) = Some M" for M J Je
  proof -
    have M: "is_mat (N c) (N c) M"
      by (rule shapes_multiplier [OF shapes inv])
    have Faa: "is_mat (N c) (N c) (matmul M (madd (eye (N c)) (smult (dt c / 2) J)))"
      by (rule is_mat_matmul [OF M is_mat_I_plus [OF Npos] Npos])
    let ?Z = "zeros ?n ?n"
    let ?F1 = "assign_block ?Z 0 (N c) 0 (N c) (matmul M (madd (eye (N c)) (smult (dt c / 2) J)))"
    have F1: "is_mat ?n ?n ?F1"
      using Npos by (simp add: is_mat_assign_block)
    let ?F2 = "assign_block ?F1 0 (N c) (N c) ?n
                 (matmul (matmul (matmul M (smult (dt c / 2) Je)) (B_eta c)) (U_eta_p c))"
    have F2: "is_mat ?n ?n ?F2"
      using Npos F1 by (simp add: is_mat_assign_block)
    let ?F3 = "assign_block ?F2 (N c) ?n (N c) ?n (matmul (UT_eta_p c) (matmul (A_eta c) (U_eta_p c)))"
    have "slice_mat ?F3 0 (N c) 0 (N c) = slice_mat ?F2 0 (N c) 0 (N c)"
      by (rule slice_mat_assign_block_other [OF F2]) simp_all
    also have "\<dots> = slice_mat ?F1 0 (N c) 0 (N c)"
      by (rule slice_mat_assign_block_other [OF F1]) simp_all
    also have "\<dots> = matmul M (madd (eye (N c)) (smult (dt c / 2) J))"
      by (rule slice_mat_assign_block [OF is_mat_zeros]) (use Faa in simp_all)
    finally have F: "slice_mat ?F3 0 (N c) 0 (N c) = matmul M (madd (eye (N c)) (smult (dt c / 2) J))" .
    have b: "slice_vec (assign_slice (zeros_vec ?n) 0 (N c) w) 0 (N c) = w" if "length w = N c" for w
      using that by (simp add: slice_vec_assign_slice)
    show ?thesis
      using F M
      by (simp add: iden12_compute_evolution_operator_eq [OF len p U] inv b is_mat_length)
  qed
  show ?thesis
    using 1 2 by (simp add: Let_def compute_evolution_operator_Jacobians_eq [OF len p U])
qed

lemma cfg12_fields:
  "N cfg12 = 1" "NT cfg12 = 3" "dt cfg12 = 1"
  "F_eval cfg12 = (\<lambda>x _. [- (x ! 0) + x ! 1])"
  "eval_d_alpha cfg12 = (\<lambda>_ _. [[- 1]])"
  "linalg_inv cfg12 = inv_1x1"
  "N_eta cfg12 = 2" "Ne_eta cfg12 = 2" "eta_p cfg12 = 2"
  "U_eta cfg12 = [[3 / 5], [4 / 5]]"
  "UT_eta cfg12 = [[3 / 5, 4 / 5]]"
  "eta_A cfg12 = [[[1 / 2, 0], [0, 1 / 2]], [[1 / 4, 0], [0, 1 / 4]]]"
  "eval_d_eta cfg12 = (\<lambda>_ _. [[1, 0]])"
  by (simp_all add: cfg12_def)

lemma cfg06_fields:
  "N cfg06 = 1" "NT cfg06 = 3" "dt cfg06 = 1"
  "F_eval cfg06 = (\<lambda>a _. [- (a ! 0)])"
  "eval_d_alpha cfg06 = (\<lambda>_ _. [[- 1]])"
  "linalg_inv cfg06 = inv_1x1"
  "alpha_0 cfg06 = [1]"
  by (simp_all add: cfg06_def)

lemmas array_eval =
  msub_def madd_def smult_def eye_def matmul_def matvec_def svmult_def vsub_def vadd_def
  mk_mat_def mk_vec_def ncols_def lessThan_Suc inv_1x1_def

lemma Nc_eta_cfg12: "Nc_eta cfg12 = 1"
  by (simp add: Nc_eta_def num_constraints_eta_def cfg12_fields)

lemma inv_1x1_shape: "inv_1x1 A = Some B \<Longrightarrow> is_mat (length A) (length A) B"
  by (auto simp: inv_1x1_def is_mat_def split: list.splits if_splits)

lemma shapes_cfg12: "iden12_shapes cfg12"
  unfolding iden12_shapes_def
  by (auto simp: cfg12_fields Nc_eta_cfg12 is_mat_def less_Suc_eq numeral_2_eq_2 inv_1x1_shape [unfolded is_mat_def])

lemma len_cfg12: "length [1, 1, 1 :: real] = N cfg12 + eta_p cfg12 * Nc_eta cfg12"
  by (simp add: cfg12_fields Nc_eta_cfg12)

text \<open>
  The theorem at the two concrete configurations, for the state \<open>[1, 1, 1]\<close> of the
  identification and the coefficient \<open>[1]\<close> of the time evolution.
\<close>

theorem crank_nicolson_affine_pair_witness:
  "iden12_shapes cfg12 \<and> length [1, 1, 1 :: real] = N cfg12 + eta_p cfg12 * Nc_eta cfg12 \<and>
   evol06_compute_evolution_operator cfg06 [1] 0 = Inr ([[1 / 3]], [0]) \<and>
   compute_evolution_operator_Jacobians cfg12 [1, 1, 1] 0 = ([[- 1]], [[1, 0]]) \<and>
   (\<exists>F b. iden12_compute_evolution_operator cfg12 [1, 1, 1] 0 [[- 1]] [[1, 0]] = Inr (F, b) \<and>
          slice_mat F 0 1 0 1 = [[1 / 3]] \<and> slice_vec b 0 1 = [0])"
proof -
  have x: "x_star_of cfg12 [1, 1, 1] = [1, 3 / 5, 4 / 5]"
    "alpha_of cfg12 [1, 1, 1] = [1]" "eta_of cfg12 [1, 1, 1] = [3 / 5, 4 / 5]"
    by code_simp+
  show ?thesis
    using crank_nicolson_affine_pair [OF shapes_cfg12 len_cfg12, where d = cfg06 and a = "[1]" and tk = 0]
      shapes_cfg12 len_cfg12
    by (simp add: Let_def x cfg12_fields cfg06_fields array_eval)
qed

lemma is_mat_foldl:
  assumes step: "\<And>A i. is_mat r c A \<Longrightarrow> is_mat r c (f A i)" and A: "is_mat r c A"
  shows "is_mat r c (foldl f A xs)"
  using A by (induction xs arbitrary: A) (simp_all add: step)

lemma shapes_pos:
  assumes "iden12_shapes c"
  shows "0 < N c" "0 < N_eta c" "0 < Nc_eta c" "0 < eta_p c"
    "0 < eta_p c * N_eta c" "0 < eta_p c * Nc_eta c" "0 < N c + eta_p c * Nc_eta c"
  using assms by (simp_all add: iden12_shapes_def)

lemma shapes_U:
  assumes "iden12_shapes c"
  shows "is_mat (N_eta c) (Nc_eta c) (U_eta c)" "is_mat (Nc_eta c) (N_eta c) (UT_eta c)"
    "length (U_eta c) = N_eta c" "length (UT_eta c) = Nc_eta c"
  using assms by (simp_all add: iden12_shapes_def is_mat_def)

lemma shapes_eta_A:
  assumes "iden12_shapes c" "i < eta_p c"
  shows "is_mat (N_eta c) (N_eta c) (eta_A c ! i)"
  using assms by (simp add: iden12_shapes_def)

lemma shapes_Jacobians:
  assumes "iden12_shapes c" "length x = N c + N_eta c"
  shows "is_mat (N c) (N c) (eval_d_alpha c x tk)" "is_mat (N c) (N_eta c) (eval_d_eta c x tk)"
  using assms by (simp_all add: iden12_shapes_def)

lemma is_mat_U_eta_p:
  assumes "iden12_shapes c"
  shows "is_mat (eta_p c * N_eta c) (eta_p c * Nc_eta c) (U_eta_p c)"
  unfolding U_eta_p_def
  by (rule is_mat_foldl) (simp_all add: is_mat_assign_block shapes_pos [OF assms])

lemma is_mat_UT_eta_p:
  assumes "iden12_shapes c"
  shows "is_mat (eta_p c * Nc_eta c) (eta_p c * N_eta c) (UT_eta_p c)"
  unfolding UT_eta_p_def
  by (rule is_mat_foldl) (simp_all add: is_mat_assign_block shapes_pos [OF assms])

lemma is_mat_A_eta:
  assumes "iden12_shapes c"
  shows "is_mat (eta_p c * N_eta c) (eta_p c * N_eta c) (A_eta c)"
  unfolding A_eta_def
  by (intro is_mat_assign_block is_mat_foldl)
     (simp_all add: A_eta_body_def is_mat_assign_block shapes_pos [OF assms])

lemma is_mat_B_eta:
  assumes "iden12_shapes c"
  shows "is_mat (N_eta c) (eta_p c * N_eta c) (B_eta c)"
  unfolding B_eta_def Let_def
  by (intro is_mat_assign_block is_mat_foldl)
     (simp_all add: is_mat_assign_block shapes_pos [OF assms])

lemma is_mat_F_evol_eta:
  assumes s: "iden12_shapes c" and M: "is_mat (N c) (N c) M" and J: "is_mat (N c) (N_eta c) Je"
  shows "is_mat (N c) (eta_p c * Nc_eta c)
           (matmul (matmul (matmul M (smult a Je)) (B_eta c)) (U_eta_p c))"
  by (intro is_mat_matmul [OF _ is_mat_U_eta_p [OF s]] is_mat_matmul [OF _ is_mat_B_eta [OF s]]
        is_mat_matmul [OF M] is_mat_smult [OF J] shapes_pos [OF s])

lemma is_mat_F_eta_eta:
  assumes s: "iden12_shapes c"
  shows "is_mat (eta_p c * Nc_eta c) (eta_p c * Nc_eta c)
           (matmul (UT_eta_p c) (matmul (A_eta c) (U_eta_p c)))"
  by (intro is_mat_matmul [OF is_mat_UT_eta_p [OF s]] is_mat_matmul [OF is_mat_A_eta [OF s]]
        is_mat_U_eta_p [OF s] shapes_pos [OF s])

text \<open>A matrix of four blocks, written as the driver writes it: three assignments into zeros.\<close>

lemma nth_three_blocks:
  assumes Faa: "is_mat n n Faa" and Fae: "is_mat n m Fae" and Fee: "is_mat m m Fee"
    and i: "i < n + m" and j: "j < n + m" and n: "0 < n"
  shows "assign_block
           (assign_block (assign_block (zeros (n + m) (n + m)) 0 n 0 n Faa) 0 n n (n + m) Fae)
           n (n + m) n (n + m) Fee ! i ! j =
         (if i < n then (if j < n then Faa ! i ! j else Fae ! i ! (j - n))
          else (if j < n then 0 else Fee ! (i - n) ! (j - n)))"
proof -
  let ?Z = "zeros (n + m) (n + m)"
  let ?F1 = "assign_block ?Z 0 n 0 n Faa"
  let ?F2 = "assign_block ?F1 0 n n (n + m) Fae"
  have F1: "is_mat (n + m) (n + m) ?F1" using n by (simp add: is_mat_assign_block)
  have F2: "is_mat (n + m) (n + m) ?F2" using n F1 by (simp add: is_mat_assign_block)
  show ?thesis
    using i j
    by (auto simp: nth_assign_block [OF F2] nth_assign_block [OF F1]
        nth_assign_block [OF is_mat_zeros])
qed

lemma is_mat_three_blocks:
  "0 < n \<Longrightarrow> is_mat (n + m) (n + m)
     (assign_block
        (assign_block (assign_block (zeros (n + m) (n + m)) 0 n 0 n Faa) 0 n n (n + m) Fae)
        n (n + m) n (n + m) Fee)"
  by (simp add: is_mat_assign_block)

lemma sum_split_blocks:
  fixes f :: "nat \<Rightarrow> real"
  shows "(\<Sum>k<n + m. f k) = (\<Sum>k<n. f k) + (\<Sum>k<m. f (n + k))"
proof -
  have "(\<Sum>k<n + m. f k) = (\<Sum>k\<in>{0..<n}. f k) + (\<Sum>k\<in>{n..<n + m}. f k)"
    by (simp add: lessThan_atLeast0 sum.atLeastLessThan_concat)
  also have "(\<Sum>k\<in>{n..<n + m}. f k) = (\<Sum>k\<in>{0..<m}. f (n + k))"
    using sum.shift_bounds_nat_ivl [of f 0 n m] by (simp add: add.commute)
  finally show ?thesis by (simp add: lessThan_atLeast0)
qed

lemma matvec_three_blocks:
  assumes Faa: "is_mat n n Faa" and Fae: "is_mat n m Fae" and Fee: "is_mat m m Fee"
    and n: "0 < n" and y: "length y = n + m"
  defines "F \<equiv> assign_block
           (assign_block (assign_block (zeros (n + m) (n + m)) 0 n 0 n Faa) 0 n n (n + m) Fae)
           n (n + m) n (n + m) Fee"
  shows "slice_vec (matvec F y) 0 n = vadd (matvec Faa (slice_vec y 0 n)) (matvec Fae (slice_vec y n (n + m)))"
    and "slice_vec (matvec F y) n (n + m) = matvec Fee (slice_vec y n (n + m))"
proof -
  have F: "is_mat (n + m) (n + m) F"
    unfolding F_def by (rule is_mat_three_blocks [OF n])
  have lenF: "length F = n + m" using F by (simp add: is_mat_length)
  have ent: "F ! i ! j = (if i < n then (if j < n then Faa ! i ! j else Fae ! i ! (j - n))
                          else (if j < n then 0 else Fee ! (i - n) ! (j - n)))"
    if "i < n + m" "j < n + m" for i j
    unfolding F_def by (rule nth_three_blocks [OF Faa Fae Fee that n])
  have row: "matvec F y ! i = (\<Sum>k<n. F ! i ! k * y ! k) + (\<Sum>k<m. F ! i ! (n + k) * y ! (n + k))"
    if "i < n + m" for i
    using that by (simp add: nth_matvec lenF y sum_split_blocks)
  show "slice_vec (matvec F y) 0 n = vadd (matvec Faa (slice_vec y 0 n)) (matvec Fae (slice_vec y n (n + m)))"
  proof (rule vec_eqI [where n = n])
    show "length (slice_vec (matvec F y) 0 n) = n"
      by (simp add: length_slice_vec lenF)
    show "length (vadd (matvec Faa (slice_vec y 0 n)) (matvec Fae (slice_vec y n (n + m)))) = n"
      using Faa by (simp add: is_mat_length)
    fix i assume i: "i < n"
    have "slice_vec (matvec F y) 0 n ! i = matvec F y ! i"
      using i by (simp add: nth_slice_vec lenF)
    also have "\<dots> = (\<Sum>k<n. Faa ! i ! k * y ! k) + (\<Sum>k<m. Fae ! i ! k * y ! (n + k))"
      using i by (simp add: row ent)
    also have "\<dots> = vadd (matvec Faa (slice_vec y 0 n)) (matvec Fae (slice_vec y n (n + m))) ! i"
      using i Faa Fae y
      by (simp add: is_mat_length nth_matvec length_slice_vec nth_slice_vec)
    finally show "slice_vec (matvec F y) 0 n ! i
                  = vadd (matvec Faa (slice_vec y 0 n)) (matvec Fae (slice_vec y n (n + m))) ! i" .
  qed
  show "slice_vec (matvec F y) n (n + m) = matvec Fee (slice_vec y n (n + m))"
  proof (rule vec_eqI [where n = m])
    show "length (slice_vec (matvec F y) n (n + m)) = m"
      by (simp add: length_slice_vec lenF)
    show "length (matvec Fee (slice_vec y n (n + m))) = m"
      using Fee by (simp add: is_mat_length)
    fix i assume i: "i < m"
    have "slice_vec (matvec F y) n (n + m) ! i = matvec F y ! (n + i)"
      using i by (simp add: nth_slice_vec lenF)
    also have "\<dots> = (\<Sum>k<m. Fee ! i ! k * y ! (n + k))"
      using i by (simp add: row ent)
    also have "\<dots> = matvec Fee (slice_vec y n (n + m)) ! i"
      using i Fee y by (simp add: is_mat_length nth_matvec length_slice_vec nth_slice_vec)
    finally show "slice_vec (matvec F y) n (n + m) ! i = matvec Fee (slice_vec y n (n + m)) ! i" .
  qed
qed

lemma slice_vec_vadd:
  "b \<le> length u \<Longrightarrow> b \<le> length v \<Longrightarrow>
   slice_vec (vadd u v) a b = vadd (slice_vec u a b) (slice_vec v a b)"
  by (rule vec_eqI [where n = "b - a"]) (simp_all add: length_slice_vec nth_slice_vec)

lemma slice_three_blocks:
  assumes Faa: "is_mat n n Faa" and Fae: "is_mat n m Fae" and Fee: "is_mat m m Fee" and n: "0 < n"
  defines "F \<equiv> assign_block
           (assign_block (assign_block (zeros (n + m) (n + m)) 0 n 0 n Faa) 0 n n (n + m) Fae)
           n (n + m) n (n + m) Fee"
  shows "slice_mat F 0 n 0 n = Faa" "slice_mat F 0 n n (n + m) = Fae"
    "slice_mat F n (n + m) n (n + m) = Fee" "slice_mat F n (n + m) 0 n = zeros m n"
proof -
  have F: "is_mat (n + m) (n + m) F"
    unfolding F_def by (rule is_mat_three_blocks [OF n])
  have ent: "F ! i ! j = (if i < n then (if j < n then Faa ! i ! j else Fae ! i ! (j - n))
                          else (if j < n then 0 else Fee ! (i - n) ! (j - n)))"
    if "i < n + m" "j < n + m" for i j
    unfolding F_def by (rule nth_three_blocks [OF Faa Fae Fee that n])
  have S: "is_mat (r1 - r0) (c1 - c0) (slice_mat F r0 r1 c0 c1)"
    and E: "\<And>i j. i < r1 - r0 \<Longrightarrow> j < c1 - c0 \<Longrightarrow> slice_mat F r0 r1 c0 c1 ! i ! j = F ! (r0 + i) ! (c0 + j)"
    if "r1 \<le> n + m" "c1 \<le> n + m" for r0 r1 c0 c1
    using that by (simp_all add: is_mat_slice_mat [OF F] nth_slice_mat [OF F])
  show "slice_mat F 0 n 0 n = Faa"
    by (rule mat_eqI [where r = n and c = n]) (use S [of n n 0 0] Faa in \<open>simp_all add: E ent\<close>)
  show "slice_mat F 0 n n (n + m) = Fae"
    by (rule mat_eqI [where r = n and c = m]) (use S [of n "n + m" 0 n] Fae in \<open>simp_all add: E ent\<close>)
  show "slice_mat F n (n + m) n (n + m) = Fee"
    by (rule mat_eqI [where r = m and c = m]) (use S [of "n + m" "n + m" n n] Fee in \<open>simp_all add: E ent\<close>)
  show "slice_mat F n (n + m) 0 n = zeros m n"
    by (rule mat_eqI [where r = m and c = n]) (use S [of "n + m" n n 0] in \<open>simp_all add: E ent\<close>)
qed

lemma vadd_zeros_vec: "length u = n \<Longrightarrow> vadd u (zeros_vec n) = u"
  by (rule vec_eqI [where n = n]) simp_all

lemma slice_vec_assign_slice_after:
  "b \<le> a' \<Longrightarrow> b' \<le> length v \<Longrightarrow> slice_vec (assign_slice v a b w) a' b' = slice_vec v a' b'"
  by (rule vec_eqI [where n = "b' - a'"])
     (auto simp: length_slice_vec nth_slice_vec nth_assign_slice)

lemma slice_vec_zeros_vec: "b \<le> n \<Longrightarrow> slice_vec (zeros_vec n) a b = zeros_vec (b - a)"
  by (rule vec_eqI [where n = "b - a"]) (simp_all add: length_slice_vec nth_slice_vec)

text \<open>What \<^verbatim>\<open>compute_evolution_operator\<close> returns when the inversion succeeds.\<close>

lemma iden12_operator_blocks:
  assumes shapes: "iden12_shapes c" and len: "length x = N c + eta_p c * Nc_eta c"
    and Je: "is_mat (N c) (N_eta c) Je"
    and inv: "linalg_inv c (msub (eye (N c)) (smult (dt c / 2) Ja)) = Some M"
  obtains F b where
    "iden12_compute_evolution_operator c x tk Ja Je = Inr (F, b)"
    "is_mat (N c + eta_p c * Nc_eta c) (N c + eta_p c * Nc_eta c) F"
    "length b = N c + eta_p c * Nc_eta c"
    "slice_mat F 0 (N c) 0 (N c) = matmul M (madd (eye (N c)) (smult (dt c / 2) Ja))"
    "slice_mat F 0 (N c) (N c) (N c + eta_p c * Nc_eta c)
       = matmul (matmul (matmul M (smult (dt c / 2) Je)) (B_eta c)) (U_eta_p c)"
    "slice_mat F (N c) (N c + eta_p c * Nc_eta c) (N c) (N c + eta_p c * Nc_eta c)
       = matmul (UT_eta_p c) (matmul (A_eta c) (U_eta_p c))"
    "slice_mat F (N c) (N c + eta_p c * Nc_eta c) 0 (N c) = zeros (eta_p c * Nc_eta c) (N c)"
    "slice_vec b (N c) (N c + eta_p c * Nc_eta c) = zeros_vec (eta_p c * Nc_eta c)"
    "\<And>i. N c \<le> i \<Longrightarrow> i < N c + eta_p c * Nc_eta c \<Longrightarrow> b ! i = 0"
    "\<And>y. length y = N c + eta_p c * Nc_eta c \<Longrightarrow>
       slice_vec (matvec F y) 0 (N c)
         = vadd (matvec (matmul M (madd (eye (N c)) (smult (dt c / 2) Ja))) (slice_vec y 0 (N c)))
             (matvec (matmul (matmul (matmul M (smult (dt c / 2) Je)) (B_eta c)) (U_eta_p c))
                (slice_vec y (N c) (N c + eta_p c * Nc_eta c)))"
    "\<And>y. length y = N c + eta_p c * Nc_eta c \<Longrightarrow>
       slice_vec (matvec F y) (N c) (N c + eta_p c * Nc_eta c)
         = matvec (matmul (UT_eta_p c) (matmul (A_eta c) (U_eta_p c)))
             (slice_vec y (N c) (N c + eta_p c * Nc_eta c))"
proof -
  note pos = shapes_pos [OF shapes]
  let ?n = "N c" and ?m = "eta_p c * Nc_eta c"
  let ?Faa = "matmul M (madd (eye ?n) (smult (dt c / 2) Ja))"
  let ?Fae = "matmul (matmul (matmul M (smult (dt c / 2) Je)) (B_eta c)) (U_eta_p c)"
  let ?Fee = "matmul (UT_eta_p c) (matmul (A_eta c) (U_eta_p c))"
  let ?F = "assign_block (assign_block (assign_block (zeros (?n + ?m) (?n + ?m)) 0 ?n 0 ?n ?Faa)
              0 ?n ?n (?n + ?m) ?Fae) ?n (?n + ?m) ?n (?n + ?m) ?Fee"
  let ?b = "assign_slice (zeros_vec (?n + ?m)) 0 ?n
              (matvec M (svmult (dt c)
                 (vsub (vsub (F_eval c (x_star_of c x) tk) (matvec Ja (alpha_of c x)))
                    (matvec Je (eta_of c x)))))"
  have M: "is_mat ?n ?n M"
    by (rule shapes_multiplier [OF shapes inv])
  have Faa: "is_mat ?n ?n ?Faa"
    by (rule is_mat_matmul [OF M is_mat_I_plus [OF pos(1)] pos(1)])
  have Fae: "is_mat ?n ?m ?Fae"
    by (rule is_mat_F_evol_eta [OF shapes M Je])
  have Fee: "is_mat ?m ?m ?Fee"
    by (rule is_mat_F_eta_eta [OF shapes])
  have res: "iden12_compute_evolution_operator c x tk Ja Je = Inr (?F, ?b)"
    by (simp add: iden12_compute_evolution_operator_eq [OF len pos(4) shapes_U(3) [OF shapes]] inv)
  show thesis
  proof (rule that [OF res])
    show "is_mat (?n + ?m) (?n + ?m) ?F"
      by (rule is_mat_three_blocks [OF pos(1)])
    show "length ?b = ?n + ?m" by simp
    show "slice_mat ?F 0 ?n 0 ?n = ?Faa"
      by (rule slice_three_blocks [OF Faa Fae Fee pos(1)])
    show "slice_mat ?F 0 ?n ?n (?n + ?m) = ?Fae"
      by (rule slice_three_blocks [OF Faa Fae Fee pos(1)])
    show "slice_mat ?F ?n (?n + ?m) ?n (?n + ?m) = ?Fee"
      by (rule slice_three_blocks [OF Faa Fae Fee pos(1)])
    show "slice_mat ?F ?n (?n + ?m) 0 ?n = zeros ?m ?n"
      by (rule slice_three_blocks [OF Faa Fae Fee pos(1)])
    show "slice_vec ?b ?n (?n + ?m) = zeros_vec ?m"
      by (simp add: slice_vec_assign_slice_after slice_vec_zeros_vec)
    show "\<And>i. ?n \<le> i \<Longrightarrow> i < ?n + ?m \<Longrightarrow> ?b ! i = 0"
      by (simp add: nth_assign_slice)
    show "\<And>y. length y = ?n + ?m \<Longrightarrow>
       slice_vec (matvec ?F y) 0 ?n
         = vadd (matvec ?Faa (slice_vec y 0 ?n)) (matvec ?Fae (slice_vec y ?n (?n + ?m)))"
      by (rule matvec_three_blocks [OF Faa Fae Fee pos(1)])
    show "\<And>y. length y = ?n + ?m \<Longrightarrow>
       slice_vec (matvec ?F y) ?n (?n + ?m) = matvec ?Fee (slice_vec y ?n (?n + ?m))"
      by (rule matvec_three_blocks [OF Faa Fae Fee pos(1)])
  qed
qed

section \<open>The joint evolution matrix\<close>

text \<open>
  Claim C2. With the unknown parameter block, the joint matrix of a step has the
  off-diagonal block \<open>M\<cdot>(dt/2)\<cdot>J_eta\<close> multiplied from the right by \<open>B_eta\<close> and then by
  \<open>U_eta_p\<close>, and its parameter rows are zero below the \<open>alpha\<close> block and
  \<open>UT_eta_p\<cdot>A_eta\<cdot>U_eta_p\<close> on the parameter block. The one matrix propagates both blocks: the
  \<open>alpha\<close> part of \<open>F\<cdot>y + b\<close> is made of the two upper blocks and the \<open>alpha\<close> part of \<open>b\<close>, the
  parameter part is the lower right block applied to the parameter part of \<open>y\<close>.
\<close>

theorem joint_evolution_matrix:
  assumes shapes: "iden12_shapes c" and len: "length x = N c + eta_p c * Nc_eta c"
    and Je: "is_mat (N c) (N_eta c) Je"
  shows "\<forall>M. linalg_inv c (msub (eye (N c)) (smult (dt c / 2) Ja)) = Some M \<longrightarrow>
     (\<exists>F b. iden12_compute_evolution_operator c x tk Ja Je = Inr (F, b) \<and>
        slice_mat F 0 (N c) (N c) (N c + eta_p c * Nc_eta c)
          = matmul (matmul (matmul M (smult (dt c / 2) Je)) (B_eta c)) (U_eta_p c) \<and>
        slice_mat F (N c) (N c + eta_p c * Nc_eta c) (N c) (N c + eta_p c * Nc_eta c)
          = matmul (UT_eta_p c) (matmul (A_eta c) (U_eta_p c)) \<and>
        slice_mat F (N c) (N c + eta_p c * Nc_eta c) 0 (N c) = zeros (eta_p c * Nc_eta c) (N c) \<and>
        (\<forall>y. length y = N c + eta_p c * Nc_eta c \<longrightarrow>
           slice_vec (vadd (matvec F y) b) 0 (N c)
             = vadd (vadd (matvec (slice_mat F 0 (N c) 0 (N c)) (slice_vec y 0 (N c)))
                       (matvec (slice_mat F 0 (N c) (N c) (N c + eta_p c * Nc_eta c))
                          (slice_vec y (N c) (N c + eta_p c * Nc_eta c))))
                 (slice_vec b 0 (N c)) \<and>
           slice_vec (vadd (matvec F y) b) (N c) (N c + eta_p c * Nc_eta c)
             = matvec (slice_mat F (N c) (N c + eta_p c * Nc_eta c) (N c) (N c + eta_p c * Nc_eta c))
                 (slice_vec y (N c) (N c + eta_p c * Nc_eta c))))"
  (is "\<forall>M. _ \<longrightarrow> (\<exists>F b. ?P M F b)")
proof (intro allI impI)
  fix M assume inv: "linalg_inv c (msub (eye (N c)) (smult (dt c / 2) Ja)) = Some M"
  let ?n = "N c + eta_p c * Nc_eta c"
  show "\<exists>F b. ?P M F b"
  proof (rule iden12_operator_blocks [OF shapes len Je inv, where tk = tk])
    fix F b
    assume res: "iden12_compute_evolution_operator c x tk Ja Je = Inr (F, b)"
      and F: "is_mat ?n ?n F" and b: "length b = ?n"
      and b1: "slice_mat F 0 (N c) 0 (N c) = matmul M (madd (eye (N c)) (smult (dt c / 2) Ja))"
      and b2: "slice_mat F 0 (N c) (N c) ?n
                 = matmul (matmul (matmul M (smult (dt c / 2) Je)) (B_eta c)) (U_eta_p c)"
      and b3: "slice_mat F (N c) ?n (N c) ?n = matmul (UT_eta_p c) (matmul (A_eta c) (U_eta_p c))"
      and b4: "slice_mat F (N c) ?n 0 (N c) = zeros (eta_p c * Nc_eta c) (N c)"
      and bz: "slice_vec b (N c) ?n = zeros_vec (eta_p c * Nc_eta c)"
      and up: "\<And>y. length y = ?n \<Longrightarrow> slice_vec (matvec F y) 0 (N c)
         = vadd (matvec (matmul M (madd (eye (N c)) (smult (dt c / 2) Ja))) (slice_vec y 0 (N c)))
             (matvec (matmul (matmul (matmul M (smult (dt c / 2) Je)) (B_eta c)) (U_eta_p c))
                (slice_vec y (N c) ?n))"
      and low: "\<And>y. length y = ?n \<Longrightarrow> slice_vec (matvec F y) (N c) ?n
         = matvec (matmul (UT_eta_p c) (matmul (A_eta c) (U_eta_p c))) (slice_vec y (N c) ?n)"
    have lenF: "length F = ?n"
      using F by (simp add: is_mat_length)
    have Fee: "length (matmul (UT_eta_p c) (matmul (A_eta c) (U_eta_p c))) = eta_p c * Nc_eta c"
      using is_mat_F_eta_eta [OF shapes] by (simp add: is_mat_length)
    have "?P M F b"
    proof (intro conjI allI impI)
      fix y :: vec assume y: "length y = ?n"
      have "slice_vec (vadd (matvec F y) b) 0 (N c)
              = vadd (slice_vec (matvec F y) 0 (N c)) (slice_vec b 0 (N c))"
        by (rule slice_vec_vadd) (simp_all add: lenF b)
      then show "slice_vec (vadd (matvec F y) b) 0 (N c)
             = vadd (vadd (matvec (slice_mat F 0 (N c) 0 (N c)) (slice_vec y 0 (N c)))
                       (matvec (slice_mat F 0 (N c) (N c) ?n) (slice_vec y (N c) ?n)))
                 (slice_vec b 0 (N c))"
        by (simp only: up [OF y] b1 b2)
      have "slice_vec (vadd (matvec F y) b) (N c) ?n
              = vadd (slice_vec (matvec F y) (N c) ?n) (slice_vec b (N c) ?n)"
        by (rule slice_vec_vadd) (simp_all add: lenF b)
      also have "\<dots> = vadd (matvec (matmul (UT_eta_p c) (matmul (A_eta c) (U_eta_p c)))
                             (slice_vec y (N c) ?n)) (zeros_vec (eta_p c * Nc_eta c))"
        by (simp only: low [OF y] bz)
      also have "\<dots> = matvec (matmul (UT_eta_p c) (matmul (A_eta c) (U_eta_p c))) (slice_vec y (N c) ?n)"
        by (rule vadd_zeros_vec) (simp add: Fee)
      finally show "slice_vec (vadd (matvec F y) b) (N c) ?n
             = matvec (slice_mat F (N c) ?n (N c) ?n) (slice_vec y (N c) ?n)"
        by (simp only: b3)
    qed (fact res b2 b3 b4)+
    then show ?thesis
      by (intro exI [where x = F] exI [where x = b])
  qed
qed

lemma inv_cfg12:
  "linalg_inv cfg12 (msub (eye (N cfg12)) (smult (dt cfg12 / 2) [[- 3 / 5]])) = Some [[10 / 13]]"
  by code_simp

lemma Je_cfg12: "is_mat (N cfg12) (N_eta cfg12) [[- 1, 0]]"
  by (simp add: cfg12_fields is_mat_def)

text \<open>The theorem at the concrete configuration, state \<open>[1, 1, 1]\<close> and vector \<open>[2, 3, 4]\<close>.\<close>

theorem joint_evolution_matrix_witness:
  "iden12_shapes cfg12 \<and> length [1, 1, 1 :: real] = N cfg12 + eta_p cfg12 * Nc_eta cfg12 \<and>
   is_mat (N cfg12) (N_eta cfg12) [[- 1, 0]] \<and>
   linalg_inv cfg12 (msub (eye (N cfg12)) (smult (dt cfg12 / 2) [[- 3 / 5]])) = Some [[10 / 13]] \<and>
   (\<exists>F b. iden12_compute_evolution_operator cfg12 [1, 1, 1] 0 [[- 3 / 5]] [[- 1, 0]] = Inr (F, b) \<and>
      slice_mat F 0 1 1 3 = matmul (matmul (matmul [[10 / 13]] (smult (1 / 2) [[- 1, 0]])) (B_eta cfg12)) (U_eta_p cfg12) \<and>
      slice_mat F 1 3 1 3 = matmul (UT_eta_p cfg12) (matmul (A_eta cfg12) (U_eta_p cfg12)) \<and>
      slice_mat F 1 3 0 1 = zeros 2 1 \<and>
      slice_vec (vadd (matvec F [2, 3, 4]) b) 1 3 = matvec (slice_mat F 1 3 1 3) (slice_vec [2, 3, 4] 1 3))"
proof -
  have n: "N cfg12 + eta_p cfg12 * Nc_eta cfg12 = 3" "N cfg12 = 1" "eta_p cfg12 * Nc_eta cfg12 = 2"
    "dt cfg12 / 2 = 1 / 2" "length [2, 3, 4 :: real] = 3"
    by (simp_all add: cfg12_fields Nc_eta_cfg12)
  note th = joint_evolution_matrix [OF shapes_cfg12 len_cfg12 Je_cfg12, of "[[- 3 / 5]]" 0,
      rule_format, OF inv_cfg12, unfolded n(1), unfolded n(2,3,4)]
  from th obtain F b where
    r: "iden12_compute_evolution_operator cfg12 [1, 1, 1] 0 [[- 3 / 5]] [[- 1, 0]] = Inr (F, b) \<and>
      slice_mat F 0 1 1 3 = matmul (matmul (matmul [[10 / 13]] (smult (1 / 2) [[- 1, 0]])) (B_eta cfg12)) (U_eta_p cfg12) \<and>
      slice_mat F 1 3 1 3 = matmul (UT_eta_p cfg12) (matmul (A_eta cfg12) (U_eta_p cfg12)) \<and>
      slice_mat F 1 3 0 1 = zeros 2 1 \<and>
      (\<forall>y. length y = 3 \<longrightarrow>
           slice_vec (vadd (matvec F y) b) 0 1
             = vadd (vadd (matvec (slice_mat F 0 1 0 1) (slice_vec y 0 1))
                       (matvec (slice_mat F 0 1 1 3) (slice_vec y 1 3)))
                 (slice_vec b 0 1) \<and>
           slice_vec (vadd (matvec F y) b) 1 3 = matvec (slice_mat F 1 3 1 3) (slice_vec y 1 3))"
    by (elim exE)
  from r have "slice_vec (vadd (matvec F [2, 3, 4]) b) 1 3 = matvec (slice_mat F 1 3 1 3) (slice_vec [2, 3, 4] 1 3)"
    using n(5) by (elim conjE allE [where x = "[2, 3, 4]"] impE) assumption+
  with r have "iden12_compute_evolution_operator cfg12 [1, 1, 1] 0 [[- 3 / 5]] [[- 1, 0]] = Inr (F, b) \<and>
      slice_mat F 0 1 1 3 = matmul (matmul (matmul [[10 / 13]] (smult (1 / 2) [[- 1, 0]])) (B_eta cfg12)) (U_eta_p cfg12) \<and>
      slice_mat F 1 3 1 3 = matmul (UT_eta_p cfg12) (matmul (A_eta cfg12) (U_eta_p cfg12)) \<and>
      slice_mat F 1 3 0 1 = zeros 2 1 \<and>
      slice_vec (vadd (matvec F [2, 3, 4]) b) 1 3 = matvec (slice_mat F 1 3 1 3) (slice_vec [2, 3, 4] 1 3)"
    by (elim conjE) (intro conjI; assumption)
  then have "\<exists>F b. iden12_compute_evolution_operator cfg12 [1, 1, 1] 0 [[- 3 / 5]] [[- 1, 0]] = Inr (F, b) \<and>
      slice_mat F 0 1 1 3 = matmul (matmul (matmul [[10 / 13]] (smult (1 / 2) [[- 1, 0]])) (B_eta cfg12)) (U_eta_p cfg12) \<and>
      slice_mat F 1 3 1 3 = matmul (UT_eta_p cfg12) (matmul (A_eta cfg12) (U_eta_p cfg12)) \<and>
      slice_mat F 1 3 0 1 = zeros 2 1 \<and>
      slice_vec (vadd (matvec F [2, 3, 4]) b) 1 3 = matvec (slice_mat F 1 3 1 3) (slice_vec [2, 3, 4] 1 3)"
    by (intro exI [where x = F] exI [where x = b])
  then show ?thesis
    by (intro conjI shapes_cfg12 len_cfg12 Je_cfg12 inv_cfg12)
qed

section \<open>The additive vector on the parameter block\<close>

text \<open>
  Claim C9. The vector \<open>b_evolution\<close> of the joint linearizer is zero on the whole parameter
  block, the entries \<open>N\<close> to \<open>N + eta_p\<cdot>Nc_eta - 1\<close>: only its first \<open>N\<close> entries are set. So the
  parameter part of \<open>F\<cdot>y + b\<close> is \<open>UT_eta_p\<cdot>A_eta\<cdot>U_eta_p\<close> applied to the parameter part of \<open>y\<close>,
  without a bias.
\<close>

theorem additive_vector_zero_on_parameters:
  assumes shapes: "iden12_shapes c" and len: "length x = N c + eta_p c * Nc_eta c"
    and Je: "is_mat (N c) (N_eta c) Je"
  shows "\<forall>M. linalg_inv c (msub (eye (N c)) (smult (dt c / 2) Ja)) = Some M \<longrightarrow>
     (\<exists>F b. iden12_compute_evolution_operator c x tk Ja Je = Inr (F, b) \<and>
        length b = N c + eta_p c * Nc_eta c \<and>
        (\<forall>i. N c \<le> i \<and> i < N c + eta_p c * Nc_eta c \<longrightarrow> b ! i = 0) \<and>
        (\<forall>y. length y = N c + eta_p c * Nc_eta c \<longrightarrow>
           slice_vec (vadd (matvec F y) b) (N c) (N c + eta_p c * Nc_eta c)
             = matvec (matmul (UT_eta_p c) (matmul (A_eta c) (U_eta_p c)))
                 (slice_vec y (N c) (N c + eta_p c * Nc_eta c))))"
  (is "\<forall>M. _ \<longrightarrow> (\<exists>F b. ?P M F b)")
proof (intro allI impI)
  fix M assume inv: "linalg_inv c (msub (eye (N c)) (smult (dt c / 2) Ja)) = Some M"
  let ?n = "N c + eta_p c * Nc_eta c"
  show "\<exists>F b. ?P M F b"
  proof (rule iden12_operator_blocks [OF shapes len Je inv, where tk = tk])
    fix F b
    assume res: "iden12_compute_evolution_operator c x tk Ja Je = Inr (F, b)"
      and F: "is_mat ?n ?n F" and b: "length b = ?n"
      and bz: "slice_vec b (N c) ?n = zeros_vec (eta_p c * Nc_eta c)"
      and b0: "\<And>i. N c \<le> i \<Longrightarrow> i < ?n \<Longrightarrow> b ! i = 0"
      and low: "\<And>y. length y = ?n \<Longrightarrow> slice_vec (matvec F y) (N c) ?n
         = matvec (matmul (UT_eta_p c) (matmul (A_eta c) (U_eta_p c))) (slice_vec y (N c) ?n)"
    have lenF: "length F = ?n"
      using F by (simp add: is_mat_length)
    have Fee: "length (matmul (UT_eta_p c) (matmul (A_eta c) (U_eta_p c))) = eta_p c * Nc_eta c"
      using is_mat_F_eta_eta [OF shapes] by (simp add: is_mat_length)
    have "?P M F b"
    proof (intro conjI allI impI)
      fix i assume "N c \<le> i \<and> i < ?n"
      then show "b ! i = 0" using b0 by (elim conjE)
    next
      fix y :: vec assume y: "length y = ?n"
      have "slice_vec (vadd (matvec F y) b) (N c) ?n
              = vadd (slice_vec (matvec F y) (N c) ?n) (slice_vec b (N c) ?n)"
        by (rule slice_vec_vadd) (simp_all add: lenF b)
      also have "\<dots> = vadd (matvec (matmul (UT_eta_p c) (matmul (A_eta c) (U_eta_p c)))
                             (slice_vec y (N c) ?n)) (zeros_vec (eta_p c * Nc_eta c))"
        by (simp only: low [OF y] bz)
      also have "\<dots> = matvec (matmul (UT_eta_p c) (matmul (A_eta c) (U_eta_p c))) (slice_vec y (N c) ?n)"
        by (rule vadd_zeros_vec) (simp add: Fee)
      finally show "slice_vec (vadd (matvec F y) b) (N c) ?n
             = matvec (matmul (UT_eta_p c) (matmul (A_eta c) (U_eta_p c))) (slice_vec y (N c) ?n)" .
    qed (fact res b)+
    then show ?thesis
      by (intro exI [where x = F] exI [where x = b])
  qed
qed

text \<open>The theorem at the concrete configuration: the entries 1 and 2 of the vector are zero.\<close>

theorem additive_vector_zero_on_parameters_witness:
  "iden12_shapes cfg12 \<and> length [1, 1, 1 :: real] = N cfg12 + eta_p cfg12 * Nc_eta cfg12 \<and>
   is_mat (N cfg12) (N_eta cfg12) [[- 1, 0]] \<and>
   linalg_inv cfg12 (msub (eye (N cfg12)) (smult (dt cfg12 / 2) [[- 3 / 5]])) = Some [[10 / 13]] \<and>
   (\<exists>F b. iden12_compute_evolution_operator cfg12 [1, 1, 1] 0 [[- 3 / 5]] [[- 1, 0]] = Inr (F, b) \<and>
      length b = 3 \<and> b ! 1 = 0 \<and> b ! 2 = 0)"
proof -
  have n: "N cfg12 + eta_p cfg12 * Nc_eta cfg12 = 3" "N cfg12 = 1"
    by (simp_all add: cfg12_fields Nc_eta_cfg12)
  note th = additive_vector_zero_on_parameters [OF shapes_cfg12 len_cfg12 Je_cfg12, of "[[- 3 / 5]]" 0,
      rule_format, OF inv_cfg12, unfolded n(1), unfolded n(2)]
  from th obtain F b where
    r: "iden12_compute_evolution_operator cfg12 [1, 1, 1] 0 [[- 3 / 5]] [[- 1, 0]] = Inr (F, b)"
      "length b = 3" "\<forall>i. 1 \<le> i \<and> i < 3 \<longrightarrow> b ! i = 0"
    by (elim exE conjE)
  from r(3) have "b ! 1 = 0" "b ! 2 = 0" by simp_all
  with r(1,2) have "\<exists>F b. iden12_compute_evolution_operator cfg12 [1, 1, 1] 0 [[- 3 / 5]] [[- 1, 0]] = Inr (F, b) \<and>
      length b = 3 \<and> b ! 1 = 0 \<and> b ! 2 = 0"
    by (intro exI [where x = F] exI [where x = b] conjI)
  then show ?thesis
    by (intro conjI shapes_cfg12 len_cfg12 Je_cfg12 inv_cfg12)
qed

lemma block_index_less:
  fixes i m n b :: nat
  assumes "i < m" "b < n"
  shows "i * n + b < m * n"
proof -
  have "i * n + b < Suc i * n" using assms(2) by simp
  also have "\<dots> \<le> m * n" using assms(1) by (intro mult_le_mono1) simp
  finally show ?thesis .
qed

lemma block_index_le:
  fixes i m n :: nat
  shows "i \<le> m \<Longrightarrow> i * n \<le> m * n"
  by (rule mult_le_mono1)

lemma foldl_upt_Suc: "foldl f a [0..<Suc m] = f (foldl f a [0..<m]) m"
  by simp

lemma is_mat_A_eta_body: "is_mat r k A \<Longrightarrow> 0 < r \<Longrightarrow> is_mat r k (A_eta_body c A i)"
  by (simp add: A_eta_body_def is_mat_assign_block)

text \<open>The matrix of the VAR(p) model after the first \<open>m\<close> passes of its loop.\<close>

lemma A_eta_loop:
  assumes s: "iden12_shapes c"
  defines "G \<equiv> \<lambda>m. foldl (A_eta_body c) (zeros (eta_p c * N_eta c) (eta_p c * N_eta c)) [0..<m]"
  shows "m \<le> eta_p c - 1 \<Longrightarrow>
     is_mat (eta_p c * N_eta c) (eta_p c * N_eta c) (G m) \<and>
     (\<forall>r k. N_eta c \<le> r \<longrightarrow> r < eta_p c * N_eta c \<longrightarrow> k < eta_p c * N_eta c \<longrightarrow>
           G m ! r ! k = (if k < m * N_eta c \<and> r = k + N_eta c then 1 else 0)) \<and>
     (\<forall>i a b. i < m \<longrightarrow> a < N_eta c \<longrightarrow> b < N_eta c \<longrightarrow>
           G m ! a ! (i * N_eta c + b) = eta_A c ! i ! a ! b)"
proof (induction m)
  case 0
  show ?case by (simp add: G_def)
next
  case (Suc m)
  let ?n = "N_eta c" and ?p = "eta_p c"
  let ?G1 = "assign_block (G m) 0 ?n (m * ?n) (?n + m * ?n) (eta_A c ! m)"
  note pos = shapes_pos [OF s]
  from Suc.prems have m: "m \<le> ?p - 1" and m2: "Suc (Suc m) \<le> ?p" by simp_all
  from Suc.IH [OF m]
  have G: "is_mat (?p * ?n) (?p * ?n) (G m)"
    and I1: "\<And>r k. N_eta c \<le> r \<Longrightarrow> r < ?p * ?n \<Longrightarrow> k < ?p * ?n \<Longrightarrow>
           G m ! r ! k = (if k < m * ?n \<and> r = k + ?n then 1 else 0)"
    and I2: "\<And>i a b. i < m \<Longrightarrow> a < ?n \<Longrightarrow> b < ?n \<Longrightarrow>
           G m ! a ! (i * ?n + b) = eta_A c ! i ! a ! b"
    by simp_all
  have G1: "is_mat (?p * ?n) (?p * ?n) ?G1" by (intro is_mat_assign_block G pos)
  have le: "?n + (?n + m * ?n) \<le> ?p * ?n" using block_index_le [OF m2, of ?n] by simp
  have step: "G (Suc m) = assign_block ?G1 (?n + m * ?n) (?n + (?n + m * ?n)) (m * ?n) (?n + m * ?n) (eye ?n)"
    by (simp add: G_def A_eta_body_def)
  have 1: "is_mat (?p * ?n) (?p * ?n) (G (Suc m))"
    unfolding step by (intro is_mat_assign_block G1 pos)
  have 2: "G (Suc m) ! r ! k = (if k < Suc m * ?n \<and> r = k + ?n then 1 else 0)"
    if "?n \<le> r" "r < ?p * ?n" "k < ?p * ?n" for r k
    unfolding step using that le
    by (auto simp: nth_assign_block [OF G1] nth_assign_block [OF G] I1)
  have 3: "G (Suc m) ! a ! (i * ?n + b) = eta_A c ! i ! a ! b"
    if "i < Suc m" "a < ?n" "b < ?n" for i a b
  proof -
    have a: "a < ?p * ?n" using that(2) pos(4) by (cases ?p) simp_all
    have k: "i * ?n + b < ?p * ?n"
      by (rule block_index_less) (use that m2 in simp_all)
    have "G (Suc m) ! a ! (i * ?n + b) = ?G1 ! a ! (i * ?n + b)"
      unfolding step using that(2) a k by (simp add: nth_assign_block [OF G1])
    also have "\<dots> = eta_A c ! i ! a ! b"
    proof (cases "i = m")
      case True
      then show ?thesis using that a k by (simp add: nth_assign_block [OF G])
    next
      case False
      then have im: "i < m" using that(1) by simp
      have "i * ?n + b < m * ?n" by (rule block_index_less [OF im that(3)])
      then show ?thesis
        using a k by (simp add: nth_assign_block [OF G] I2 [OF im that(2,3)])
    qed
    finally show ?thesis .
  qed
  show ?case using 1 2 3 by simp
qed

lemma A_eta_entries:
  assumes s: "iden12_shapes c"
  shows "\<And>r k. N_eta c \<le> r \<Longrightarrow> r < eta_p c * N_eta c \<Longrightarrow> k < eta_p c * N_eta c \<Longrightarrow>
           A_eta c ! r ! k = (if r = k + N_eta c then 1 else 0)"
    and "\<And>i a b. i < eta_p c \<Longrightarrow> a < N_eta c \<Longrightarrow> b < N_eta c \<Longrightarrow>
           A_eta c ! a ! (i * N_eta c + b) = eta_A c ! i ! a ! b"
proof -
  let ?n = "N_eta c" and ?p = "eta_p c"
  note pos = shapes_pos [OF s]
  define q where "q = ?p - 1"
  define G where "G = foldl (A_eta_body c) (zeros (?p * ?n) (?p * ?n)) [0..<q]"
  have A: "A_eta c = assign_block G 0 ?n (q * ?n) (?p * ?n) (eta_A c ! q)"
    by (simp add: A_eta_def G_def q_def)
  have qp: "Suc q = ?p" using pos(4) by (simp add: q_def)
  from A_eta_loop [OF s, of q]
  have G: "is_mat (?p * ?n) (?p * ?n) G"
    and I1: "\<And>r k. ?n \<le> r \<Longrightarrow> r < ?p * ?n \<Longrightarrow> k < ?p * ?n \<Longrightarrow>
           G ! r ! k = (if k < q * ?n \<and> r = k + ?n then 1 else 0)"
    and I2: "\<And>i a b. i < q \<Longrightarrow> a < ?n \<Longrightarrow> b < ?n \<Longrightarrow>
           G ! a ! (i * ?n + b) = eta_A c ! i ! a ! b"
    by (simp_all add: G_def q_def)
  have pn: "q * ?n + ?n = ?p * ?n"
    using qp [symmetric] by simp
  show "A_eta c ! r ! k = (if r = k + ?n then 1 else 0)"
    if "?n \<le> r" "r < ?p * ?n" "k < ?p * ?n" for r k
    unfolding A using that pn by (auto simp: nth_assign_block [OF G] I1)
  show "A_eta c ! a ! (i * ?n + b) = eta_A c ! i ! a ! b"
    if "i < ?p" "a < ?n" "b < ?n" for i a b
  proof -
    have a: "a < ?p * ?n" using that(2) pos(4) by (cases ?p) simp_all
    have k: "i * ?n + b < ?p * ?n"
      by (rule block_index_less [OF that(1,3)])
    show ?thesis
    proof (cases "i = q")
      case True
      then show ?thesis unfolding A using that a k by (simp add: nth_assign_block [OF G])
    next
      case False
      then have im: "i < q" using that(1) qp by simp
      have "i * ?n + b < q * ?n" by (rule block_index_less [OF im that(3)])
      then show ?thesis
        unfolding A using a k by (simp add: nth_assign_block [OF G] I2 [OF im that(2,3)])
    qed
  qed
qed

lemma slice_A_eta_top:
  assumes s: "iden12_shapes c" and i: "i < eta_p c"
  shows "slice_mat (A_eta c) 0 (N_eta c) (i * N_eta c) ((i + 1) * N_eta c) = eta_A c ! i"
proof (rule mat_eqI [where r = "N_eta c" and c = "N_eta c"])
  let ?n = "N_eta c" and ?p = "eta_p c"
  note pos = shapes_pos [OF s]
  have r: "?n \<le> ?p * ?n" using pos(4) by (cases ?p) simp_all
  have c: "(i + 1) * ?n \<le> ?p * ?n" by (rule block_index_le) (use i in simp)
  have "is_mat (?n - 0) ((i + 1) * ?n - i * ?n) (slice_mat (A_eta c) 0 ?n (i * ?n) ((i + 1) * ?n))"
    by (rule is_mat_slice_mat [OF is_mat_A_eta [OF s] r c])
  then show "is_mat ?n ?n (slice_mat (A_eta c) 0 ?n (i * ?n) ((i + 1) * ?n))" by simp
  show "is_mat ?n ?n (eta_A c ! i)" by (rule shapes_eta_A [OF s i])
  fix a b assume "a < ?n" "b < ?n"
  then show "slice_mat (A_eta c) 0 ?n (i * ?n) ((i + 1) * ?n) ! a ! b = eta_A c ! i ! a ! b"
    using nth_slice_mat [OF is_mat_A_eta [OF s] r c, of a 0 b "i * ?n"]
    by (simp add: A_eta_entries(2) [OF s i])
qed

lemma slice_A_eta_sub:
  assumes s: "iden12_shapes c" and i: "i + 1 < eta_p c"
  shows "slice_mat (A_eta c) ((i + 1) * N_eta c) ((i + 2) * N_eta c) (i * N_eta c) ((i + 1) * N_eta c)
         = eye (N_eta c)"
proof (rule mat_eqI [where r = "N_eta c" and c = "N_eta c"])
  let ?n = "N_eta c" and ?p = "eta_p c"
  note pos = shapes_pos [OF s]
  have r: "(i + 2) * ?n \<le> ?p * ?n" by (rule block_index_le) (use i in simp)
  have c: "(i + 1) * ?n \<le> ?p * ?n" by (rule block_index_le) (use i in simp)
  have "is_mat ((i + 2) * ?n - (i + 1) * ?n) ((i + 1) * ?n - i * ?n)
          (slice_mat (A_eta c) ((i + 1) * ?n) ((i + 2) * ?n) (i * ?n) ((i + 1) * ?n))"
    by (rule is_mat_slice_mat [OF is_mat_A_eta [OF s] r c])
  then show "is_mat ?n ?n (slice_mat (A_eta c) ((i + 1) * ?n) ((i + 2) * ?n) (i * ?n) ((i + 1) * ?n))"
    by simp
  show "is_mat ?n ?n (eye ?n)" by simp
  fix a b assume ab: "a < ?n" "b < ?n"
  have "?n + i * ?n + a < ?n + (?n + i * ?n)" using ab by simp
  also have "\<dots> \<le> ?p * ?n" using r by simp
  finally have ra: "?n + i * ?n + a < ?p * ?n" .
  have "i * ?n + b < ?n + i * ?n" using ab by simp
  also have "\<dots> \<le> ?p * ?n" using c by simp
  finally have cb: "i * ?n + b < ?p * ?n" .
  show "slice_mat (A_eta c) ((i + 1) * ?n) ((i + 2) * ?n) (i * ?n) ((i + 1) * ?n) ! a ! b = eye ?n ! a ! b"
    using nth_slice_mat [OF is_mat_A_eta [OF s] r c, of a "(i + 1) * ?n" b "i * ?n"] ab ra cb
    by (simp add: A_eta_entries(1) [OF s])
qed

lemma matvec_A_eta_shift:
  assumes s: "iden12_shapes c" and v: "length v = eta_p c * N_eta c"
    and i: "1 \<le> i" "i < eta_p c"
  shows "slice_vec (matvec (A_eta c) v) (i * N_eta c) ((i + 1) * N_eta c)
         = slice_vec v ((i - 1) * N_eta c) (i * N_eta c)"
proof (rule vec_eqI [where n = "N_eta c"])
  let ?n = "N_eta c" and ?p = "eta_p c"
  note pos = shapes_pos [OF s]
  have lenA: "length (A_eta c) = ?p * ?n" using is_mat_A_eta [OF s] by (simp add: is_mat_length)
  have hi: "(i + 1) * ?n \<le> ?p * ?n" by (rule block_index_le) (use i in simp)
  have lo: "i * ?n \<le> ?p * ?n" by (rule block_index_le) (use i in simp)
  have im: "(i - 1) * ?n + ?n = i * ?n" using i(1) by (cases i) simp_all
  show "length (slice_vec (matvec (A_eta c) v) (i * ?n) ((i + 1) * ?n)) = ?n"
    using hi by (simp add: length_slice_vec lenA)
  show "length (slice_vec v ((i - 1) * ?n) (i * ?n)) = ?n"
    using lo v im by (simp add: length_slice_vec)
  fix a assume a: "a < ?n"
  have r: "i * ?n + a < ?p * ?n" by (rule block_index_less [OF i(2) a])
  have ge: "?n \<le> i * ?n + a" using im by linarith
  have k: "(i - 1) * ?n + a < ?p * ?n" using r im by linarith
  have "slice_vec (matvec (A_eta c) v) (i * ?n) ((i + 1) * ?n) ! a = matvec (A_eta c) v ! (i * ?n + a)"
    using a hi by (simp add: nth_slice_vec lenA)
  also have "\<dots> = (\<Sum>k<?p * ?n. A_eta c ! (i * ?n + a) ! k * v ! k)"
    using r by (simp add: nth_matvec lenA v)
  also have "\<dots> = (\<Sum>k<?p * ?n. if k = (i - 1) * ?n + a then v ! k else 0)"
  proof (rule sum.cong [OF refl])
    fix k assume "k \<in> {..<?p * ?n}"
    then have "k < ?p * ?n" by simp
    then show "A_eta c ! (i * ?n + a) ! k * v ! k = (if k = (i - 1) * ?n + a then v ! k else 0)"
      using im by (auto simp: A_eta_entries(1) [OF s ge r])
  qed
  also have "\<dots> = v ! ((i - 1) * ?n + a)"
    using k by simp
  also have "\<dots> = slice_vec v ((i - 1) * ?n) (i * ?n) ! a"
    using a lo v im by (simp add: nth_slice_vec)
  finally show "slice_vec (matvec (A_eta c) v) (i * ?n) ((i + 1) * ?n) ! a
                = slice_vec v ((i - 1) * ?n) (i * ?n) ! a" .
qed

lemma length_funpow_matvec:
  "length A = n \<Longrightarrow> length v = n \<Longrightarrow> length ((matvec A ^^ k) v) = n"
  by (induction k) simp_all

section \<open>The block-companion matrix of the VAR(p) model\<close>

text \<open>
  Claim C6. The matrix \<open>A_eta\<close> is block-companion: the coefficient matrices
  \<open>eta_A[0], \<dots>, eta_A[p - 1]\<close> fill its top block-row and identities fill the block
  sub-diagonal. So block \<open>i\<close> of \<open>A_eta\<cdot>v\<close> is block \<open>i - 1\<close> of \<open>v\<close> for every \<open>i\<close> from 1 to
  \<open>p - 1\<close>, and along \<open>eta_tilde\<^sub>k\<^sub>+\<^sub>1 = A_eta\<cdot>eta_tilde\<^sub>k\<close> block \<open>i\<close> at time \<open>k + 1\<close> is block \<open>i - 1\<close>
  at time \<open>k\<close>, at every step. This follows from the way the matrix is built; nothing checks
  it when the program runs.
\<close>

theorem A_eta_block_companion:
  assumes shapes: "iden12_shapes c"
  shows "(\<forall>i<eta_p c. slice_mat (A_eta c) 0 (N_eta c) (i * N_eta c) ((i + 1) * N_eta c) = eta_A c ! i) \<and>
     (\<forall>i. i + 1 < eta_p c \<longrightarrow>
        slice_mat (A_eta c) ((i + 1) * N_eta c) ((i + 2) * N_eta c) (i * N_eta c) ((i + 1) * N_eta c)
          = eye (N_eta c)) \<and>
     (\<forall>v i k. length v = eta_p c * N_eta c \<longrightarrow> 1 \<le> i \<longrightarrow> i < eta_p c \<longrightarrow>
        slice_vec (matvec (A_eta c) v) (i * N_eta c) ((i + 1) * N_eta c)
          = slice_vec v ((i - 1) * N_eta c) (i * N_eta c) \<and>
        slice_vec ((matvec (A_eta c) ^^ (k + 1)) v) (i * N_eta c) ((i + 1) * N_eta c)
          = slice_vec ((matvec (A_eta c) ^^ k) v) ((i - 1) * N_eta c) (i * N_eta c))"
proof (intro conjI allI impI)
  fix i assume "i < eta_p c"
  then show "slice_mat (A_eta c) 0 (N_eta c) (i * N_eta c) ((i + 1) * N_eta c) = eta_A c ! i"
    by (rule slice_A_eta_top [OF shapes])
next
  fix i assume "i + 1 < eta_p c"
  then show "slice_mat (A_eta c) ((i + 1) * N_eta c) ((i + 2) * N_eta c) (i * N_eta c) ((i + 1) * N_eta c)
             = eye (N_eta c)"
    by (rule slice_A_eta_sub [OF shapes])
next
  fix v :: vec and i k :: nat
  assume v: "length v = eta_p c * N_eta c" and i: "1 \<le> i" "i < eta_p c"
  show "slice_vec (matvec (A_eta c) v) (i * N_eta c) ((i + 1) * N_eta c)
        = slice_vec v ((i - 1) * N_eta c) (i * N_eta c)"
    by (rule matvec_A_eta_shift [OF shapes v i])
  have lenA: "length (A_eta c) = eta_p c * N_eta c"
    using is_mat_A_eta [OF shapes] by (simp add: is_mat_length)
  have "length ((matvec (A_eta c) ^^ k) v) = eta_p c * N_eta c"
    by (rule length_funpow_matvec [OF lenA v])
  from matvec_A_eta_shift [OF shapes this i]
  show "slice_vec ((matvec (A_eta c) ^^ (k + 1)) v) (i * N_eta c) ((i + 1) * N_eta c)
        = slice_vec ((matvec (A_eta c) ^^ k) v) ((i - 1) * N_eta c) (i * N_eta c)"
    by simp
qed

text \<open>
  The theorem at the concrete configuration, with \<open>p = 2\<close> and blocks of two coefficients:
  the second block of \<open>A_eta\<cdot>[1, 2, 3, 4]\<close> is \<open>[1, 2]\<close>.
\<close>

theorem A_eta_block_companion_witness:
  "iden12_shapes cfg12 \<and> length [1, 2, 3, 4 :: real] = eta_p cfg12 * N_eta cfg12 \<and>
   (1::nat) \<le> 1 \<and> 1 < eta_p cfg12 \<and> 0 < eta_p cfg12 \<and> 0 + 1 < eta_p cfg12 \<and>
   slice_mat (A_eta cfg12) 0 2 0 2 = [[1 / 2, 0], [0, 1 / 2]] \<and>
   slice_mat (A_eta cfg12) 2 4 0 2 = eye 2 \<and>
   slice_vec (matvec (A_eta cfg12) [1, 2, 3, 4]) 2 4 = [1, 2]"
proof -
  have h: "length [1, 2, 3, 4 :: real] = eta_p cfg12 * N_eta cfg12" "(1::nat) \<le> 1"
    "1 < eta_p cfg12" "0 < eta_p cfg12" "0 + 1 < eta_p cfg12"
    by (simp_all add: cfg12_fields)
  note th = A_eta_block_companion [OF shapes_cfg12]
  from th have "slice_mat (A_eta cfg12) 0 (N_eta cfg12) (0 * N_eta cfg12) ((0 + 1) * N_eta cfg12)
                = eta_A cfg12 ! 0"
    using h(4) by blast
  then have 1: "slice_mat (A_eta cfg12) 0 2 0 2 = [[1 / 2, 0], [0, 1 / 2]]"
    by (simp add: cfg12_fields)
  from th have "slice_mat (A_eta cfg12) ((0 + 1) * N_eta cfg12) ((0 + 2) * N_eta cfg12)
                  (0 * N_eta cfg12) ((0 + 1) * N_eta cfg12) = eye (N_eta cfg12)"
    using h(5) by blast
  then have 2: "slice_mat (A_eta cfg12) 2 4 0 2 = eye 2"
    by (simp add: cfg12_fields)
  from th have "slice_vec (matvec (A_eta cfg12) [1, 2, 3, 4]) (1 * N_eta cfg12) ((1 + 1) * N_eta cfg12)
                = slice_vec [1, 2, 3, 4] ((1 - 1) * N_eta cfg12) (1 * N_eta cfg12)"
    using h(1,2,3) by blast
  then have 3: "slice_vec (matvec (A_eta cfg12) [1, 2, 3, 4]) 2 4 = [1, 2]"
    by (simp add: cfg12_fields slice_vec_def)
  show ?thesis
    using shapes_cfg12 h 1 2 3 by simp
qed

lemma evol06_step_Inr:
  assumes "evol06_step c k s = Inr s'"
  obtains F b where "evol06_compute_evolution_operator c (alpha s ! k) (t s ! k) = Inr (F, b)"
    "alpha s' = (alpha s)[k + 1 := vadd (matvec F (alpha s ! k)) b]"
    "t s' = (t s)[k + 1 := real (k + 1) * dt c]"
  using assms by (auto simp: evol06_step_def split: sum.splits prod.splits)

lemma evol06_loop_Suc_Inr:
  assumes "evol06_loop c (Suc n) s0 = Inr s"
  obtains s1 where "evol06_loop c n s0 = Inr s1" "evol06_step c n s1 = Inr s"
  using assms by (auto split: sum.splits)

text \<open>What the loop of the time evolution has established after \<open>n\<close> passes.\<close>

lemma evol06_loop_history:
  assumes "evol06_loop c n (evol06_init c) = Inr s" "n < NT c"
  shows "length (alpha s) = NT c \<and> length (t s) = NT c \<and> alpha s ! 0 = alpha_0 c \<and>
     (\<forall>k\<le>n. t s ! k = real k * dt c) \<and>
     (\<forall>k<n. \<exists>F b. evol06_compute_evolution_operator c (alpha s ! k) (t s ! k) = Inr (F, b) \<and>
                    alpha s ! (k + 1) = vadd (matvec F (alpha s ! k)) b)"
  using assms
proof (induction n arbitrary: s)
  case 0
  then show ?case by (auto simp: evol06_init_def)
next
  case (Suc n)
  from Suc.prems(1) obtain s1 where s1: "evol06_loop c n (evol06_init c) = Inr s1"
    and step: "evol06_step c n s1 = Inr s"
    by (rule evol06_loop_Suc_Inr)
  from Suc.prems(2) have n: "n < NT c" by simp
  note IH = Suc.IH [OF s1 n]
  have len: "length (alpha s1) = NT c" "length (t s1) = NT c" and a0: "alpha s1 ! 0 = alpha_0 c"
    and tk: "\<And>k. k \<le> n \<Longrightarrow> t s1 ! k = real k * dt c"
    using IH by simp_all
  have hist: "\<exists>F b. evol06_compute_evolution_operator c (alpha s1 ! k) (t s1 ! k) = Inr (F, b) \<and>
                    alpha s1 ! (k + 1) = vadd (matvec F (alpha s1 ! k)) b" if "k < n" for k
    using IH that by blast
  from step obtain F b where op: "evol06_compute_evolution_operator c (alpha s1 ! n) (t s1 ! n) = Inr (F, b)"
    and a: "alpha s = (alpha s1)[n + 1 := vadd (matvec F (alpha s1 ! n)) b]"
    and t: "t s = (t s1)[n + 1 := real (n + 1) * dt c]"
    by (rule evol06_step_Inr)
  have old: "alpha s ! k = alpha s1 ! k" "t s ! k = t s1 ! k" if "k \<le> n" for k
    using that by (simp_all add: a t)
  have new: "alpha s ! (n + 1) = vadd (matvec F (alpha s1 ! n)) b" "t s ! (n + 1) = real (n + 1) * dt c"
    using Suc.prems(2) len by (simp_all add: a t)
  have "t s ! k = real k * dt c" if "k \<le> Suc n" for k
  proof (cases "k = Suc n")
    case True then show ?thesis using new(2) by simp
  next
    case False
    then have "k \<le> n" using that by simp
    then show ?thesis by (simp add: old tk)
  qed
  moreover have "\<exists>F b. evol06_compute_evolution_operator c (alpha s ! k) (t s ! k) = Inr (F, b) \<and>
                    alpha s ! (k + 1) = vadd (matvec F (alpha s ! k)) b" if "k < Suc n" for k
  proof (cases "k = n")
    case True
    then show ?thesis using op new(1) by (simp add: old)
  next
    case False
    then have "k < n" using that by simp
    then show ?thesis using hist [of k] by (simp add: old)
  qed
  ultimately show ?case
    using len a0 by (simp add: a t old)
qed

lemma evol06_loop_error:
  assumes "evol06_loop c k s0 = Inr s" "evol06_step c k s = Inl e" "k < n"
  shows "evol06_loop c n s0 = Inl e"
  using assms(3)
proof (induction n)
  case 0
  then show ?case by simp
next
  case (Suc n)
  show ?case
  proof (cases "k = n")
    case True
    then show ?thesis using assms(1,2) by simp
  next
    case False
    then have "k < n" using Suc.prems by simp
    then show ?thesis using Suc.IH by simp
  qed
qed

text \<open>The values a successful pass of the filter loop computes, and the state it leaves.\<close>

lemma iden12_step_Inr:
  assumes "iden12_step c k s = Inr s'"
  obtains Ja Je F b G x_p Gamma_p x_u Gamma_u where
    "compute_evolution_operator_Jacobians c (x_tilde_c s ! k) (t s ! k) = (Ja, Je)"
    "iden12_compute_evolution_operator c (x_tilde_c s ! k) (t s ! k) Ja Je = Inr (F, b)"
    "compute_evolution_operator_alpha_covariance c (model_Gamma_w (model s)) Ja Je = Inr G"
    "model s' = (model s)\<lparr>model_F := F, additive_evolution_vector := b,
        model_Gamma_w := assign_block (model_Gamma_w (model s)) 0 (N c) 0 (N c) G\<rparr>"
    "Kalman_predict (model s') (x_tilde_c s ! k) (Gamma_tilde_c s ! k) k = (x_p, Gamma_p)"
    "Kalman_update c (model s') x_p Gamma_p (Y c ! (k + 1)) k = Inr (x_u, Gamma_u)"
    "F_evol s' = (F_evol s)[k := F]" "b_evol s' = (b_evol s)[k := b]"
    "x_tilde_c_predict s' = (x_tilde_c_predict s)[k + 1 := x_p]"
    "Gamma_tilde_c_predict s' = (Gamma_tilde_c_predict s)[k + 1 := Gamma_p]"
    "x_tilde_c s' = (x_tilde_c s)[k + 1 := x_u]"
    "Gamma_tilde_c s' = (Gamma_tilde_c s)[k + 1 := Gamma_u]"
    "t s' = (t s)[k + 1 := real (k + 1) * dt c]"
proof -
  obtain Ja Je where J: "compute_evolution_operator_Jacobians c (x_tilde_c s ! k) (t s ! k) = (Ja, Je)"
    by (cases "compute_evolution_operator_Jacobians c (x_tilde_c s ! k) (t s ! k)")
  obtain F b where op: "iden12_compute_evolution_operator c (x_tilde_c s ! k) (t s ! k) Ja Je = Inr (F, b)"
    using assms J
    by (cases "iden12_compute_evolution_operator c (x_tilde_c s ! k) (t s ! k) Ja Je")
       (auto simp: iden12_step_def)
  obtain G where cov: "compute_evolution_operator_alpha_covariance c (model_Gamma_w (model s)) Ja Je = Inr G"
    using assms J op
    by (cases "compute_evolution_operator_alpha_covariance c (model_Gamma_w (model s)) Ja Je")
       (auto simp: iden12_step_def)
  define m where "m = (model s)\<lparr>model_F := F, additive_evolution_vector := b,
        model_Gamma_w := assign_block (model_Gamma_w (model s)) 0 (N c) 0 (N c) G\<rparr>"
  obtain x_p Gamma_p where pr: "Kalman_predict m (x_tilde_c s ! k) (Gamma_tilde_c s ! k) k = (x_p, Gamma_p)"
    by (cases "Kalman_predict m (x_tilde_c s ! k) (Gamma_tilde_c s ! k) k")
  have step: "iden12_step c k s =
      (case Kalman_update c m x_p Gamma_p (Y c ! (k + 1)) k of
        Inl e \<Rightarrow> Inl e
      | Inr (x_u, Gamma_u) \<Rightarrow>
          Inr (s\<lparr>F_evol := (F_evol s)[k := F],
                 b_evol := (b_evol s)[k := b],
                 model := m,
                 x_tilde_c_predict := (x_tilde_c_predict s)[k + 1 := x_p],
                 Gamma_tilde_c_predict := (Gamma_tilde_c_predict s)[k + 1 := Gamma_p],
                 x_tilde_c := (x_tilde_c s)[k + 1 := x_u],
                 Gamma_tilde_c := (Gamma_tilde_c s)[k + 1 := Gamma_u],
                 t := (t s)[k + 1 := real (k + 1) * dt c]\<rparr>))"
    unfolding m_def using J op cov pr [unfolded m_def] by (simp add: iden12_step_def Let_def)
  obtain x_u Gamma_u where up: "Kalman_update c m x_p Gamma_p (Y c ! (k + 1)) k = Inr (x_u, Gamma_u)"
    using assms unfolding step
    by (cases "Kalman_update c m x_p Gamma_p (Y c ! (k + 1)) k") auto
  have s': "s' = s\<lparr>F_evol := (F_evol s)[k := F],
                 b_evol := (b_evol s)[k := b],
                 model := m,
                 x_tilde_c_predict := (x_tilde_c_predict s)[k + 1 := x_p],
                 Gamma_tilde_c_predict := (Gamma_tilde_c_predict s)[k + 1 := Gamma_p],
                 x_tilde_c := (x_tilde_c s)[k + 1 := x_u],
                 Gamma_tilde_c := (Gamma_tilde_c s)[k + 1 := Gamma_u],
                 t := (t s)[k + 1 := real (k + 1) * dt c]\<rparr>"
    using assms unfolding step up by simp
  have ms: "model s' = m" by (simp add: s')
  show thesis
  proof (rule that [OF J op cov])
    show "model s' = (model s)\<lparr>model_F := F, additive_evolution_vector := b,
        model_Gamma_w := assign_block (model_Gamma_w (model s)) 0 (N c) 0 (N c) G\<rparr>"
      using ms by (simp only: m_def)
    show "Kalman_predict (model s') (x_tilde_c s ! k) (Gamma_tilde_c s ! k) k = (x_p, Gamma_p)"
      using pr by (simp only: ms)
    show "Kalman_update c (model s') x_p Gamma_p (Y c ! (k + 1)) k = Inr (x_u, Gamma_u)"
      using up by (simp only: ms)
  qed (simp_all add: s')
qed

lemma iden12_loop_Suc_Inr:
  assumes "iden12_loop c (Suc n) s0 = Inr s"
  obtains s1 where "iden12_loop c n s0 = Inr s1" "iden12_step c n s1 = Inr s"
  using assms by (auto split: sum.splits)

lemma iden12_loop_error:
  assumes "iden12_loop c k s0 = Inr s" "iden12_step c k s = Inl e" "k < n"
  shows "iden12_loop c n s0 = Inl e"
  using assms(3)
proof (induction n)
  case 0
  then show ?case by simp
next
  case (Suc n)
  show ?case
  proof (cases "k = n")
    case True
    then show ?thesis using assms(1,2) by simp
  next
    case False
    then have "k < n" using Suc.prems by simp
    then show ?thesis using Suc.IH by simp
  qed
qed

lemma iden12_init_fields:
  "length (x_tilde_c (iden12_init c)) = NT c" "length (Gamma_tilde_c (iden12_init c)) = NT c"
  "length (x_tilde_c_predict (iden12_init c)) = NT c" "length (Gamma_tilde_c_predict (iden12_init c)) = NT c"
  "length (F_evol (iden12_init c)) = NT c" "length (b_evol (iden12_init c)) = NT c"
  "length (t (iden12_init c)) = NT c"
  "mean_epsilon (model (iden12_init c)) = (if use_BAE c then Some (BAE_mean c) else None)"
  "Gamma_epsilon (model (iden12_init c)) = (if use_BAE c then Some (BAE_covariance c) else None)"
  "model_Gamma_w (model (iden12_init c)) = Gamma_tilde_c_w c"
  by (simp_all add: iden12_init_def Let_def)

lemma iden12_init_first:
  assumes "0 < NT c"
  shows "x_tilde_c (iden12_init c) ! 0 = x_tilde_c_prior c"
    "Gamma_tilde_c (iden12_init c) ! 0 = Gamma_tilde_c_prior c"
    "t (iden12_init c) ! 0 = 0"
  using assms by (simp_all add: iden12_init_def Let_def)

text \<open>What the filter loop has established after \<open>n\<close> passes.\<close>

lemma iden12_loop_history:
  assumes "iden12_loop c n (iden12_init c) = Inr s" "n < NT c"
  shows "(length (x_tilde_c s) = NT c \<and> length (Gamma_tilde_c s) = NT c \<and>
      length (x_tilde_c_predict s) = NT c \<and> length (Gamma_tilde_c_predict s) = NT c \<and>
      length (F_evol s) = NT c \<and> length (b_evol s) = NT c \<and> length (t s) = NT c) \<and>
     (x_tilde_c s ! 0 = x_tilde_c_prior c \<and> Gamma_tilde_c s ! 0 = Gamma_tilde_c_prior c) \<and>
     (mean_epsilon (model s) = (if use_BAE c then Some (BAE_mean c) else None) \<and>
      Gamma_epsilon (model s) = (if use_BAE c then Some (BAE_covariance c) else None)) \<and>
     (\<forall>k\<le>n. t s ! k = real k * dt c) \<and>
     (\<forall>k<n. \<exists>Ja Je F b m.
        compute_evolution_operator_Jacobians c (x_tilde_c s ! k) (t s ! k) = (Ja, Je) \<and>
        iden12_compute_evolution_operator c (x_tilde_c s ! k) (t s ! k) Ja Je = Inr (F, b) \<and>
        F_evol s ! k = F \<and> b_evol s ! k = b \<and>
        model_F m = F \<and> additive_evolution_vector m = b \<and>
        mean_epsilon m = (if use_BAE c then Some (BAE_mean c) else None) \<and>
        Kalman_predict m (x_tilde_c s ! k) (Gamma_tilde_c s ! k) k
          = (x_tilde_c_predict s ! (k + 1), Gamma_tilde_c_predict s ! (k + 1)) \<and>
        Kalman_update c m (x_tilde_c_predict s ! (k + 1)) (Gamma_tilde_c_predict s ! (k + 1))
            (Y c ! (k + 1)) k
          = Inr (x_tilde_c s ! (k + 1), Gamma_tilde_c s ! (k + 1)))"
  (is "?L s \<and> ?Z s \<and> ?E s \<and> (\<forall>k\<le>n. ?T s k) \<and> (\<forall>k<n. ?P s k)")
  using assms
proof (induction n arbitrary: s)
  case 0
  then have "s = iden12_init c" by simp
  then show ?case using 0(2) by (simp add: iden12_init_fields iden12_init_first)
next
  case (Suc n)
  from Suc.prems(1) obtain s1 where s1: "iden12_loop c n (iden12_init c) = Inr s1"
    and step: "iden12_step c n s1 = Inr s"
    by (rule iden12_loop_Suc_Inr)
  from Suc.prems(2) have n: "n < NT c" by simp
  note IH = Suc.IH [OF s1 n]
  have L1: "?L s1" and Z1: "?Z s1" and E1: "?E s1" using IH by blast+
  have T1: "?T s1 k" if "k \<le> n" for k using IH that by blast
  have P1: "?P s1 k" if "k < n" for k using IH that by blast
  from step obtain Ja Je F b G x_p Gamma_p x_u Gamma_u where
    J: "compute_evolution_operator_Jacobians c (x_tilde_c s1 ! n) (t s1 ! n) = (Ja, Je)"
    and op: "iden12_compute_evolution_operator c (x_tilde_c s1 ! n) (t s1 ! n) Ja Je = Inr (F, b)"
    and m: "model s = (model s1)\<lparr>model_F := F, additive_evolution_vector := b,
        model_Gamma_w := assign_block (model_Gamma_w (model s1)) 0 (N c) 0 (N c) G\<rparr>"
    and pr: "Kalman_predict (model s) (x_tilde_c s1 ! n) (Gamma_tilde_c s1 ! n) n = (x_p, Gamma_p)"
    and up: "Kalman_update c (model s) x_p Gamma_p (Y c ! (n + 1)) n = Inr (x_u, Gamma_u)"
    and upd: "F_evol s = (F_evol s1)[n := F]" "b_evol s = (b_evol s1)[n := b]"
      "x_tilde_c_predict s = (x_tilde_c_predict s1)[n + 1 := x_p]"
      "Gamma_tilde_c_predict s = (Gamma_tilde_c_predict s1)[n + 1 := Gamma_p]"
      "x_tilde_c s = (x_tilde_c s1)[n + 1 := x_u]"
      "Gamma_tilde_c s = (Gamma_tilde_c s1)[n + 1 := Gamma_u]"
      "t s = (t s1)[n + 1 := real (n + 1) * dt c]"
    by (rule iden12_step_Inr)
  have old: "x_tilde_c s ! j = x_tilde_c s1 ! j" "Gamma_tilde_c s ! j = Gamma_tilde_c s1 ! j"
    "x_tilde_c_predict s ! j = x_tilde_c_predict s1 ! j"
    "Gamma_tilde_c_predict s ! j = Gamma_tilde_c_predict s1 ! j" "t s ! j = t s1 ! j"
    if "j \<le> n" for j
    using that by (simp_all add: upd)
  have oldF: "F_evol s ! j = F_evol s1 ! j" "b_evol s ! j = b_evol s1 ! j" if "j < n" for j
    using that by (simp_all add: upd)
  have new: "x_tilde_c s ! Suc n = x_u" "Gamma_tilde_c s ! Suc n = Gamma_u"
    "x_tilde_c_predict s ! Suc n = x_p" "Gamma_tilde_c_predict s ! Suc n = Gamma_p"
    "t s ! Suc n = real (Suc n) * dt c" "F_evol s ! n = F" "b_evol s ! n = b"
    using Suc.prems(2) L1 by (simp_all add: upd)
  have L: "?L s" using L1 by (simp add: upd)
  have Z: "?Z s" using Z1 by (simp add: old)
  have E: "?E s" using E1 by (simp add: m)
  have T: "?T s k" if "k \<le> Suc n" for k
  proof (cases "k = Suc n")
    case True then show ?thesis using new(5) by simp
  next
    case False
    then have "k \<le> n" using that by simp
    then show ?thesis by (simp add: old T1)
  qed
  have P: "?P s k" if "k < Suc n" for k
  proof (cases "k = n")
    case True
    have "compute_evolution_operator_Jacobians c (x_tilde_c s ! n) (t s ! n) = (Ja, Je) \<and>
        iden12_compute_evolution_operator c (x_tilde_c s ! n) (t s ! n) Ja Je = Inr (F, b) \<and>
        F_evol s ! n = F \<and> b_evol s ! n = b \<and>
        model_F (model s) = F \<and> additive_evolution_vector (model s) = b \<and>
        mean_epsilon (model s) = (if use_BAE c then Some (BAE_mean c) else None) \<and>
        Kalman_predict (model s) (x_tilde_c s ! n) (Gamma_tilde_c s ! n) n
          = (x_tilde_c_predict s ! (n + 1), Gamma_tilde_c_predict s ! (n + 1)) \<and>
        Kalman_update c (model s) (x_tilde_c_predict s ! (n + 1)) (Gamma_tilde_c_predict s ! (n + 1))
            (Y c ! (n + 1)) n
          = Inr (x_tilde_c s ! (n + 1), Gamma_tilde_c s ! (n + 1))"
      using J op pr up E by (simp add: old new) (simp add: m)
    then show ?thesis unfolding True by (intro exI)
  next
    case False
    then have kn: "k < n" using that by simp
    then have k1: "k \<le> n" "k + 1 \<le> n" by simp_all
    from P1 [OF kn] show ?thesis
      by (simp only: old [OF k1(1)] old [OF k1(2)] oldF [OF kn])
  qed
  show ?case using L Z E T P by blast
qed


section \<open>The time loops\<close>


text \<open>A run in which no inversion and no update fails returns a state.\<close>

lemma iden12_step_total:
  assumes inv: "\<And>x tk. \<exists>M. linalg_inv c (msub (eye (N c))
        (smult (dt c / 2) (fst (compute_evolution_operator_Jacobians c x tk)))) = Some M"
    and up: "\<And>m x G y k. \<exists>r. Kalman_update c m x G y k = Inr r"
  shows "\<exists>s'. iden12_step c k s = Inr s'"
proof -
  obtain Ja Je where J: "compute_evolution_operator_Jacobians c (x_tilde_c s ! k) (t s ! k) = (Ja, Je)"
    by (cases "compute_evolution_operator_Jacobians c (x_tilde_c s ! k) (t s ! k)")
  from inv [of "x_tilde_c s ! k" "t s ! k"] obtain M
    where M: "linalg_inv c (msub (eye (N c)) (smult (dt c / 2) Ja)) = Some M"
    by (auto simp: J)
  obtain F b where op: "iden12_compute_evolution_operator c (x_tilde_c s ! k) (t s ! k) Ja Je = Inr (F, b)"
    by (simp add: iden12_compute_evolution_operator_def Let_def M)
  obtain G where cov: "compute_evolution_operator_alpha_covariance c (model_Gamma_w (model s)) Ja Je = Inr G"
    by (simp add: compute_evolution_operator_alpha_covariance_def Let_def M)
  define m where "m = (model s)\<lparr>model_F := F, additive_evolution_vector := b,
        model_Gamma_w := assign_block (model_Gamma_w (model s)) 0 (N c) 0 (N c) G\<rparr>"
  obtain x_p Gamma_p where pr: "Kalman_predict m (x_tilde_c s ! k) (Gamma_tilde_c s ! k) k = (x_p, Gamma_p)"
    by (cases "Kalman_predict m (x_tilde_c s ! k) (Gamma_tilde_c s ! k) k")
  from up [of m x_p Gamma_p "Y c ! (k + 1)" k] obtain x_u Gamma_u
    where u: "Kalman_update c m x_p Gamma_p (Y c ! (k + 1)) k = Inr (x_u, Gamma_u)"
    by (cases "Kalman_update c m x_p Gamma_p (Y c ! (k + 1)) k") auto
  show ?thesis
    using J op cov pr [unfolded m_def] u [unfolded m_def]
    by (simp add: iden12_step_def Let_def)
qed

lemma iden12_loop_total:
  assumes inv: "\<And>x tk. \<exists>M. linalg_inv c (msub (eye (N c))
        (smult (dt c / 2) (fst (compute_evolution_operator_Jacobians c x tk)))) = Some M"
    and up: "\<And>m x G y k. \<exists>r. Kalman_update c m x G y k = Inr r"
  shows "\<exists>s. iden12_loop c n s0 = Inr s"
proof (induction n)
  case 0
  show ?case by simp
next
  case (Suc n)
  then obtain s where s: "iden12_loop c n s0 = Inr s" by (elim exE)
  from iden12_step_total [OF inv up, of n s] obtain s' where "iden12_step c n s = Inr s'"
    by (elim exE)
  then show ?case by (simp add: s)
qed

lemma evol06_main_cfg06: "evol06_main cfg06 = Inr \<lparr>t = [0, 1, 2], alpha = [[1], [1 / 3], [1 / 9]]\<rparr>"
  by code_simp

lemma inv_cfg12_any:
  "\<exists>M. linalg_inv cfg12 (msub (eye (N cfg12))
        (smult (dt cfg12 / 2) (fst (compute_evolution_operator_Jacobians cfg12 x tk)))) = Some M"
  by (simp add: compute_evolution_operator_Jacobians_def Let_def cfg12_fields array_eval)

lemma update_cfg12: "\<exists>r. Kalman_update cfg12 m x G y k = Inr r"
  by (simp add: cfg12_def)

lemma iden12_loop_cfg12: "\<exists>s. iden12_loop cfg12 n (iden12_init cfg12) = Inr s"
  by (rule iden12_loop_total [OF inv_cfg12_any update_cfg12])

lemma iden12_filter_cfg12: "\<exists>s. iden12_filter cfg12 = Inr s"
  unfolding iden12_filter_def by (rule iden12_loop_cfg12)

lemma NT_cfg:
  "0 < NT cfg06" "0 < NT cfg12" "(1::nat) + 1 < NT cfg06" "(1::nat) + 1 < NT cfg12"
  "(0::nat) + 1 < NT cfg06" "(0::nat) + 1 < NT cfg12"
  by (simp_all add: cfg06_fields cfg12_fields)


lemma error_eq: "(e :: error) = LinAlgError"
  by (cases e)

lemma evol06_step_raises:
  assumes "linalg_inv c (msub (eye (N c)) (smult (dt c / 2) (eval_d_alpha c (alpha s ! k) (t s ! k)))) = None"
  shows "evol06_step c k s = Inl LinAlgError"
  using assms by (simp add: evol06_step_def evol06_compute_evolution_operator_def Let_def)

lemma iden12_step_raises:
  assumes "linalg_inv c (msub (eye (N c))
      (smult (dt c / 2) (fst (compute_evolution_operator_Jacobians c (x_tilde_c s ! k) (t s ! k))))) = None"
  shows "iden12_step c k s = Inl LinAlgError"
proof -
  obtain Ja Je where J: "compute_evolution_operator_Jacobians c (x_tilde_c s ! k) (t s ! k) = (Ja, Je)"
    by (cases "compute_evolution_operator_Jacobians c (x_tilde_c s ! k) (t s ! k)")
  have "iden12_compute_evolution_operator c (x_tilde_c s ! k) (t s ! k) Ja Je = Inl LinAlgError"
    using assms by (simp add: iden12_compute_evolution_operator_def Let_def J)
  then show ?thesis by (simp add: iden12_step_def J)
qed

lemma evol06_operator_Inr_inverse:
  assumes "evol06_compute_evolution_operator c a tk = Inr (F, b)"
  shows "\<exists>M. linalg_inv c (msub (eye (N c)) (smult (dt c / 2) (eval_d_alpha c a tk))) = Some M"
  using assms by (auto simp: evol06_compute_evolution_operator_def Let_def split: option.splits)

lemma iden12_operator_Inr_inverse:
  assumes "iden12_compute_evolution_operator c x tk Ja Je = Inr (F, b)"
  shows "\<exists>M. linalg_inv c (msub (eye (N c)) (smult (dt c / 2) Ja)) = Some M"
  using assms by (auto simp: iden12_compute_evolution_operator_def Let_def split: option.splits)

text \<open>What a successful call of the linearizer has used: the matrix \<^verbatim>\<open>np.linalg.inv\<close> returned.\<close>

lemma evol06_operator_Inr_pair:
  assumes "evol06_compute_evolution_operator c a tk = Inr (F, b)"
  shows "\<exists>M. linalg_inv c (msub (eye (N c)) (smult (dt c / 2) (eval_d_alpha c a tk))) = Some M \<and>
     F = matmul M (madd (eye (N c)) (smult (dt c / 2) (eval_d_alpha c a tk))) \<and>
     b = matvec M (svmult (dt c) (vsub (F_eval c a tk) (matvec (eval_d_alpha c a tk) a)))"
  using assms by (auto simp: evol06_compute_evolution_operator_def Let_def split: option.splits)

lemma iden12_operator_Inr_matrix:
  assumes "iden12_compute_evolution_operator c x tk Ja Je = Inr (F, b)"
  shows "\<exists>M. linalg_inv c (msub (eye (N c)) (smult (dt c / 2) Ja)) = Some M \<and>
     F = assign_block
           (assign_block
              (assign_block (zeros (N c + eta_p c * Nc_eta c) (N c + eta_p c * Nc_eta c))
                 0 (N c) 0 (N c) (matmul M (madd (eye (N c)) (smult (dt c / 2) Ja))))
              0 (N c) (N c) (N c + eta_p c * Nc_eta c)
              (matmul (matmul (matmul M (smult (dt c / 2) Je)) (B_eta c)) (U_eta_p c)))
           (N c) (N c + eta_p c * Nc_eta c) (N c) (N c + eta_p c * Nc_eta c)
           (matmul (UT_eta_p c) (matmul (A_eta c) (U_eta_p c)))"
  using assms by (auto simp: iden12_compute_evolution_operator_def Let_def split: option.splits)

section \<open>Errors of the inversion\<close>

text \<open>
  Claim C7, as the drivers have it. When \<^verbatim>\<open>np.linalg.inv\<close> raises \<^verbatim>\<open>LinAlgError\<close> for
  \<open>I - (dt/2)\<cdot>J\<close> at a step the run has reached, the error ends the run: neither driver
  catches it, and the identification returns no posterior. Nothing stands in for the
  inverse: in a run that returns, every step has used the matrix \<open>M\<close> that \<^verbatim>\<open>np.linalg.inv\<close>
  returned for the matrix of that step, in the new column of \<open>alpha\<close> and in the evolution
  matrix of the filter. The drivers do not test the matrix themselves: what ends the run
  is what \<^verbatim>\<open>np.linalg.inv\<close> raises.
\<close>

theorem inversion_error_aborts:
  "(\<forall>k s. k + 1 < NT d \<longrightarrow> evol06_loop d k (evol06_init d) = Inr s \<longrightarrow>
      linalg_inv d (msub (eye (N d)) (smult (dt d / 2) (eval_d_alpha d (alpha s ! k) (t s ! k)))) = None \<longrightarrow>
      evol06_main d = Inl LinAlgError) \<and>
   (\<forall>k s. k + 1 < NT c \<longrightarrow> iden12_loop c k (iden12_init c) = Inr s \<longrightarrow>
      linalg_inv c (msub (eye (N c))
        (smult (dt c / 2) (fst (compute_evolution_operator_Jacobians c (x_tilde_c s ! k) (t s ! k))))) = None \<longrightarrow>
      iden12_filter c = Inl LinAlgError \<and> iden12_main c = Inl LinAlgError) \<and>
   (\<forall>k s. evol06_main d = Inr s \<longrightarrow> k + 1 < NT d \<longrightarrow>
      (\<exists>M. linalg_inv d (msub (eye (N d)) (smult (dt d / 2) (eval_d_alpha d (alpha s ! k) (t s ! k))))
            = Some M \<and>
          alpha s ! (k + 1) =
            vadd (matvec (matmul M (madd (eye (N d))
                    (smult (dt d / 2) (eval_d_alpha d (alpha s ! k) (t s ! k))))) (alpha s ! k))
              (matvec M (svmult (dt d)
                 (vsub (F_eval d (alpha s ! k) (t s ! k))
                    (matvec (eval_d_alpha d (alpha s ! k) (t s ! k)) (alpha s ! k))))))) \<and>
   (\<forall>k s. iden12_filter c = Inr s \<longrightarrow> k + 1 < NT c \<longrightarrow>
      (\<exists>M Ja Je.
          compute_evolution_operator_Jacobians c (x_tilde_c s ! k) (t s ! k) = (Ja, Je) \<and>
          linalg_inv c (msub (eye (N c)) (smult (dt c / 2) Ja)) = Some M \<and>
          F_evol s ! k =
            assign_block
              (assign_block
                 (assign_block (zeros (N c + eta_p c * Nc_eta c) (N c + eta_p c * Nc_eta c))
                    0 (N c) 0 (N c) (matmul M (madd (eye (N c)) (smult (dt c / 2) Ja))))
                 0 (N c) (N c) (N c + eta_p c * Nc_eta c)
                 (matmul (matmul (matmul M (smult (dt c / 2) Je)) (B_eta c)) (U_eta_p c)))
              (N c) (N c + eta_p c * Nc_eta c) (N c) (N c + eta_p c * Nc_eta c)
              (matmul (UT_eta_p c) (matmul (A_eta c) (U_eta_p c)))))"
proof (intro conjI allI impI)
  fix k s
  assume k: "k + 1 < NT d" and reach: "evol06_loop d k (evol06_init d) = Inr s"
    and none: "linalg_inv d (msub (eye (N d))
        (smult (dt d / 2) (eval_d_alpha d (alpha s ! k) (t s ! k)))) = None"
  from none have "evol06_step d k s = Inl LinAlgError" by (rule evol06_step_raises)
  from evol06_loop_error [OF reach this, of "NT d - 1"] k
  have "evol06_loop d (NT d - 1) (evol06_init d) = Inl LinAlgError" by simp
  then show "evol06_main d = Inl LinAlgError"
    by (simp add: evol06_main_def error_eq split: sum.split)
next
  fix k s
  assume k: "k + 1 < NT c" and reach: "iden12_loop c k (iden12_init c) = Inr s"
    and none: "linalg_inv c (msub (eye (N c))
        (smult (dt c / 2) (fst (compute_evolution_operator_Jacobians c (x_tilde_c s ! k) (t s ! k))))) = None"
  from none have "iden12_step c k s = Inl LinAlgError" by (rule iden12_step_raises)
  from iden12_loop_error [OF reach this, of "NT c - 1"] k
  have "iden12_loop c (NT c - 1) (iden12_init c) = Inl LinAlgError" by simp
  then show "iden12_filter c = Inl LinAlgError" "iden12_main c = Inl LinAlgError"
    by (simp_all add: iden12_filter_def iden12_main_def)
next
  fix k s assume run: "evol06_main d = Inr s" and k: "k + 1 < NT d"
  from run have loop: "evol06_loop d (NT d - 1) (evol06_init d) = Inr s"
    by (simp add: evol06_main_def split: sum.splits)
  have "NT d - 1 < NT d" "k < NT d - 1" using k by simp_all
  from evol06_loop_history [OF loop this(1)] this(2)
  obtain F b where op: "evol06_compute_evolution_operator d (alpha s ! k) (t s ! k) = Inr (F, b)"
    and next_col: "alpha s ! (k + 1) = vadd (matvec F (alpha s ! k)) b"
    by blast
  from evol06_operator_Inr_pair [OF op] obtain M
    where M: "linalg_inv d (msub (eye (N d)) (smult (dt d / 2) (eval_d_alpha d (alpha s ! k) (t s ! k))))
            = Some M"
      and F: "F = matmul M (madd (eye (N d)) (smult (dt d / 2) (eval_d_alpha d (alpha s ! k) (t s ! k))))"
      and b: "b = matvec M (svmult (dt d)
                 (vsub (F_eval d (alpha s ! k) (t s ! k))
                    (matvec (eval_d_alpha d (alpha s ! k) (t s ! k)) (alpha s ! k))))"
    by (elim exE conjE)
  show "\<exists>M. linalg_inv d (msub (eye (N d)) (smult (dt d / 2) (eval_d_alpha d (alpha s ! k) (t s ! k))))
            = Some M \<and>
          alpha s ! (k + 1) =
            vadd (matvec (matmul M (madd (eye (N d))
                    (smult (dt d / 2) (eval_d_alpha d (alpha s ! k) (t s ! k))))) (alpha s ! k))
              (matvec M (svmult (dt d)
                 (vsub (F_eval d (alpha s ! k) (t s ! k))
                    (matvec (eval_d_alpha d (alpha s ! k) (t s ! k)) (alpha s ! k)))))"
    by (intro exI [where x = M] conjI M) (simp only: next_col F b)
next
  fix k s assume run: "iden12_filter c = Inr s" and k: "k + 1 < NT c"
  from run have loop: "iden12_loop c (NT c - 1) (iden12_init c) = Inr s"
    by (simp add: iden12_filter_def)
  have "NT c - 1 < NT c" "k < NT c - 1" using k by simp_all
  from iden12_loop_history [OF loop this(1)] this(2)
  obtain Ja Je F b where J: "compute_evolution_operator_Jacobians c (x_tilde_c s ! k) (t s ! k) = (Ja, Je)"
    and op: "iden12_compute_evolution_operator c (x_tilde_c s ! k) (t s ! k) Ja Je = Inr (F, b)"
    and Fk: "F_evol s ! k = F"
    by blast
  from iden12_operator_Inr_matrix [OF op] obtain M
    where M: "linalg_inv c (msub (eye (N c)) (smult (dt c / 2) Ja)) = Some M"
      and F: "F = assign_block
              (assign_block
                 (assign_block (zeros (N c + eta_p c * Nc_eta c) (N c + eta_p c * Nc_eta c))
                    0 (N c) 0 (N c) (matmul M (madd (eye (N c)) (smult (dt c / 2) Ja))))
                 0 (N c) (N c) (N c + eta_p c * Nc_eta c)
                 (matmul (matmul (matmul M (smult (dt c / 2) Je)) (B_eta c)) (U_eta_p c)))
              (N c) (N c + eta_p c * Nc_eta c) (N c) (N c + eta_p c * Nc_eta c)
              (matmul (UT_eta_p c) (matmul (A_eta c) (U_eta_p c)))"
    by (elim exE conjE)
  show "\<exists>M Ja Je.
          compute_evolution_operator_Jacobians c (x_tilde_c s ! k) (t s ! k) = (Ja, Je) \<and>
          linalg_inv c (msub (eye (N c)) (smult (dt c / 2) Ja)) = Some M \<and>
          F_evol s ! k =
            assign_block
              (assign_block
                 (assign_block (zeros (N c + eta_p c * Nc_eta c) (N c + eta_p c * Nc_eta c))
                    0 (N c) 0 (N c) (matmul M (madd (eye (N c)) (smult (dt c / 2) Ja))))
                 0 (N c) (N c) (N c + eta_p c * Nc_eta c)
                 (matmul (matmul (matmul M (smult (dt c / 2) Je)) (B_eta c)) (U_eta_p c)))
              (N c) (N c + eta_p c * Nc_eta c) (N c) (N c + eta_p c * Nc_eta c)
              (matmul (UT_eta_p c) (matmul (A_eta c) (U_eta_p c)))"
    by (intro exI [where x = M] exI [where x = Ja] exI [where x = Je] conjI J M)
       (simp only: Fk F)
qed

lemma cfg06_singular_fields:
  "N cfg06_singular = 1" "NT cfg06_singular = 3" "dt cfg06_singular = 1"
  "linalg_inv cfg06_singular = inv_1x1"
  "eval_d_alpha cfg06_singular = (\<lambda>_ tk. if tk = 1 then [[2]] else [[- 1]])"
  by (simp_all add: cfg06_singular_def cfg06_def)

lemma cfg12_singular_fields:
  "N cfg12_singular = 1" "NT cfg12_singular = 3" "dt cfg12_singular = 1"
  "linalg_inv cfg12_singular = inv_1x1"
  "eval_d_alpha cfg12_singular = (\<lambda>_ _. [[2]])"
  by (simp_all add: cfg12_singular_def cfg12_def)

lemma evol06_loop_cfg06_singular:
  "evol06_loop cfg06_singular 1 (evol06_init cfg06_singular)
     = Inr \<lparr>t = [0, 1, 0], alpha = [[1], [1 / 3], [0]]\<rparr>"
  by code_simp

lemma raises_cfg06_singular:
  "linalg_inv cfg06_singular (msub (eye (N cfg06_singular)) (smult (dt cfg06_singular / 2)
     (eval_d_alpha cfg06_singular (alpha \<lparr>t = [0, 1, 0], alpha = [[1], [1 / 3], [0]]\<rparr> ! 1)
        (t \<lparr>t = [0, 1, 0], alpha = [[1], [1 / 3], [0]]\<rparr> ! 1)))) = None"
  by (simp add: cfg06_singular_fields array_eval)

lemma raises_cfg12_singular:
  "linalg_inv cfg12_singular (msub (eye (N cfg12_singular)) (smult (dt cfg12_singular / 2)
     (fst (compute_evolution_operator_Jacobians cfg12_singular
        (x_tilde_c (iden12_init cfg12_singular) ! 0) (t (iden12_init cfg12_singular) ! 0))))) = None"
  by (simp add: compute_evolution_operator_Jacobians_def Let_def cfg12_singular_fields array_eval)

text \<open>
  The theorem at concrete runs. In the time evolution \<open>cfg06_singular\<close> the matrix of the
  second step is the zero matrix, in the identification \<open>cfg12_singular\<close> the matrix of the
  first: \<^verbatim>\<open>np.linalg.inv\<close> raises and the runs end with the error. The runs \<open>cfg06\<close> and \<open>cfg12\<close>
  return, and their first steps have used the inverse \<open>[[2/3]]\<close> of \<open>[[3/2]]\<close>.
\<close>

theorem inversion_error_aborts_witness:
  "(1::nat) + 1 < NT cfg06_singular \<and>
   evol06_loop cfg06_singular 1 (evol06_init cfg06_singular)
     = Inr \<lparr>t = [0, 1, 0], alpha = [[1], [1 / 3], [0]]\<rparr> \<and>
   evol06_main cfg06_singular = Inl LinAlgError \<and>
   (0::nat) + 1 < NT cfg12_singular \<and>
   iden12_loop cfg12_singular 0 (iden12_init cfg12_singular) = Inr (iden12_init cfg12_singular) \<and>
   iden12_filter cfg12_singular = Inl LinAlgError \<and> iden12_main cfg12_singular = Inl LinAlgError \<and>
   evol06_main cfg06 = Inr \<lparr>t = [0, 1, 2], alpha = [[1], [1 / 3], [1 / 9]]\<rparr> \<and>
   (0::nat) + 1 < NT cfg06 \<and>
   linalg_inv cfg06 [[3 / 2]] = Some [[2 / 3]] \<and>
   [1 / 3] = vadd (matvec (matmul [[2 / 3]] [[1 / 2]]) [1]) (matvec [[2 / 3]] [0]) \<and>
   (\<exists>s M Ja Je. iden12_filter cfg12 = Inr s \<and> (0::nat) + 1 < NT cfg12 \<and>
      compute_evolution_operator_Jacobians cfg12 (x_tilde_c s ! 0) (t s ! 0) = (Ja, Je) \<and>
      linalg_inv cfg12 (msub (eye (N cfg12)) (smult (dt cfg12 / 2) Ja)) = Some M \<and>
      M = [[2 / 3]] \<and>
      F_evol s ! 0 =
            assign_block
              (assign_block
                 (assign_block (zeros (N cfg12 + eta_p cfg12 * Nc_eta cfg12) (N cfg12 + eta_p cfg12 * Nc_eta cfg12))
                    0 (N cfg12) 0 (N cfg12) (matmul M (madd (eye (N cfg12)) (smult (dt cfg12 / 2) Ja))))
                 0 (N cfg12) (N cfg12) (N cfg12 + eta_p cfg12 * Nc_eta cfg12)
                 (matmul (matmul (matmul M (smult (dt cfg12 / 2) Je)) (B_eta cfg12)) (U_eta_p cfg12)))
              (N cfg12) (N cfg12 + eta_p cfg12 * Nc_eta cfg12) (N cfg12) (N cfg12 + eta_p cfg12 * Nc_eta cfg12)
              (matmul (UT_eta_p cfg12) (matmul (A_eta cfg12) (U_eta_p cfg12))))"
proof -
  have n06: "(1::nat) + 1 < NT cfg06_singular"
    by (simp add: cfg06_singular_fields)
  have n12: "(0::nat) + 1 < NT cfg12_singular"
    "iden12_loop cfg12_singular 0 (iden12_init cfg12_singular) = Inr (iden12_init cfg12_singular)"
    by (simp_all add: cfg12_singular_fields)
  note th = inversion_error_aborts [of cfg06_singular cfg12_singular]
  note A = th [THEN conjunct1, rule_format, OF n06 evol06_loop_cfg06_singular raises_cfg06_singular]
  note B = th [THEN conjunct2, THEN conjunct1, rule_format, OF n12 raises_cfg12_singular]
  note th' = inversion_error_aborts [of cfg06 cfg12]
  from th' [THEN conjunct2, THEN conjunct2, THEN conjunct1, rule_format,
      OF evol06_main_cfg06 NT_cfg(5)]
  obtain M where M: "linalg_inv cfg06 (msub (eye (N cfg06)) (smult (dt cfg06 / 2)
      (eval_d_alpha cfg06 (alpha \<lparr>t = [0, 1, 2], alpha = [[1], [1 / 3], [1 / 9]]\<rparr> ! 0)
         (t \<lparr>t = [0, 1, 2], alpha = [[1], [1 / 3], [1 / 9]]\<rparr> ! 0)))) = Some M"
    and col: "alpha \<lparr>t = [0, 1, 2], alpha = [[1], [1 / 3], [1 / 9]]\<rparr> ! (0 + 1) =
            vadd (matvec (matmul M (madd (eye (N cfg06))
                    (smult (dt cfg06 / 2) (eval_d_alpha cfg06
                       (alpha \<lparr>t = [0, 1, 2], alpha = [[1], [1 / 3], [1 / 9]]\<rparr> ! 0)
                       (t \<lparr>t = [0, 1, 2], alpha = [[1], [1 / 3], [1 / 9]]\<rparr> ! 0)))))
                    (alpha \<lparr>t = [0, 1, 2], alpha = [[1], [1 / 3], [1 / 9]]\<rparr> ! 0))
              (matvec M (svmult (dt cfg06)
                 (vsub (F_eval cfg06 (alpha \<lparr>t = [0, 1, 2], alpha = [[1], [1 / 3], [1 / 9]]\<rparr> ! 0)
                          (t \<lparr>t = [0, 1, 2], alpha = [[1], [1 / 3], [1 / 9]]\<rparr> ! 0))
                    (matvec (eval_d_alpha cfg06
                       (alpha \<lparr>t = [0, 1, 2], alpha = [[1], [1 / 3], [1 / 9]]\<rparr> ! 0)
                       (t \<lparr>t = [0, 1, 2], alpha = [[1], [1 / 3], [1 / 9]]\<rparr> ! 0))
                       (alpha \<lparr>t = [0, 1, 2], alpha = [[1], [1 / 3], [1 / 9]]\<rparr> ! 0)))))"
    by (elim exE conjE)
  have m06: "msub (eye (N cfg06)) (smult (dt cfg06 / 2)
      (eval_d_alpha cfg06 (alpha \<lparr>t = [0, 1, 2], alpha = [[1], [1 / 3], [1 / 9]]\<rparr> ! 0)
         (t \<lparr>t = [0, 1, 2], alpha = [[1], [1 / 3], [1 / 9]]\<rparr> ! 0))) = [[3 / 2]]"
    by (simp add: cfg06_fields array_eval)
  have i06: "linalg_inv cfg06 [[3 / 2]] = Some [[2 / 3]]"
    by (simp add: cfg06_fields inv_1x1_def)
  from M have M06: "M = [[2 / 3]]" by (simp only: m06 i06) simp
  have C: "[1 / 3] = vadd (matvec (matmul [[2 / 3]] [[1 / 2]]) [1]) (matvec [[2 / 3]] [0 :: real])"
    using col unfolding M06 by (simp add: cfg06_fields array_eval)
  obtain s where s: "iden12_filter cfg12 = Inr s" using iden12_filter_cfg12 by (elim exE)
  from th' [THEN conjunct2, THEN conjunct2, THEN conjunct2, rule_format, OF s NT_cfg(6)]
  obtain M Ja Je where
    J: "compute_evolution_operator_Jacobians cfg12 (x_tilde_c s ! 0) (t s ! 0) = (Ja, Je)"
    and M: "linalg_inv cfg12 (msub (eye (N cfg12)) (smult (dt cfg12 / 2) Ja)) = Some M"
    and F: "F_evol s ! 0 =
            assign_block
              (assign_block
                 (assign_block (zeros (N cfg12 + eta_p cfg12 * Nc_eta cfg12) (N cfg12 + eta_p cfg12 * Nc_eta cfg12))
                    0 (N cfg12) 0 (N cfg12) (matmul M (madd (eye (N cfg12)) (smult (dt cfg12 / 2) Ja))))
                 0 (N cfg12) (N cfg12) (N cfg12 + eta_p cfg12 * Nc_eta cfg12)
                 (matmul (matmul (matmul M (smult (dt cfg12 / 2) Je)) (B_eta cfg12)) (U_eta_p cfg12)))
              (N cfg12) (N cfg12 + eta_p cfg12 * Nc_eta cfg12) (N cfg12) (N cfg12 + eta_p cfg12 * Nc_eta cfg12)
              (matmul (UT_eta_p cfg12) (matmul (A_eta cfg12) (U_eta_p cfg12)))"
    by (elim exE conjE)
  from J have Ja: "Ja = [[- 1]]"
    by (simp add: compute_evolution_operator_Jacobians_def Let_def cfg12_fields)
  from M have M12: "M = [[2 / 3]]"
    unfolding Ja by (simp add: cfg12_fields array_eval)
  have E: "(\<exists>s M Ja Je. iden12_filter cfg12 = Inr s \<and> (0::nat) + 1 < NT cfg12 \<and>
      compute_evolution_operator_Jacobians cfg12 (x_tilde_c s ! 0) (t s ! 0) = (Ja, Je) \<and>
      linalg_inv cfg12 (msub (eye (N cfg12)) (smult (dt cfg12 / 2) Ja)) = Some M \<and>
      M = [[2 / 3]] \<and>
      F_evol s ! 0 =
            assign_block
              (assign_block
                 (assign_block (zeros (N cfg12 + eta_p cfg12 * Nc_eta cfg12) (N cfg12 + eta_p cfg12 * Nc_eta cfg12))
                    0 (N cfg12) 0 (N cfg12) (matmul M (madd (eye (N cfg12)) (smult (dt cfg12 / 2) Ja))))
                 0 (N cfg12) (N cfg12) (N cfg12 + eta_p cfg12 * Nc_eta cfg12)
                 (matmul (matmul (matmul M (smult (dt cfg12 / 2) Je)) (B_eta cfg12)) (U_eta_p cfg12)))
              (N cfg12) (N cfg12 + eta_p cfg12 * Nc_eta cfg12) (N cfg12) (N cfg12 + eta_p cfg12 * Nc_eta cfg12)
              (matmul (UT_eta_p cfg12) (matmul (A_eta cfg12) (U_eta_p cfg12))))"
    by (intro exI [where x = s] exI [where x = M] exI [where x = Ja] exI [where x = Je]
        conjI s NT_cfg(6) J M M12 F)
  show ?thesis
    by (intro conjI n06 n12 evol06_loop_cfg06_singular A B [THEN conjunct1] B [THEN conjunct2]
        evol06_main_cfg06 NT_cfg(5) i06 C E)
qed

section \<open>A singular matrix that is inverted\<close>

text \<open>
  Not every singular matrix ends the run. For the matrix \<open>[[3, 3], [5, 5]]\<close>, which maps
  \<open>(1, -1)\<close> to zero, the rounded multiplier \<open>3\<cdot>(1/5)\<close> of the factorisation is
  \<open>0.6000000000000001\<close> and the second pivot is \<open>3 - 5\<cdot>0.6000000000000001 = -2\<^sup>-\<^sup>5\<^sup>1\<close>, not
  zero: \<^verbatim>\<open>np.linalg.inv\<close> raises nothing and returns a matrix with entries of magnitude
  \<open>2\<^sup>5\<^sup>1\<close>. The time evolution \<open>cfg06_undetected\<close> has this matrix in its only step, and it
  returns a trajectory.
\<close>

lemma ulp_search_numeral:
  "ulp_search (numeral k) x u =
     (if 2 ^ 53 * u \<le> \<bar>x\<bar> then ulp_search (pred_numeral k) x (2 * u)
      else if \<bar>x\<bar> < 2 ^ 52 * u then ulp_search (pred_numeral k) x (u / 2)
      else u)"
  by (simp add: numeral_eq_Suc)

lemmas binary64_eval = binary64_def ulp_def ulp_search_numeral round_half_even_def Let_def

lemma lu_multiplier_5_3: "lu_multiplier 5 3 = 5404319552844596 / 2 ^ 53"
  by (simp add: lu_multiplier_def binary64_eval)

lemma lu_pivot_5_5_3_3: "lu_pivot 5 5 3 3 = - (1 / 2 ^ 51)"
  by (simp add: lu_pivot_def lu_multiplier_5_3) (simp add: binary64_eval)

lemma lu_solve_first:
  "lu_solve 5 5 (1351079888211149 / 2251799813685248) (- (1 / 2251799813685248)) 0 1
     = (2251799813685248, - 2251799813685248)"
  by (simp add: lu_solve_def binary64_eval)

lemma lu_solve_second:
  "lu_solve 5 5 (1351079888211149 / 2251799813685248) (- (1 / 2251799813685248)) 1 0
     = (- (5404319552844595 / 4), 1351079888211149)"
  by (simp add: lu_solve_def binary64_eval)

lemma np_linalg_inv_2x2_singular:
  "np_linalg_inv_2x2 [[3, 3], [5, 5]]
     = Some [[2251799813685248, - (5404319552844595 / 4)], [- 2251799813685248, 1351079888211149]]"
  by (simp add: np_linalg_inv_2x2_def lu_multiplier_5_3 lu_pivot_5_5_3_3 Let_def
      lu_solve_first lu_solve_second)

lemma cfg06_undetected_fields:
  "N cfg06_undetected = 2" "NT cfg06_undetected = 2" "dt cfg06_undetected = 2"
  "linalg_inv cfg06_undetected = np_linalg_inv_2x2"
  "eval_d_alpha cfg06_undetected = (\<lambda>_ _. [[- 2, - 3], [- 5, - 4]])"
  "F_eval cfg06_undetected = (\<lambda>a _. matvec [[- 2, - 3], [- 5, - 4]] a)"
  "alpha_0 cfg06_undetected = [1, 0]"
  by (simp_all add: cfg06_undetected_def)

lemma cfg06_undetected_matrix:
  "msub (eye (N cfg06_undetected)) (smult (dt cfg06_undetected / 2) (eval_d_alpha cfg06_undetected a tk))
     = [[3, 3], [5, 5]]"
  by (simp add: cfg06_undetected_fields array_eval numeral_2_eq_2)

lemma cfg06_undetected_operator:
  "evol06_compute_evolution_operator cfg06_undetected [1, 0] tk
     = Inr ([[18014398509481983 / 4, - (10808639105689191 / 4)],
             [- 4503599627370497, 2702159776422297]], [0, 0])"
  unfolding evol06_compute_evolution_operator_def Let_def cfg06_undetected_matrix
  by (simp add: cfg06_undetected_fields np_linalg_inv_2x2_singular)
     (simp add: array_eval numeral_2_eq_2)

lemma evol06_main_cfg06_undetected:
  "evol06_main cfg06_undetected
     = Inr \<lparr>t = [0, 2], alpha = [[1, 0], [18014398509481983 / 4, - 4503599627370497]]\<rparr>"
proof -
  have init: "evol06_init cfg06_undetected = \<lparr>t = [0, 0], alpha = [[1, 0], [0, 0]]\<rparr>"
    by (simp add: evol06_init_def cfg06_undetected_fields zeros_vec_def mk_vec_def numeral_2_eq_2)
  have step: "evol06_step cfg06_undetected 0 \<lparr>t = [0, 0], alpha = [[1, 0], [0, 0]]\<rparr>
      = Inr \<lparr>t = [0, 2], alpha = [[1, 0], [18014398509481983 / 4, - 4503599627370497]]\<rparr>"
    by (simp add: evol06_step_def cfg06_undetected_operator cfg06_undetected_fields)
       (simp add: array_eval numeral_2_eq_2)
  have one: "NT cfg06_undetected - 1 = Suc 0" by (simp add: cfg06_undetected_fields)
  show ?thesis
    unfolding evol06_main_def init one by (simp add: cfg06_undetected_operator step)
qed

theorem singular_matrix_inverted:
  "msub (eye (N cfg06_undetected)) (smult (dt cfg06_undetected / 2)
      (eval_d_alpha cfg06_undetected (alpha_0 cfg06_undetected) 0)) = [[3, 3], [5, 5]] \<and>
   matvec [[3, 3], [5, 5]] [1, - 1] = [0, 0] \<and>
   lu_multiplier 5 3 = 5404319552844596 / 2 ^ 53 \<and>
   lu_pivot 5 5 3 3 = - (1 / 2 ^ 51) \<and>
   linalg_inv cfg06_undetected [[3, 3], [5, 5]] \<noteq> None \<and>
   the (linalg_inv cfg06_undetected [[3, 3], [5, 5]]) ! 1 ! 0 = - (2 ^ 51) \<and>
   evol06_main cfg06_undetected \<noteq> Inl LinAlgError"
proof -
  have null: "matvec [[3, 3], [5, 5]] [1, - 1] = [0, 0 :: real]"
    by (simp add: array_eval numeral_2_eq_2)
  have inv: "linalg_inv cfg06_undetected [[3, 3], [5, 5]] \<noteq> None"
    "the (linalg_inv cfg06_undetected [[3, 3], [5, 5]]) ! 1 ! 0 = - (2 ^ 51)"
    by (simp_all add: cfg06_undetected_fields(4) np_linalg_inv_2x2_singular)
  have run: "evol06_main cfg06_undetected \<noteq> Inl LinAlgError"
    by (simp add: evol06_main_cfg06_undetected)
  show ?thesis
    by (intro conjI cfg06_undetected_matrix null lu_multiplier_5_3 lu_pivot_5_5_3_3 inv run)
qed

lemma Nc_le_block: "0 < eta_p c \<Longrightarrow> Nc_eta c \<le> eta_p c * Nc_eta c"
  by (cases "eta_p c") simp_all

text \<open>What \<^verbatim>\<open>compute_evolution_operator_alpha_covariance\<close> returns when the inversion succeeds.\<close>

lemma alpha_covariance_eq:
  assumes G: "is_mat (N c + eta_p c * Nc_eta c) (N c + eta_p c * Nc_eta c) G"
    and p: "0 < eta_p c"
    and inv: "linalg_inv c (msub (eye (N c)) (smult (dt c / 2) Ja)) = Some M"
  shows "compute_evolution_operator_alpha_covariance c G Ja Je =
     Inr (madd (slice_mat G 0 (N c) 0 (N c))
            (eta_induced_term c M Je
               (matmul (U_eta c)
                  (matmul (slice_mat G (N c) (N c + Nc_eta c) (N c) (N c + Nc_eta c)) (UT_eta c)))))"
proof -
  let ?n = "N c" and ?m = "Nc_eta c"
  let ?A = "slice_mat G 0 ?n 0 ?n" and ?E = "slice_mat G ?n (?n + ?m) ?n (?n + ?m)"
  let ?Z = "zeros (?n + ?m) (?n + ?m)"
  let ?G1 = "assign_block ?Z 0 ?n 0 ?n ?A"
  let ?G2 = "assign_block ?G1 ?n (?n + ?m) ?n (?n + ?m) ?E"
  have le: "?n + ?m \<le> ?n + eta_p c * ?m" using Nc_le_block [OF p] by simp
  have A: "is_mat (?n - 0) (?n - 0) ?A"
    by (rule is_mat_slice_mat [OF G]) simp_all
  have E: "is_mat (?n + ?m - ?n) (?n + ?m - ?n) ?E"
    by (rule is_mat_slice_mat [OF G le le])
  have G1: "is_mat (?n + ?m) (?n + ?m) ?G1"
  proof (cases "?n + ?m = 0")
    case True
    then show ?thesis by (simp add: assign_block_def zeros_def is_mat_def mk_mat_def)
  next
    case False
    then show ?thesis by (simp add: is_mat_assign_block)
  qed
  have "slice_mat ?G2 0 ?n 0 ?n = slice_mat ?G1 0 ?n 0 ?n"
    by (rule slice_mat_assign_block_other [OF G1]) simp_all
  also have "\<dots> = ?A"
    by (rule slice_mat_assign_block [OF is_mat_zeros A]) simp_all
  finally have a: "slice_mat ?G2 0 ?n 0 ?n = ?A" .
  have e: "slice_mat ?G2 ?n (?n + ?m) ?n (?n + ?m) = ?E"
    by (rule slice_mat_assign_block [OF G1 E]) simp_all
  show ?thesis
    by (simp add: compute_evolution_operator_alpha_covariance_def Let_def inv a e eta_induced_term_def)
qed

lemma is_mat_Gamma_tilde_c_w:
  "0 < N c \<Longrightarrow> is_mat (N c + eta_p c * Nc_eta c) (N c + eta_p c * Nc_eta c) (Gamma_tilde_c_w c)"
  by (simp add: Gamma_tilde_c_w_def Let_def is_mat_assign_block)

lemma slice_Gamma_tilde_c_w_alpha:
  assumes "0 < N c" "is_mat (N c) (N c) (Gamma_alpha_w c)"
  shows "slice_mat (Gamma_tilde_c_w c) 0 (N c) 0 (N c) = Gamma_alpha_w c"
proof -
  let ?n = "N c + eta_p c * Nc_eta c"
  let ?G1 = "assign_block (zeros ?n ?n) 0 (N c) 0 (N c) (Gamma_alpha_w c)"
  have G1: "is_mat ?n ?n ?G1" using assms(1) by (simp add: is_mat_assign_block)
  have "slice_mat (Gamma_tilde_c_w c) 0 (N c) 0 (N c) = slice_mat ?G1 0 (N c) 0 (N c)"
    unfolding Gamma_tilde_c_w_def Let_def
    by (rule slice_mat_assign_block_other [OF G1]) simp_all
  also have "\<dots> = Gamma_alpha_w c"
    by (rule slice_mat_assign_block [OF is_mat_zeros]) (use assms(2) in simp_all)
  finally show ?thesis .
qed

text \<open>One pass of the filter loop writes the \<open>alpha\<close> block of the process noise and nothing else of it.\<close>

lemma iden12_step_noise:
  assumes step: "iden12_step c k s = Inr s'"
    and G: "is_mat (N c + eta_p c * Nc_eta c) (N c + eta_p c * Nc_eta c) (model_Gamma_w (model s))"
    and N: "0 < N c" and p: "0 < eta_p c"
  shows "is_mat (N c + eta_p c * Nc_eta c) (N c + eta_p c * Nc_eta c) (model_Gamma_w (model s'))"
    and "\<exists>M. linalg_inv c (msub (eye (N c)) (smult (dt c / 2)
                 (fst (compute_evolution_operator_Jacobians c (x_tilde_c s ! k) (t s ! k))))) = Some M \<and>
            slice_mat (model_Gamma_w (model s')) 0 (N c) 0 (N c) =
              madd (slice_mat (model_Gamma_w (model s)) 0 (N c) 0 (N c))
                (eta_induced_term c M
                   (snd (compute_evolution_operator_Jacobians c (x_tilde_c s ! k) (t s ! k)))
                   (matmul (U_eta c)
                      (matmul (slice_mat (model_Gamma_w (model s)) (N c) (N c + Nc_eta c) (N c) (N c + Nc_eta c))
                         (UT_eta c))))"
    and "\<And>i j. i < N c + eta_p c * Nc_eta c \<Longrightarrow> j < N c + eta_p c * Nc_eta c \<Longrightarrow>
            \<not> (i < N c \<and> j < N c) \<Longrightarrow>
            model_Gamma_w (model s') ! i ! j = model_Gamma_w (model s) ! i ! j"
    and "slice_mat (model_Gamma_w (model s')) (N c) (N c + Nc_eta c) (N c) (N c + Nc_eta c)
         = slice_mat (model_Gamma_w (model s)) (N c) (N c + Nc_eta c) (N c) (N c + Nc_eta c)"
proof -
  let ?n = "N c + eta_p c * Nc_eta c"
  let ?G = "model_Gamma_w (model s)"
  from step obtain Ja Je F b X where
    J: "compute_evolution_operator_Jacobians c (x_tilde_c s ! k) (t s ! k) = (Ja, Je)"
    and op: "iden12_compute_evolution_operator c (x_tilde_c s ! k) (t s ! k) Ja Je = Inr (F, b)"
    and cov: "compute_evolution_operator_alpha_covariance c ?G Ja Je = Inr X"
    and m: "model s' = (model s)\<lparr>model_F := F, additive_evolution_vector := b,
        model_Gamma_w := assign_block ?G 0 (N c) 0 (N c) X\<rparr>"
    by (rule iden12_step_Inr)
  from iden12_operator_Inr_inverse [OF op] obtain M
    where M: "linalg_inv c (msub (eye (N c)) (smult (dt c / 2) Ja)) = Some M" by (elim exE)
  let ?T = "eta_induced_term c M Je
              (matmul (U_eta c) (matmul (slice_mat ?G (N c) (N c + Nc_eta c) (N c) (N c + Nc_eta c)) (UT_eta c)))"
  have X: "X = madd (slice_mat ?G 0 (N c) 0 (N c)) ?T"
    using cov by (simp add: alpha_covariance_eq [OF G p M])
  have G': "model_Gamma_w (model s') = assign_block ?G 0 (N c) 0 (N c) X"
    by (simp add: m)
  have A: "is_mat (N c - 0) (N c - 0) (slice_mat ?G 0 (N c) 0 (N c))"
    by (rule is_mat_slice_mat [OF G]) simp_all
  then have Xm: "is_mat (N c - 0) (N c - 0) X"
    unfolding X using N by (simp add: is_mat_madd)
  show "is_mat ?n ?n (model_Gamma_w (model s'))"
    unfolding G' using G N by (simp add: is_mat_assign_block)
  have "slice_mat (model_Gamma_w (model s')) 0 (N c) 0 (N c) = X"
    unfolding G' by (rule slice_mat_assign_block [OF G Xm]) simp_all
  then show "\<exists>M. linalg_inv c (msub (eye (N c)) (smult (dt c / 2)
                 (fst (compute_evolution_operator_Jacobians c (x_tilde_c s ! k) (t s ! k))))) = Some M \<and>
            slice_mat (model_Gamma_w (model s')) 0 (N c) 0 (N c) =
              madd (slice_mat ?G 0 (N c) 0 (N c))
                (eta_induced_term c M
                   (snd (compute_evolution_operator_Jacobians c (x_tilde_c s ! k) (t s ! k)))
                   (matmul (U_eta c)
                      (matmul (slice_mat ?G (N c) (N c + Nc_eta c) (N c) (N c + Nc_eta c)) (UT_eta c))))"
    using M by (simp add: J X)
  show "model_Gamma_w (model s') ! i ! j = ?G ! i ! j"
    if "i < ?n" "j < ?n" "\<not> (i < N c \<and> j < N c)" for i j
    unfolding G' using that by (auto simp: nth_assign_block [OF G])
  show "slice_mat (model_Gamma_w (model s')) (N c) (N c + Nc_eta c) (N c) (N c + Nc_eta c)
         = slice_mat ?G (N c) (N c + Nc_eta c) (N c) (N c + Nc_eta c)"
    unfolding G' using Nc_le_block [OF p]
    by (intro slice_mat_assign_block_other [OF G]) simp_all
qed

lemma iden12_step_prefix:
  assumes "iden12_step c n s = Inr s'" "j \<le> n"
  shows "x_tilde_c s' ! j = x_tilde_c s ! j" "t s' ! j = t s ! j"
proof -
  from assms(1) obtain x_u where "x_tilde_c s' = (x_tilde_c s)[n + 1 := x_u]"
    "t s' = (t s)[n + 1 := real (n + 1) * dt c]"
    by (rule iden12_step_Inr)
  then show "x_tilde_c s' ! j = x_tilde_c s ! j" "t s' ! j = t s ! j"
    using assms(2) by simp_all
qed

text \<open>The process noise of the filter object after \<open>n\<close> passes of the loop.\<close>

lemma iden12_loop_noise:
  assumes N: "0 < N c" and p: "0 < eta_p c" and Gaw: "is_mat (N c) (N c) (Gamma_alpha_w c)"
  shows "iden12_loop c n (iden12_init c) = Inr s \<Longrightarrow>
     is_mat (N c + eta_p c * Nc_eta c) (N c + eta_p c * Nc_eta c) (model_Gamma_w (model s)) \<and>
     slice_mat (model_Gamma_w (model s)) (N c) (N c + Nc_eta c) (N c) (N c + Nc_eta c)
       = slice_mat (Gamma_tilde_c_w c) (N c) (N c + Nc_eta c) (N c) (N c + Nc_eta c) \<and>
     (\<forall>i j. i < N c + eta_p c * Nc_eta c \<longrightarrow> j < N c + eta_p c * Nc_eta c \<longrightarrow> \<not> (i < N c \<and> j < N c) \<longrightarrow>
        model_Gamma_w (model s) ! i ! j = Gamma_tilde_c_w c ! i ! j) \<and>
     slice_mat (model_Gamma_w (model s)) 0 (N c) 0 (N c) =
       foldl madd (Gamma_alpha_w c)
         (map (\<lambda>j. eta_induced_term c
                 (the (linalg_inv c (msub (eye (N c)) (smult (dt c / 2)
                    (fst (compute_evolution_operator_Jacobians c (x_tilde_c s ! j) (t s ! j)))))))
                 (snd (compute_evolution_operator_Jacobians c (x_tilde_c s ! j) (t s ! j)))
                 (matmul (U_eta c)
                    (matmul (slice_mat (Gamma_tilde_c_w c) (N c) (N c + Nc_eta c) (N c) (N c + Nc_eta c))
                       (UT_eta c))))
            [0..<n])"
  (is "_ \<Longrightarrow> ?M s \<and> ?E s \<and> ?F s \<and> ?A s = foldl madd _ (map (?T s) [0..<n])")
proof (induction n arbitrary: s)
  case 0
  then have s: "s = iden12_init c" by simp
  show ?case
    unfolding s
    by (simp add: iden12_init_fields is_mat_Gamma_tilde_c_w [OF N] slice_Gamma_tilde_c_w_alpha [OF N Gaw])
next
  case (Suc n)
  from Suc.prems obtain s1 where s1: "iden12_loop c n (iden12_init c) = Inr s1"
    and step: "iden12_step c n s1 = Inr s"
    by (rule iden12_loop_Suc_Inr)
  note IH = Suc.IH [OF s1]
  note M1 = IH [THEN conjunct1] and E1 = IH [THEN conjunct2, THEN conjunct1]
    and F1 = IH [THEN conjunct2, THEN conjunct2, THEN conjunct1]
    and A1 = IH [THEN conjunct2, THEN conjunct2, THEN conjunct2]
  note S = iden12_step_noise [OF step M1 N p]
  have same: "?T s j = ?T s1 j" if "j \<le> n" for j
    by (simp only: iden12_step_prefix [OF step that])
  from S(2) obtain M where
    M: "linalg_inv c (msub (eye (N c)) (smult (dt c / 2)
          (fst (compute_evolution_operator_Jacobians c (x_tilde_c s1 ! n) (t s1 ! n))))) = Some M"
    and rec: "?A s = madd (?A s1)
        (eta_induced_term c M (snd (compute_evolution_operator_Jacobians c (x_tilde_c s1 ! n) (t s1 ! n)))
           (matmul (U_eta c)
              (matmul (slice_mat (model_Gamma_w (model s1)) (N c) (N c + Nc_eta c) (N c) (N c + Nc_eta c))
                 (UT_eta c))))"
    by (elim exE conjE)
  have Tn: "?T s1 n = eta_induced_term c M
        (snd (compute_evolution_operator_Jacobians c (x_tilde_c s1 ! n) (t s1 ! n)))
        (matmul (U_eta c)
           (matmul (slice_mat (model_Gamma_w (model s1)) (N c) (N c + Nc_eta c) (N c) (N c + Nc_eta c))
              (UT_eta c)))"
    by (simp only: M E1 option.sel)
  have "map (?T s) [0..<Suc n] = map (?T s1) [0..<n] @ [?T s1 n]"
    using same by simp
  then have "foldl madd (Gamma_alpha_w c) (map (?T s) [0..<Suc n])
             = madd (foldl madd (Gamma_alpha_w c) (map (?T s1) [0..<n])) (?T s1 n)"
    by (simp only: foldl_append foldl_Cons foldl_Nil)
  also have "\<dots> = ?A s"
    by (simp only: rec Tn A1)
  finally have A: "?A s = foldl madd (Gamma_alpha_w c) (map (?T s) [0..<Suc n])" by (rule sym)
  have E: "?E s" by (simp only: S(4) E1)
  have F: "?F s"
  proof (intro allI impI)
    fix i j assume ij: "i < N c + eta_p c * Nc_eta c" "j < N c + eta_p c * Nc_eta c"
      "\<not> (i < N c \<and> j < N c)"
    from F1 ij have "model_Gamma_w (model s1) ! i ! j = Gamma_tilde_c_w c ! i ! j" by blast
    then show "model_Gamma_w (model s) ! i ! j = Gamma_tilde_c_w c ! i ! j"
      by (simp only: S(3) [OF ij])
  qed
  show ?case
    by (intro conjI S(1) E F A)
qed

section \<open>The process noise of the filter object\<close>

text \<open>
  Claim C8. The loop of the identification mutates the process-noise covariance of the
  filter object in place. The \<open>alpha\<close> block that step \<open>k\<close> writes into \<open>model.Gamma_w\<close> is the
  \<open>alpha\<close> block the step found there, left by step \<open>k - 1\<close>, plus
  \<open>(dt\<^sup>2/4)\<cdot>M\<cdot>(J_eta\<cdot>Gamma_eta\<cdot>J_eta\<^sup>T)\<cdot>M\<^sup>T\<close>; it is not computed from the base \<open>Gamma_alpha_w\<close>. Every
  other entry is left as it is. So the block starts as \<open>Gamma_alpha_w\<close> and after \<open>n\<close> steps it
  is \<open>Gamma_alpha_w\<close> plus the terms of the steps \<open>0\<close> to \<open>n - 1\<close>, up to \<open>n = NT - 1\<close>.
\<close>

theorem process_noise_accumulates:
  assumes N: "0 < N c" and p: "0 < eta_p c" and Gaw: "is_mat (N c) (N c) (Gamma_alpha_w c)"
  shows
   "slice_mat (model_Gamma_w (model (iden12_init c))) 0 (N c) 0 (N c) = Gamma_alpha_w c \<and>
    (\<forall>k s s'. k + 1 < NT c \<longrightarrow> iden12_loop c k (iden12_init c) = Inr s \<longrightarrow>
       iden12_step c k s = Inr s' \<longrightarrow>
       (\<exists>M. linalg_inv c (msub (eye (N c)) (smult (dt c / 2)
                 (fst (compute_evolution_operator_Jacobians c (x_tilde_c s ! k) (t s ! k))))) = Some M \<and>
            slice_mat (model_Gamma_w (model s')) 0 (N c) 0 (N c) =
              madd (slice_mat (model_Gamma_w (model s)) 0 (N c) 0 (N c))
                (eta_induced_term c M
                   (snd (compute_evolution_operator_Jacobians c (x_tilde_c s ! k) (t s ! k)))
                   (matmul (U_eta c)
                      (matmul (slice_mat (model_Gamma_w (model s)) (N c) (N c + Nc_eta c) (N c) (N c + Nc_eta c))
                         (UT_eta c))))) \<and>
       (\<forall>i j. i < N c + eta_p c * Nc_eta c \<longrightarrow> j < N c + eta_p c * Nc_eta c \<longrightarrow>
              \<not> (i < N c \<and> j < N c) \<longrightarrow>
              model_Gamma_w (model s') ! i ! j = model_Gamma_w (model s) ! i ! j)) \<and>
    (\<forall>n s. n \<le> NT c - 1 \<longrightarrow> iden12_loop c n (iden12_init c) = Inr s \<longrightarrow>
       slice_mat (model_Gamma_w (model s)) 0 (N c) 0 (N c) =
         foldl madd (Gamma_alpha_w c)
           (map (\<lambda>j. eta_induced_term c
                   (the (linalg_inv c (msub (eye (N c)) (smult (dt c / 2)
                      (fst (compute_evolution_operator_Jacobians c (x_tilde_c s ! j) (t s ! j)))))))
                   (snd (compute_evolution_operator_Jacobians c (x_tilde_c s ! j) (t s ! j)))
                   (matmul (U_eta c)
                      (matmul (slice_mat (Gamma_tilde_c_w c) (N c) (N c + Nc_eta c) (N c) (N c + Nc_eta c))
                         (UT_eta c))))
              [0..<n]))"
proof (intro conjI allI impI)
  show "slice_mat (model_Gamma_w (model (iden12_init c))) 0 (N c) 0 (N c) = Gamma_alpha_w c"
    by (simp add: iden12_init_fields slice_Gamma_tilde_c_w_alpha [OF N Gaw])
next
  fix k s s'
  assume reach: "iden12_loop c k (iden12_init c) = Inr s" and step: "iden12_step c k s = Inr s'"
  note L = iden12_loop_noise [OF N p Gaw reach]
  note S = iden12_step_noise [OF step L [THEN conjunct1] N p]
  show "\<exists>M. linalg_inv c (msub (eye (N c)) (smult (dt c / 2)
                 (fst (compute_evolution_operator_Jacobians c (x_tilde_c s ! k) (t s ! k))))) = Some M \<and>
            slice_mat (model_Gamma_w (model s')) 0 (N c) 0 (N c) =
              madd (slice_mat (model_Gamma_w (model s)) 0 (N c) 0 (N c))
                (eta_induced_term c M
                   (snd (compute_evolution_operator_Jacobians c (x_tilde_c s ! k) (t s ! k)))
                   (matmul (U_eta c)
                      (matmul (slice_mat (model_Gamma_w (model s)) (N c) (N c + Nc_eta c) (N c) (N c + Nc_eta c))
                         (UT_eta c))))"
    by (rule S(2))
  fix i j
  assume "i < N c + eta_p c * Nc_eta c" "j < N c + eta_p c * Nc_eta c" "\<not> (i < N c \<and> j < N c)"
  then show "model_Gamma_w (model s') ! i ! j = model_Gamma_w (model s) ! i ! j"
    by (rule S(3))
next
  fix n s
  assume run: "iden12_loop c n (iden12_init c) = Inr s"
  from iden12_loop_noise [OF N p Gaw run]
  show "slice_mat (model_Gamma_w (model s)) 0 (N c) 0 (N c) =
         foldl madd (Gamma_alpha_w c)
           (map (\<lambda>j. eta_induced_term c
                   (the (linalg_inv c (msub (eye (N c)) (smult (dt c / 2)
                      (fst (compute_evolution_operator_Jacobians c (x_tilde_c s ! j) (t s ! j)))))))
                   (snd (compute_evolution_operator_Jacobians c (x_tilde_c s ! j) (t s ! j)))
                   (matmul (U_eta c)
                      (matmul (slice_mat (Gamma_tilde_c_w c) (N c) (N c + Nc_eta c) (N c) (N c + Nc_eta c))
                         (UT_eta c))))
              [0..<n])"
    by (elim conjE)
qed

lemma cfg12_noise_fields:
  "Gamma_alpha_w cfg12 = [[1]]" "Gamma_eta_w cfg12 = [[1, 0], [0, 1]]"
  by (simp_all add: cfg12_def)

lemma cfg12_pre:
  "0 < N cfg12" "0 < eta_p cfg12" "is_mat (N cfg12) (N cfg12) (Gamma_alpha_w cfg12)"
  by (simp_all add: cfg12_fields cfg12_noise_fields is_mat_def)

lemma cfg12_term:
  "eta_induced_term cfg12 [[2 / 3]] [[1, 0]]
     (matmul (U_eta cfg12)
        (matmul (slice_mat (Gamma_tilde_c_w cfg12) (N cfg12) (N cfg12 + Nc_eta cfg12) (N cfg12)
                   (N cfg12 + Nc_eta cfg12))
           (UT_eta cfg12))) = [[1 / 25]]"
  by code_simp

lemma cfg12_Jacobians:
  "compute_evolution_operator_Jacobians cfg12 x tk = ([[- 1]], [[1, 0]])"
  by (simp add: compute_evolution_operator_Jacobians_def Let_def cfg12_fields)

lemma cfg12_inverse:
  "linalg_inv cfg12 (msub (eye (N cfg12)) (smult (dt cfg12 / 2) [[- 1]])) = Some [[2 / 3]]"
  by code_simp

text \<open>
  The theorem at the concrete run: the base block is \<open>[[1]]\<close>, each step adds \<open>[[1/25]]\<close>, and
  after the two steps of the run the block is \<open>[[27/25]]\<close>.
\<close>

theorem process_noise_accumulates_witness:
  "0 < N cfg12 \<and> 0 < eta_p cfg12 \<and> is_mat (N cfg12) (N cfg12) (Gamma_alpha_w cfg12) \<and>
   (\<exists>s s'. (1::nat) + 1 < NT cfg12 \<and> 2 \<le> NT cfg12 - 1 \<and>
      iden12_loop cfg12 1 (iden12_init cfg12) = Inr s \<and> iden12_step cfg12 1 s = Inr s' \<and>
      iden12_loop cfg12 2 (iden12_init cfg12) = Inr s' \<and>
      slice_mat (model_Gamma_w (model s')) 0 (N cfg12) 0 (N cfg12)
        = madd (slice_mat (model_Gamma_w (model s)) 0 (N cfg12) 0 (N cfg12)) [[1 / 25]] \<and>
      slice_mat (model_Gamma_w (model s')) 0 (N cfg12) 0 (N cfg12) = [[27 / 25]])"
proof -
  note th = process_noise_accumulates [OF cfg12_pre]
  obtain s' where s': "iden12_loop cfg12 2 (iden12_init cfg12) = Inr s'"
    using iden12_loop_cfg12 [of 2] by (elim exE)
  have two: "(2::nat) = Suc 1" by simp
  from s' obtain s where s: "iden12_loop cfg12 1 (iden12_init cfg12) = Inr s"
    and step: "iden12_step cfg12 1 s = Inr s'"
    unfolding two by (rule iden12_loop_Suc_Inr)
  have h: "(1::nat) + 1 < NT cfg12" "2 \<le> NT cfg12 - 1"
    by (simp_all add: cfg12_fields)
  from th [THEN conjunct2, THEN conjunct1, rule_format, OF h(1) s step, THEN conjunct1]
  have rec: "slice_mat (model_Gamma_w (model s')) 0 (N cfg12) 0 (N cfg12)
        = madd (slice_mat (model_Gamma_w (model s)) 0 (N cfg12) 0 (N cfg12))
            (eta_induced_term cfg12 [[2 / 3]] [[1, 0]]
               (matmul (U_eta cfg12)
                  (matmul (slice_mat (model_Gamma_w (model s)) (N cfg12) (N cfg12 + Nc_eta cfg12)
                             (N cfg12) (N cfg12 + Nc_eta cfg12))
                     (UT_eta cfg12))))"
    by (simp add: cfg12_Jacobians cfg12_inverse)
  note L = iden12_loop_noise [OF cfg12_pre s]
  have rec': "slice_mat (model_Gamma_w (model s')) 0 (N cfg12) 0 (N cfg12)
        = madd (slice_mat (model_Gamma_w (model s)) 0 (N cfg12) 0 (N cfg12)) [[1 / 25]]"
    using rec by (simp only: L [THEN conjunct2, THEN conjunct1] cfg12_term)
  from th [THEN conjunct2, THEN conjunct2, rule_format, OF h(2) s']
  have "slice_mat (model_Gamma_w (model s')) 0 (N cfg12) 0 (N cfg12)
        = foldl madd (Gamma_alpha_w cfg12) (map (\<lambda>j. [[1 / 25]]) [0..<2])"
    by (simp only: cfg12_Jacobians fst_conv snd_conv cfg12_inverse option.sel cfg12_term)
  also have "\<dots> = [[27 / 25]]"
    by (simp add: cfg12_noise_fields madd_def mk_mat_def ncols_def upt_rec)
  finally have closed: "slice_mat (model_Gamma_w (model s')) 0 (N cfg12) 0 (N cfg12) = [[27 / 25]]" .
  have "\<exists>s s'. (1::nat) + 1 < NT cfg12 \<and> 2 \<le> NT cfg12 - 1 \<and>
      iden12_loop cfg12 1 (iden12_init cfg12) = Inr s \<and> iden12_step cfg12 1 s = Inr s' \<and>
      iden12_loop cfg12 2 (iden12_init cfg12) = Inr s' \<and>
      slice_mat (model_Gamma_w (model s')) 0 (N cfg12) 0 (N cfg12)
        = madd (slice_mat (model_Gamma_w (model s)) 0 (N cfg12) 0 (N cfg12)) [[1 / 25]] \<and>
      slice_mat (model_Gamma_w (model s')) 0 (N cfg12) 0 (N cfg12) = [[27 / 25]]"
    by (intro exI [where x = s] exI [where x = s'] conjI h s step s' rec' closed)
  then show ?thesis
    by (intro conjI cfg12_pre)
qed

text \<open>
  A loop that writes the same block \<open>B\<close> along the diagonal: after \<open>m\<close> passes the first \<open>m\<close>
  diagonal blocks are \<open>B\<close>.
\<close>

lemma diagonal_blocks_loop:
  assumes B: "is_mat r k B" and pos: "0 < p * r"
  defines "G \<equiv> \<lambda>m. foldl (\<lambda>U i. assign_block U (i * r) ((i + 1) * r) (i * k) ((i + 1) * k) B)
                       (zeros (p * r) (p * k)) [0..<m]"
  shows "m \<le> p \<Longrightarrow>
     is_mat (p * r) (p * k) (G m) \<and>
     (\<forall>i a b. i < m \<longrightarrow> a < r \<longrightarrow> b < k \<longrightarrow> G m ! (i * r + a) ! (i * k + b) = B ! a ! b)"
proof (induction m)
  case 0
  show ?case by (simp add: G_def)
next
  case (Suc m)
  then have m: "m \<le> p" and mp: "m < p" by simp_all
  from Suc.IH [OF m]
  have Gm: "is_mat (p * r) (p * k) (G m)"
    and I: "\<And>i a b. i < m \<Longrightarrow> a < r \<Longrightarrow> b < k \<Longrightarrow> G m ! (i * r + a) ! (i * k + b) = B ! a ! b"
    by simp_all
  have step: "G (Suc m) = assign_block (G m) (m * r) (r + m * r) (m * k) (k + m * k) B"
    by (simp add: G_def)
  have 1: "is_mat (p * r) (p * k) (G (Suc m))"
    unfolding step by (intro is_mat_assign_block Gm pos)
  have 2: "G (Suc m) ! (i * r + a) ! (i * k + b) = B ! a ! b"
    if "i < Suc m" "a < r" "b < k" for i a b
  proof -
    have ip: "i < p" using that(1) Suc.prems by simp
    have row: "i * r + a < p * r" by (rule block_index_less [OF ip that(2)])
    have col: "i * k + b < p * k" by (rule block_index_less [OF ip that(3)])
    show ?thesis
    proof (cases "i = m")
      case True
      then show ?thesis
        unfolding step using that row col by (simp add: nth_assign_block [OF Gm])
    next
      case False
      then have im: "i < m" using that(1) by simp
      have "i * r + a < m * r" by (rule block_index_less [OF im that(2)])
      then show ?thesis
        unfolding step using row col by (simp add: nth_assign_block [OF Gm] I [OF im that(2,3)])
    qed
  qed
  show ?case using 1 2 by simp
qed

lemma diagonal_blocks:
  assumes B: "is_mat r k B" and pos: "0 < p * r" and i: "i < p"
  defines "G \<equiv> foldl (\<lambda>U i. assign_block U (i * r) ((i + 1) * r) (i * k) ((i + 1) * k) B)
                   (zeros (p * r) (p * k)) [0..<p]"
  shows "slice_mat G (i * r) ((i + 1) * r) (i * k) ((i + 1) * k) = B"
proof (rule mat_eqI [where r = r and c = k])
  from diagonal_blocks_loop [OF B pos order_refl]
  have G: "is_mat (p * r) (p * k) G"
    and I: "\<And>i a b. i < p \<Longrightarrow> a < r \<Longrightarrow> b < k \<Longrightarrow> G ! (i * r + a) ! (i * k + b) = B ! a ! b"
    by (simp_all add: G_def)
  have le: "(i + 1) * r \<le> p * r" "(i + 1) * k \<le> p * k"
    by (rule block_index_le, use i in simp)+
  have "is_mat ((i + 1) * r - i * r) ((i + 1) * k - i * k)
          (slice_mat G (i * r) ((i + 1) * r) (i * k) ((i + 1) * k))"
    by (rule is_mat_slice_mat [OF G le])
  then show "is_mat r k (slice_mat G (i * r) ((i + 1) * r) (i * k) ((i + 1) * k))" by simp
  show "is_mat r k B" by (rule B)
  fix a b assume ab: "a < r" "b < k"
  then show "slice_mat G (i * r) ((i + 1) * r) (i * k) ((i + 1) * k) ! a ! b = B ! a ! b"
    using nth_slice_mat [OF G le, of a "i * r" b "i * k"] by (simp add: I [OF i ab])
qed

lemma slice_U_eta_p:
  assumes s: "iden12_shapes c" and i: "i < eta_p c"
  shows "slice_mat (U_eta_p c) (i * N_eta c) ((i + 1) * N_eta c) (i * Nc_eta c) ((i + 1) * Nc_eta c)
         = U_eta c"
  unfolding U_eta_p_def
  by (rule diagonal_blocks [OF shapes_U(1) [OF s] shapes_pos(5) [OF s] i])

lemma slice_UT_eta_p:
  assumes s: "iden12_shapes c" and i: "i < eta_p c"
  shows "slice_mat (UT_eta_p c) (i * Nc_eta c) ((i + 1) * Nc_eta c) (i * N_eta c) ((i + 1) * N_eta c)
         = UT_eta c"
  unfolding UT_eta_p_def
  by (rule diagonal_blocks [OF shapes_U(2) [OF s] shapes_pos(6) [OF s] i])

lemma is_mat_congruence_p:
  assumes s: "iden12_shapes c" and G: "is_mat (eta_p c * N_eta c) (eta_p c * N_eta c) G"
  shows "is_mat (eta_p c * Nc_eta c) (eta_p c * Nc_eta c) (matmul (UT_eta_p c) (matmul G (U_eta_p c)))"
  by (intro is_mat_matmul [OF is_mat_UT_eta_p [OF s]] is_mat_matmul [OF G] is_mat_U_eta_p [OF s]
        shapes_pos [OF s])

lemma is_mat_Gamma_eta_tilde_prior:
  assumes s: "iden12_shapes c"
  shows "is_mat (eta_p c * N_eta c) (eta_p c * N_eta c) (Gamma_eta_tilde_prior c)"
  unfolding Gamma_eta_tilde_prior_def
  by (rule is_mat_foldl) (simp_all add: is_mat_assign_block shapes_pos [OF s])

lemma is_mat_Gamma_eta_tilde_w:
  assumes s: "iden12_shapes c"
  shows "is_mat (eta_p c * N_eta c) (eta_p c * N_eta c) (Gamma_eta_tilde_w c)"
  unfolding Gamma_eta_tilde_w_def
  by (simp add: is_mat_assign_block shapes_pos [OF s])

lemma slice_x_tilde_c_prior:
  assumes s: "iden12_shapes c"
  shows "slice_vec (x_tilde_c_prior c) (N c) (N c + eta_p c * Nc_eta c)
         = matvec (UT_eta_p c) (eta_tilde_prior c)"
proof -
  have "length (matvec (UT_eta_p c) (eta_tilde_prior c)) = N c + eta_p c * Nc_eta c - N c"
    using is_mat_UT_eta_p [OF s] by (simp add: is_mat_length)
  then show ?thesis
    unfolding x_tilde_c_prior_def Let_def eta_tilde_c_prior_def
    by (rule slice_vec_assign_slice) simp
qed

lemma slice_lower_block:
  assumes B: "is_mat m m B" and n: "0 < n"
  shows "slice_mat (assign_block (assign_block (zeros (n + m) (n + m)) 0 n 0 n A) n (n + m) n (n + m) B)
           n (n + m) n (n + m) = B"
proof -
  have G1: "is_mat (n + m) (n + m) (assign_block (zeros (n + m) (n + m)) 0 n 0 n A)"
    using n by (simp add: is_mat_assign_block)
  show ?thesis
    by (rule slice_mat_assign_block [OF G1]) (use B in simp_all)
qed

lemma slice_Gamma_tilde_c_prior:
  assumes s: "iden12_shapes c"
  shows "slice_mat (Gamma_tilde_c_prior c) (N c) (N c + eta_p c * Nc_eta c) (N c) (N c + eta_p c * Nc_eta c)
         = matmul (UT_eta_p c) (matmul (Gamma_eta_tilde_prior c) (U_eta_p c))"
  unfolding Gamma_tilde_c_prior_def Let_def Gamma_eta_tilde_c_prior_def
  by (rule slice_lower_block [OF is_mat_congruence_p [OF s is_mat_Gamma_eta_tilde_prior [OF s]]
        shapes_pos(1) [OF s]])

lemma slice_Gamma_tilde_c_w:
  assumes s: "iden12_shapes c"
  shows "slice_mat (Gamma_tilde_c_w c) (N c) (N c + eta_p c * Nc_eta c) (N c) (N c + eta_p c * Nc_eta c)
         = matmul (UT_eta_p c) (matmul (Gamma_eta_tilde_w c) (U_eta_p c))"
  unfolding Gamma_tilde_c_w_def Let_def Gamma_eta_tilde_c_w_def
  by (rule slice_lower_block [OF is_mat_congruence_p [OF s is_mat_Gamma_eta_tilde_w [OF s]]
        shapes_pos(1) [OF s]])

lemma is_mat_Gamma_c_of:
  assumes "0 < N c" "k < NT c"
  shows "is_mat (N c + Nc_eta c) (N c + Nc_eta c) (Gamma_c_of c Gs ! k)"
  using assms by (simp add: Gamma_c_of_def Let_def is_mat_assign_block)

lemma slice_x_of:
  assumes s: "iden12_shapes c" and k: "k < NT c"
  shows "slice_vec (x_of c x_c ! k) (N c) (N c + N_eta c)
         = matvec (U_eta c) (slice_vec (x_c ! k) (N c) (N c + Nc_eta c))"
proof -
  have "length (matvec (U_eta c) (slice_vec (x_c ! k) (N c) (N c + Nc_eta c))) = N c + N_eta c - N c"
    by (simp add: shapes_U(3) [OF s])
  then have "slice_vec (assign_slice
               (assign_slice (zeros_vec (N c + N_eta c)) 0 (N c) (slice_vec (x_c ! k) 0 (N c)))
               (N c) (N c + N_eta c)
               (matvec (U_eta c) (slice_vec (x_c ! k) (N c) (N c + Nc_eta c)))) (N c) (N c + N_eta c)
        = matvec (U_eta c) (slice_vec (x_c ! k) (N c) (N c + Nc_eta c))"
    by (rule slice_vec_assign_slice) simp
  then show ?thesis using k by (simp add: x_of_def Let_def)
qed

lemma slice_Gamma_of:
  assumes s: "iden12_shapes c" and k: "k < NT c"
    and G: "is_mat (N c + Nc_eta c) (N c + Nc_eta c) (Gamma_c ! k)"
  shows "slice_mat (Gamma_of c Gamma_c ! k) (N c) (N c + N_eta c) (N c) (N c + N_eta c)
         = matmul (U_eta c)
             (matmul (slice_mat (Gamma_c ! k) (N c) (N c + Nc_eta c) (N c) (N c + Nc_eta c)) (UT_eta c))"
proof -
  note pos = shapes_pos [OF s]
  have "is_mat (N c + Nc_eta c - N c) (N c + Nc_eta c - N c)
          (slice_mat (Gamma_c ! k) (N c) (N c + Nc_eta c) (N c) (N c + Nc_eta c))"
    by (rule is_mat_slice_mat [OF G]) simp_all
  then have S: "is_mat (Nc_eta c) (Nc_eta c)
          (slice_mat (Gamma_c ! k) (N c) (N c + Nc_eta c) (N c) (N c + Nc_eta c))" by simp
  have B: "is_mat (N_eta c) (N_eta c)
     (matmul (U_eta c)
        (matmul (slice_mat (Gamma_c ! k) (N c) (N c + Nc_eta c) (N c) (N c + Nc_eta c)) (UT_eta c)))"
    by (intro is_mat_matmul [OF shapes_U(1) [OF s]] is_mat_matmul [OF S shapes_U(2) [OF s]] pos)
  have "slice_mat (assign_block
           (assign_block (zeros (N c + N_eta c) (N c + N_eta c)) 0 (N c) 0 (N c)
              (slice_mat (Gamma_c ! k) 0 (N c) 0 (N c)))
           (N c) (N c + N_eta c) (N c) (N c + N_eta c)
           (matmul (U_eta c)
              (matmul (slice_mat (Gamma_c ! k) (N c) (N c + Nc_eta c) (N c) (N c + Nc_eta c)) (UT_eta c))))
          (N c) (N c + N_eta c) (N c) (N c + N_eta c)
        = matmul (U_eta c)
            (matmul (slice_mat (Gamma_c ! k) (N c) (N c + Nc_eta c) (N c) (N c + Nc_eta c)) (UT_eta c))"
    by (rule slice_lower_block [OF B pos(1)])
  then show ?thesis using k by (simp add: Gamma_of_def Let_def)
qed

lemma iden12_main_Inr:
  assumes "iden12_main c = Inr post"
  obtains s xs Gs where "iden12_filter c = Inr s" "smoothed c s = (xs, Gs)"
    "post_x_tilde_c post = xs" "post_Gamma_tilde_c post = Gs"
    "post_x_c post = x_c_of c xs" "post_Gamma_c post = Gamma_c_of c Gs"
    "post_x post = x_of c (x_c_of c xs)" "post_Gamma post = Gamma_of c (Gamma_c_of c Gs)"
  using assms by (auto simp: iden12_main_def split: sum.splits prod.splits)

section \<open>The continuity transform on means and covariances\<close>

text \<open>
  Claim C4. The transform of the continuity constraint and of the VAR model is applied in
  the same way to a mean and to its covariance. \<open>U_eta_p\<close> and \<open>UT_eta_p\<close> carry \<open>U_eta\<close> and
  \<open>UT_eta\<close> in every diagonal block. Where the mean is reduced, \<open>eta_tilde_c = UT\<cdot>eta_tilde\<close>, the
  covariance is \<open>UT\<cdot>Gamma\<cdot>U\<close>: so for the prior and for the process noise, as they enter the
  state of the filter. Where the mean is expanded, \<open>eta = U\<cdot>eta_c\<close>, the covariance is
  \<open>U\<cdot>Gamma_c\<cdot>UT\<close>: so for every column of the posterior trajectory, and so inside a step, where
  the Jacobians are taken at \<open>U_eta\<cdot>eta_c\<close> and the noise of \<open>alpha\<close> uses \<open>U_eta\<cdot>Gamma_c\<cdot>UT_eta\<close>.
  Here \<open>UT_eta\<close> is the second matrix that \<^verbatim>\<open>compute_U\<close> returns.
\<close>

theorem continuity_transform_consistent:
  assumes shapes: "iden12_shapes c"
  shows
   "(\<forall>i<eta_p c.
       slice_mat (U_eta_p c) (i * N_eta c) ((i + 1) * N_eta c) (i * Nc_eta c) ((i + 1) * Nc_eta c) = U_eta c \<and>
       slice_mat (UT_eta_p c) (i * Nc_eta c) ((i + 1) * Nc_eta c) (i * N_eta c) ((i + 1) * N_eta c) = UT_eta c) \<and>
    (slice_vec (x_tilde_c_prior c) (N c) (N c + eta_p c * Nc_eta c)
       = matvec (UT_eta_p c) (eta_tilde_prior c) \<and>
     slice_mat (Gamma_tilde_c_prior c) (N c) (N c + eta_p c * Nc_eta c) (N c) (N c + eta_p c * Nc_eta c)
       = matmul (UT_eta_p c) (matmul (Gamma_eta_tilde_prior c) (U_eta_p c))) \<and>
    slice_mat (Gamma_tilde_c_w c) (N c) (N c + eta_p c * Nc_eta c) (N c) (N c + eta_p c * Nc_eta c)
       = matmul (UT_eta_p c) (matmul (Gamma_eta_tilde_w c) (U_eta_p c)) \<and>
    (\<forall>post k. iden12_main c = Inr post \<longrightarrow> k < NT c \<longrightarrow>
       slice_vec (post_x post ! k) (N c) (N c + N_eta c)
         = matvec (U_eta c) (slice_vec (post_x_c post ! k) (N c) (N c + Nc_eta c)) \<and>
       slice_mat (post_Gamma post ! k) (N c) (N c + N_eta c) (N c) (N c + N_eta c)
         = matmul (U_eta c)
             (matmul (slice_mat (post_Gamma_c post ! k) (N c) (N c + Nc_eta c) (N c) (N c + Nc_eta c))
                (UT_eta c))) \<and>
    (\<forall>x tk G Je M. length x = N c + eta_p c * Nc_eta c \<longrightarrow>
       is_mat (N c + eta_p c * Nc_eta c) (N c + eta_p c * Nc_eta c) G \<longrightarrow>
       linalg_inv c (msub (eye (N c)) (smult (dt c / 2)
          (fst (compute_evolution_operator_Jacobians c x tk)))) = Some M \<longrightarrow>
       compute_evolution_operator_Jacobians c x tk
         = (eval_d_alpha c (slice_vec x 0 (N c) @ matvec (U_eta c) (slice_vec x (N c) (N c + Nc_eta c))) tk,
            eval_d_eta c (slice_vec x 0 (N c) @ matvec (U_eta c) (slice_vec x (N c) (N c + Nc_eta c))) tk) \<and>
       compute_evolution_operator_alpha_covariance c G
           (fst (compute_evolution_operator_Jacobians c x tk)) Je
         = Inr (madd (slice_mat G 0 (N c) 0 (N c))
             (eta_induced_term c M Je
                (matmul (U_eta c)
                   (matmul (slice_mat G (N c) (N c + Nc_eta c) (N c) (N c + Nc_eta c)) (UT_eta c))))))"
proof (intro conjI allI impI)
  fix i assume i: "i < eta_p c"
  show "slice_mat (U_eta_p c) (i * N_eta c) ((i + 1) * N_eta c) (i * Nc_eta c) ((i + 1) * Nc_eta c) = U_eta c"
    by (rule slice_U_eta_p [OF shapes i])
  show "slice_mat (UT_eta_p c) (i * Nc_eta c) ((i + 1) * Nc_eta c) (i * N_eta c) ((i + 1) * N_eta c) = UT_eta c"
    by (rule slice_UT_eta_p [OF shapes i])
next
  show "slice_vec (x_tilde_c_prior c) (N c) (N c + eta_p c * Nc_eta c)
       = matvec (UT_eta_p c) (eta_tilde_prior c)"
    by (rule slice_x_tilde_c_prior [OF shapes])
  show "slice_mat (Gamma_tilde_c_prior c) (N c) (N c + eta_p c * Nc_eta c) (N c) (N c + eta_p c * Nc_eta c)
       = matmul (UT_eta_p c) (matmul (Gamma_eta_tilde_prior c) (U_eta_p c))"
    by (rule slice_Gamma_tilde_c_prior [OF shapes])
  show "slice_mat (Gamma_tilde_c_w c) (N c) (N c + eta_p c * Nc_eta c) (N c) (N c + eta_p c * Nc_eta c)
       = matmul (UT_eta_p c) (matmul (Gamma_eta_tilde_w c) (U_eta_p c))"
    by (rule slice_Gamma_tilde_c_w [OF shapes])
next
  fix post k assume run: "iden12_main c = Inr post" and k: "k < NT c"
  from run obtain xs Gs where post: "post_x_c post = x_c_of c xs" "post_Gamma_c post = Gamma_c_of c Gs"
    "post_x post = x_of c (x_c_of c xs)" "post_Gamma post = Gamma_of c (Gamma_c_of c Gs)"
    by (rule iden12_main_Inr)
  show "slice_vec (post_x post ! k) (N c) (N c + N_eta c)
         = matvec (U_eta c) (slice_vec (post_x_c post ! k) (N c) (N c + Nc_eta c))"
    unfolding post by (rule slice_x_of [OF shapes k])
  show "slice_mat (post_Gamma post ! k) (N c) (N c + N_eta c) (N c) (N c + N_eta c)
         = matmul (U_eta c)
             (matmul (slice_mat (post_Gamma_c post ! k) (N c) (N c + Nc_eta c) (N c) (N c + Nc_eta c))
                (UT_eta c))"
    unfolding post
    by (rule slice_Gamma_of [OF shapes k is_mat_Gamma_c_of [OF shapes_pos(1) [OF shapes] k]])
next
  fix x tk G Je M
  assume len: "length x = N c + eta_p c * Nc_eta c"
    and G: "is_mat (N c + eta_p c * Nc_eta c) (N c + eta_p c * Nc_eta c) G"
    and inv: "linalg_inv c (msub (eye (N c)) (smult (dt c / 2)
          (fst (compute_evolution_operator_Jacobians c x tk)))) = Some M"
  show "compute_evolution_operator_Jacobians c x tk
         = (eval_d_alpha c (slice_vec x 0 (N c) @ matvec (U_eta c) (slice_vec x (N c) (N c + Nc_eta c))) tk,
            eval_d_eta c (slice_vec x 0 (N c) @ matvec (U_eta c) (slice_vec x (N c) (N c + Nc_eta c))) tk)"
    using compute_evolution_operator_Jacobians_eq [OF len shapes_pos(4) [OF shapes] shapes_U(3) [OF shapes]]
    by (simp only: x_star_of_def alpha_of_def eta_of_def)
  show "compute_evolution_operator_alpha_covariance c G
           (fst (compute_evolution_operator_Jacobians c x tk)) Je
         = Inr (madd (slice_mat G 0 (N c) 0 (N c))
             (eta_induced_term c M Je
                (matmul (U_eta c)
                   (matmul (slice_mat G (N c) (N c + Nc_eta c) (N c) (N c + Nc_eta c)) (UT_eta c)))))"
    by (rule alpha_covariance_eq [OF G shapes_pos(4) [OF shapes] inv])
qed

lemma iden12_main_cfg12: "\<exists>post. iden12_main cfg12 = Inr post"
proof -
  obtain s where "iden12_filter cfg12 = Inr s" using iden12_filter_cfg12 by (elim exE)
  then show ?thesis by (simp add: iden12_main_def split: prod.split)
qed

text \<open>
  The theorem at the concrete run: the first diagonal blocks, and the first column of the
  posterior.
\<close>

theorem continuity_transform_consistent_witness:
  "iden12_shapes cfg12 \<and> 0 < eta_p cfg12 \<and> 0 < NT cfg12 \<and>
   slice_mat (U_eta_p cfg12) (0 * N_eta cfg12) ((0 + 1) * N_eta cfg12)
     (0 * Nc_eta cfg12) ((0 + 1) * Nc_eta cfg12) = U_eta cfg12 \<and>
   (\<exists>post. iden12_main cfg12 = Inr post \<and>
      slice_vec (post_x post ! 0) (N cfg12) (N cfg12 + N_eta cfg12)
        = matvec (U_eta cfg12) (slice_vec (post_x_c post ! 0) (N cfg12) (N cfg12 + Nc_eta cfg12)) \<and>
      slice_mat (post_Gamma post ! 0) (N cfg12) (N cfg12 + N_eta cfg12) (N cfg12) (N cfg12 + N_eta cfg12)
        = matmul (U_eta cfg12)
            (matmul (slice_mat (post_Gamma_c post ! 0) (N cfg12) (N cfg12 + Nc_eta cfg12)
                       (N cfg12) (N cfg12 + Nc_eta cfg12))
               (UT_eta cfg12))) \<and>
   length [1, 1, 1 :: real] = N cfg12 + eta_p cfg12 * Nc_eta cfg12 \<and>
   is_mat (N cfg12 + eta_p cfg12 * Nc_eta cfg12) (N cfg12 + eta_p cfg12 * Nc_eta cfg12) (Gamma_tilde_c_w cfg12) \<and>
   compute_evolution_operator_alpha_covariance cfg12 (Gamma_tilde_c_w cfg12)
       (fst (compute_evolution_operator_Jacobians cfg12 [1, 1, 1] 0)) [[1, 0]]
     = Inr (madd (slice_mat (Gamma_tilde_c_w cfg12) 0 (N cfg12) 0 (N cfg12))
         (eta_induced_term cfg12 [[2 / 3]] [[1, 0]]
            (matmul (U_eta cfg12)
               (matmul (slice_mat (Gamma_tilde_c_w cfg12) (N cfg12) (N cfg12 + Nc_eta cfg12)
                          (N cfg12) (N cfg12 + Nc_eta cfg12))
                  (UT_eta cfg12)))))"
proof -
  note th = continuity_transform_consistent [OF shapes_cfg12]
  obtain post where post: "iden12_main cfg12 = Inr post" using iden12_main_cfg12 by (elim exE)
  have G: "is_mat (N cfg12 + eta_p cfg12 * Nc_eta cfg12) (N cfg12 + eta_p cfg12 * Nc_eta cfg12)
             (Gamma_tilde_c_w cfg12)"
    by (rule is_mat_Gamma_tilde_c_w [OF cfg12_pre(1)])
  have inv: "linalg_inv cfg12 (msub (eye (N cfg12)) (smult (dt cfg12 / 2)
          (fst (compute_evolution_operator_Jacobians cfg12 [1, 1, 1] 0)))) = Some [[2 / 3]]"
    by (simp only: cfg12_Jacobians fst_conv cfg12_inverse)
  note A = th [THEN conjunct1, rule_format, OF cfg12_pre(2), THEN conjunct1]
  note D = th [THEN conjunct2, THEN conjunct2, THEN conjunct2, THEN conjunct1, rule_format,
      OF post NT_cfg(2)]
  note E = th [THEN conjunct2, THEN conjunct2, THEN conjunct2, THEN conjunct2, rule_format,
      OF len_cfg12 G inv, THEN conjunct2]
  have "\<exists>post. iden12_main cfg12 = Inr post \<and>
      slice_vec (post_x post ! 0) (N cfg12) (N cfg12 + N_eta cfg12)
        = matvec (U_eta cfg12) (slice_vec (post_x_c post ! 0) (N cfg12) (N cfg12 + Nc_eta cfg12)) \<and>
      slice_mat (post_Gamma post ! 0) (N cfg12) (N cfg12 + N_eta cfg12) (N cfg12) (N cfg12 + N_eta cfg12)
        = matmul (U_eta cfg12)
            (matmul (slice_mat (post_Gamma_c post ! 0) (N cfg12) (N cfg12 + Nc_eta cfg12)
                       (N cfg12) (N cfg12 + Nc_eta cfg12))
               (UT_eta cfg12))"
    by (intro exI [where x = post] conjI post D [THEN conjunct1] D [THEN conjunct2])
  then show ?thesis
    by (intro conjI shapes_cfg12 cfg12_pre(2) NT_cfg(2) A len_cfg12 G E)
qed

lemma length_matmul [simp]: "length (matmul A B) = length A"
  by (simp add: matmul_def)

lemma matvec_matmul:
  assumes A: "is_mat r m A" and B: "is_mat m k B" and v: "length v = k" and m: "0 < m"
  shows "matvec (matmul A B) v = matvec A (matvec B v)"
proof (rule vec_eqI [where n = r])
  show "length (matvec (matmul A B) v) = r" using A by (simp add: is_mat_length)
  show "length (matvec A (matvec B v)) = r" using A by (simp add: is_mat_length)
  fix i assume i: "i < r"
  have lenA: "length A = r" and lenB: "length B = m" using A B by (simp_all add: is_mat_length)
  have "matvec (matmul A B) v ! i = (\<Sum>j<k. (\<Sum>l<m. A ! i ! l * B ! l ! j) * v ! j)"
    using i by (simp add: nth_matvec lenA v nth_matmul [OF A B m])
  also have "\<dots> = (\<Sum>j<k. \<Sum>l<m. A ! i ! l * (B ! l ! j * v ! j))"
    by (simp add: sum_distrib_right mult.assoc)
  also have "\<dots> = (\<Sum>l<m. \<Sum>j<k. A ! i ! l * (B ! l ! j * v ! j))"
    by (rule sum.swap)
  also have "\<dots> = (\<Sum>l<m. A ! i ! l * (\<Sum>j<k. B ! l ! j * v ! j))"
    by (simp add: sum_distrib_left)
  also have "\<dots> = matvec A (matvec B v) ! i"
    using i by (simp add: nth_matvec lenA lenB v)
  finally show "matvec (matmul A B) v ! i = matvec A (matvec B v) ! i" .
qed

lemma matmul_assoc:
  assumes A: "is_mat r m A" and B: "is_mat m k B" and C: "is_mat k q C" and m: "0 < m" and k: "0 < k"
  shows "matmul (matmul A B) C = matmul A (matmul B C)"
proof (rule mat_eqI [where r = r and c = q])
  have AB: "is_mat r k (matmul A B)" by (rule is_mat_matmul [OF A B m])
  have BC: "is_mat m q (matmul B C)" by (rule is_mat_matmul [OF B C k])
  show "is_mat r q (matmul (matmul A B) C)" by (rule is_mat_matmul [OF AB C k])
  show "is_mat r q (matmul A (matmul B C))" by (rule is_mat_matmul [OF A BC m])
  fix i j assume i: "i < r" and j: "j < q"
  have "matmul (matmul A B) C ! i ! j = (\<Sum>l<k. (\<Sum>h<m. A ! i ! h * B ! h ! l) * C ! l ! j)"
    using i j by (simp add: nth_matmul [OF AB C k] nth_matmul [OF A B m])
  also have "\<dots> = (\<Sum>l<k. \<Sum>h<m. A ! i ! h * (B ! h ! l * C ! l ! j))"
    by (simp add: sum_distrib_right mult.assoc)
  also have "\<dots> = (\<Sum>h<m. \<Sum>l<k. A ! i ! h * (B ! h ! l * C ! l ! j))"
    by (rule sum.swap)
  also have "\<dots> = (\<Sum>h<m. A ! i ! h * (\<Sum>l<k. B ! h ! l * C ! l ! j))"
    by (simp add: sum_distrib_left)
  also have "\<dots> = matmul A (matmul B C) ! i ! j"
    using i j by (simp add: nth_matmul [OF A BC m] nth_matmul [OF B C k])
  finally show "matmul (matmul A B) C ! i ! j = matmul A (matmul B C) ! i ! j" .
qed

lemma length_eye [simp]: "length (eye n) = n"
  by (simp add: eye_def)

lemma matvec_eye: "length v = n \<Longrightarrow> matvec (eye n) v = v"
proof (rule vec_eqI [where n = n])
  assume v: "length v = n"
  show "length (matvec (eye n) v) = n" by simp
  show "length v = n" by (rule v)
  fix i assume i: "i < n"
  have "matvec (eye n) v ! i = (\<Sum>k<n. eye n ! i ! k * v ! k)"
    using i by (simp add: nth_matvec v)
  also have "\<dots> = (\<Sum>k<n. if k = i then v ! k else 0)"
    by (rule sum.cong) (use i in auto)
  also have "\<dots> = v ! i" using i by simp
  finally show "matvec (eye n) v ! i = v ! i" .
qed

lemma matmul_eye_left:
  assumes A: "is_mat n k A" and n: "0 < n"
  shows "matmul (eye n) A = A"
proof (rule mat_eqI [where r = n and c = k])
  show "is_mat n k (matmul (eye n) A)" by (rule is_mat_matmul [OF is_mat_eye A n])
  show "is_mat n k A" by (rule A)
  fix i j assume i: "i < n" and j: "j < k"
  have "matmul (eye n) A ! i ! j = (\<Sum>l<n. eye n ! i ! l * A ! l ! j)"
    using i j by (simp add: nth_matmul [OF is_mat_eye A n])
  also have "\<dots> = (\<Sum>l<n. if l = i then A ! l ! j else 0)"
    by (rule sum.cong) (use i in auto)
  also have "\<dots> = A ! i ! j" using i by simp
  finally show "matmul (eye n) A ! i ! j = A ! i ! j" .
qed

section \<open>Reduction and expansion under the continuity constraint\<close>

text \<open>
  Claim C5. The null-space matrix \<open>U\<close> has full column rank and \<open>U\<^sup>T\<cdot>U = I\<close>. So
  \<open>U\<^sup>T\<cdot>(U\<cdot>v) = v\<close> for every vector \<open>v\<close> of the reduced space, and \<open>U\<cdot>U\<^sup>T\<close> is an idempotent
  projection onto the continuous subspace, which is the image of the reduced space, of
  \<open>N_eta - (Ne_eta - 1)\<close> coordinates, under \<open>U\<close>. The matrices are the two results of
  \<^verbatim>\<open>compute_U\<close> as the driver holds them; what the specification says of \<^verbatim>\<open>compute_U\<close> is
  the hypothesis. Full column rank is stated as: \<open>U\<close> maps different reduced vectors to
  different vectors.
\<close>

theorem continuity_round_trip:
  assumes spec: "compute_U_spec (N_eta c) (Ne_eta c) (U_eta c, UT_eta c)"
    and pos: "0 < Nc_eta c"
  shows
   "(\<forall>v. length v = Nc_eta c \<longrightarrow> matvec (UT_eta c) (matvec (U_eta c) v) = v) \<and>
    (\<forall>v w. length v = Nc_eta c \<longrightarrow> length w = Nc_eta c \<longrightarrow>
       matvec (U_eta c) v = matvec (U_eta c) w \<longrightarrow> v = w) \<and>
    matmul (matmul (U_eta c) (UT_eta c)) (matmul (U_eta c) (UT_eta c)) = matmul (U_eta c) (UT_eta c) \<and>
    (\<forall>w. length w = N_eta c \<longrightarrow>
       (\<exists>v. length v = Nc_eta c \<and> matvec (matmul (U_eta c) (UT_eta c)) w = matvec (U_eta c) v)) \<and>
    (\<forall>v. length v = Nc_eta c \<longrightarrow>
       matvec (matmul (U_eta c) (UT_eta c)) (matvec (U_eta c) v) = matvec (U_eta c) v)"
proof -
  let ?n = "N_eta c" and ?m = "Nc_eta c"
  let ?U = "U_eta c" and ?UT = "UT_eta c"
  have Nc: "?m = N_eta c - (Ne_eta c - 1)"
    by (simp add: Nc_eta_def num_constraints_eta_def)
  from spec have U: "is_mat ?n ?m ?U" and T: "?UT = np_transpose ?U" and I: "matmul ?UT ?U = eye ?m"
    unfolding compute_U_spec_def Nc by auto
  have n: "0 < ?n" using pos by (simp add: Nc_eta_def)
  have UT: "is_mat ?m ?n ?UT"
    unfolding T by (rule is_mat_np_transpose [OF U n])
  have round: "matvec ?UT (matvec ?U v) = v" if v: "length v = ?m" for v
  proof -
    have "matvec ?UT (matvec ?U v) = matvec (matmul ?UT ?U) v"
      by (rule matvec_matmul [OF UT U v n, symmetric])
    also have "\<dots> = v" by (simp only: I matvec_eye [OF v])
    finally show ?thesis .
  qed
  have inj: "v = w" if "length v = ?m" "length w = ?m" "matvec ?U v = matvec ?U w" for v w
  proof -
    have "v = matvec ?UT (matvec ?U v)" by (rule round [OF that(1), symmetric])
    also have "\<dots> = matvec ?UT (matvec ?U w)" by (simp only: that(3))
    also have "\<dots> = w" by (rule round [OF that(2)])
    finally show ?thesis .
  qed
  have P: "is_mat ?n ?n (matmul ?U ?UT)" by (rule is_mat_matmul [OF U UT pos])
  have idem: "matmul (matmul ?U ?UT) (matmul ?U ?UT) = matmul ?U ?UT"
  proof -
    have "matmul (matmul ?U ?UT) (matmul ?U ?UT) = matmul ?U (matmul ?UT (matmul ?U ?UT))"
      by (rule matmul_assoc [OF U UT P pos n])
    also have "matmul ?UT (matmul ?U ?UT) = matmul (matmul ?UT ?U) ?UT"
      by (rule matmul_assoc [OF UT U UT n pos, symmetric])
    also have "\<dots> = ?UT" by (simp only: I matmul_eye_left [OF UT pos])
    finally show ?thesis .
  qed
  have proj: "matvec (matmul ?U ?UT) w = matvec ?U (matvec ?UT w)" if "length w = ?n" for w
    by (rule matvec_matmul [OF U UT that pos])
  have into: "\<exists>v. length v = ?m \<and> matvec (matmul ?U ?UT) w = matvec ?U v" if w: "length w = ?n" for w
  proof (intro exI conjI)
    show "length (matvec ?UT w) = ?m" using UT by (simp add: is_mat_length)
    show "matvec (matmul ?U ?UT) w = matvec ?U (matvec ?UT w)" by (rule proj [OF w])
  qed
  have fixes_U: "matvec (matmul ?U ?UT) (matvec ?U v) = matvec ?U v" if v: "length v = ?m" for v
  proof -
    have "length (matvec ?U v) = ?n" using U by (simp add: is_mat_length)
    from proj [OF this] show ?thesis by (simp only: round [OF v])
  qed
  show ?thesis
    using round inj idem into fixes_U by (intro conjI allI impI) blast+
qed

lemma compute_U_spec_cfg12: "compute_U_spec (N_eta cfg12) (Ne_eta cfg12) (U_eta cfg12, UT_eta cfg12)"
  by (simp add: compute_U_spec_def cfg12_fields is_mat_def np_transpose_def array_eval)

text \<open>
  The theorem at the concrete pair, the column \<open>(3/5, 4/5)\<close> and its transpose: the vector
  \<open>[5]\<close> goes to \<open>[3, 4]\<close> and back.
\<close>

theorem continuity_round_trip_witness:
  "compute_U_spec (N_eta cfg12) (Ne_eta cfg12) (U_eta cfg12, UT_eta cfg12) \<and> 0 < Nc_eta cfg12 \<and>
   length [5 :: real] = Nc_eta cfg12 \<and> length [1, 2 :: real] = N_eta cfg12 \<and>
   matvec (U_eta cfg12) [5] = [3, 4] \<and>
   matvec (UT_eta cfg12) (matvec (U_eta cfg12) [5]) = [5] \<and>
   matmul (matmul (U_eta cfg12) (UT_eta cfg12)) (matmul (U_eta cfg12) (UT_eta cfg12))
     = matmul (U_eta cfg12) (UT_eta cfg12) \<and>
   (\<exists>v. length v = Nc_eta cfg12 \<and>
        matvec (matmul (U_eta cfg12) (UT_eta cfg12)) [1, 2] = matvec (U_eta cfg12) v) \<and>
   matvec (matmul (U_eta cfg12) (UT_eta cfg12)) (matvec (U_eta cfg12) [5]) = matvec (U_eta cfg12) [5]"
proof -
  have h: "0 < Nc_eta cfg12" "length [5 :: real] = Nc_eta cfg12" "length [1, 2 :: real] = N_eta cfg12"
    by (simp_all add: Nc_eta_cfg12 cfg12_fields)
  have e: "matvec (U_eta cfg12) [5] = [3, 4]"
    by (simp add: cfg12_fields array_eval)
  note th = continuity_round_trip [OF compute_U_spec_cfg12 h(1)]
  note A = th [THEN conjunct1, rule_format, OF h(2)]
  note C = th [THEN conjunct2, THEN conjunct2, THEN conjunct1]
  note D = th [THEN conjunct2, THEN conjunct2, THEN conjunct2, THEN conjunct1, rule_format, OF h(3)]
  note E = th [THEN conjunct2, THEN conjunct2, THEN conjunct2, THEN conjunct2, rule_format, OF h(2)]
  show ?thesis
    by (intro conjI compute_U_spec_cfg12 h e A C D E)
qed

text \<open>
  The filter does not read the switch of the smoother nor the smoother: every value it is
  made of is the same after they are changed.
\<close>

lemma Nc_eta_smoothing [simp]:
  "Nc_eta (c\<lparr>smoothing := b, compute_fixed_interval_Kalman_smoother := f\<rparr>) = Nc_eta c"
  by (simp add: Nc_eta_def num_constraints_eta_def)

lemma U_eta_p_smoothing [simp]:
  "U_eta_p (c\<lparr>smoothing := b, compute_fixed_interval_Kalman_smoother := f\<rparr>) = U_eta_p c"
  "UT_eta_p (c\<lparr>smoothing := b, compute_fixed_interval_Kalman_smoother := f\<rparr>) = UT_eta_p c"
  by (simp_all add: U_eta_p_def UT_eta_p_def)

lemma A_eta_smoothing [simp]:
  "A_eta (c\<lparr>smoothing := b, compute_fixed_interval_Kalman_smoother := f\<rparr>) = A_eta c"
proof -
  have "A_eta_body (c\<lparr>smoothing := b, compute_fixed_interval_Kalman_smoother := f\<rparr>) = A_eta_body c"
    by (simp add: fun_eq_iff A_eta_body_def)
  then show ?thesis by (simp add: A_eta_def)
qed

lemma B_eta_smoothing [simp]:
  "B_eta (c\<lparr>smoothing := b, compute_fixed_interval_Kalman_smoother := f\<rparr>) = B_eta c"
  "C_eta (c\<lparr>smoothing := b, compute_fixed_interval_Kalman_smoother := f\<rparr>) = C_eta c"
  by (simp_all add: B_eta_def C_eta_def)

lemma operators_smoothing [simp]:
  "compute_evolution_operator_Jacobians (c\<lparr>smoothing := b, compute_fixed_interval_Kalman_smoother := f\<rparr>)
     = compute_evolution_operator_Jacobians c"
  "iden12_compute_evolution_operator (c\<lparr>smoothing := b, compute_fixed_interval_Kalman_smoother := f\<rparr>)
     = iden12_compute_evolution_operator c"
  "compute_evolution_operator_alpha_covariance (c\<lparr>smoothing := b, compute_fixed_interval_Kalman_smoother := f\<rparr>)
     = compute_evolution_operator_alpha_covariance c"
  by (simp_all add: fun_eq_iff compute_evolution_operator_Jacobians_def
      iden12_compute_evolution_operator_def compute_evolution_operator_alpha_covariance_def
      Let_def cong: option.case_cong)

lemma observation_smoothing [simp]:
  "H (c\<lparr>smoothing := b, compute_fixed_interval_Kalman_smoother := f\<rparr>) = H c"
  "Gamma_v (c\<lparr>smoothing := b, compute_fixed_interval_Kalman_smoother := f\<rparr>) = Gamma_v c"
  by (simp_all add: H_def Gamma_v_def)

lemma noise_smoothing [simp]:
  "Gamma_tilde_c_w (c\<lparr>smoothing := b, compute_fixed_interval_Kalman_smoother := f\<rparr>) = Gamma_tilde_c_w c"
  by (simp add: Gamma_tilde_c_w_def Gamma_eta_tilde_c_w_def Gamma_eta_tilde_w_def)

lemma prior_smoothing [simp]:
  "x_tilde_c_prior (c\<lparr>smoothing := b, compute_fixed_interval_Kalman_smoother := f\<rparr>) = x_tilde_c_prior c"
  "Gamma_tilde_c_prior (c\<lparr>smoothing := b, compute_fixed_interval_Kalman_smoother := f\<rparr>)
     = Gamma_tilde_c_prior c"
  by (simp_all add: x_tilde_c_prior_def Gamma_tilde_c_prior_def eta_tilde_c_prior_def
      Gamma_eta_tilde_c_prior_def eta_tilde_prior_def Gamma_eta_tilde_prior_def)

lemma iden12_init_smoothing [simp]:
  "iden12_init (c\<lparr>smoothing := b, compute_fixed_interval_Kalman_smoother := f\<rparr>) = iden12_init c"
  by (simp add: iden12_init_def)

lemma iden12_step_smoothing [simp]:
  "iden12_step (c\<lparr>smoothing := b, compute_fixed_interval_Kalman_smoother := f\<rparr>) k s = iden12_step c k s"
  by (simp add: iden12_step_def Let_def cong: sum.case_cong prod.case_cong)

lemma iden12_loop_smoothing [simp]:
  "iden12_loop (c\<lparr>smoothing := b, compute_fixed_interval_Kalman_smoother := f\<rparr>) n s = iden12_loop c n s"
  by (induction n) (simp_all cong: sum.case_cong)





section \<open>Determinism\<close>



end
